theory Spec2Isabelle
  imports Complex_Main "HOL-Library.Multiset"
begin

section \<open>Common conventions\<close>

text \<open>
  Python floats are modelled as reals and float arithmetic as exact, with one exception. In
  \<open>build\<close> the number of steps is the truncation of a float product, and exact arithmetic
  gets it wrong at ordinary step lengths (3600 steps against Python's 3599 for a week in
  steps of 168 seconds); there \<open>steps_desired\<close> and \<open>steps_ratio\<close> are computed with every
  operation rounded to 53 significant bits (\<open>fl64\<close>). Infinities, NaN, overflow and
  subnormal numbers are outside the model. Every exception the modelled code can raise is a
  value of \<open>py_error\<close>; all of them are subclasses of Python's \<open>Exception\<close>.
\<close>

datatype py_error =
    ZeroDivisionError
  | IndexError
  | KeyError string
  | ValueError
  | TypeError
  | OSError
  | RequestError
  | PlainException string

section \<open>Dispatch controller (weighted multi-source allocator)\<close>

text \<open>
  The controller class (\<open>controller_l2_energy_management_system.ControllerGeneric\<close>) is
  used by \<open>examples/basic_dynamic_components.py\<close>, which registers each source with a
  weight, but its own module is not among the source files. The allocation walk is
  therefore written from section 4.3 of the specification.
\<close>

record source =
  weight :: real
  capacity :: real

text \<open>
  Modelled from the spec: the amount one source takes of the outstanding requirement. The
  controller module is missing; section 4.3 says a source is allocated "as much of the
  outstanding requirement ... as its own declared capacity-derived output currently
  allows", and that a negative requirement is walked "in the opposite polarity".
\<close>

definition allocation :: "real \<Rightarrow> real \<Rightarrow> real" where
  "allocation outstanding cap =
     (if 0 \<le> outstanding then min outstanding cap else max outstanding (- cap))"

text \<open>
  Modelled from the spec: the walk over the capacities of the sorted sources, "decrementing
  the outstanding requirement" after each allocation.
\<close>

fun allocate_walk :: "real \<Rightarrow> real list \<Rightarrow> real list" where
  "allocate_walk outstanding [] = []"
| "allocate_walk outstanding (cap # caps) =
     (let a = allocation outstanding cap in a # allocate_walk (outstanding - a) caps)"

text \<open>
  Modelled from the spec: "sort bound sources by weight ascending", then walk the sorted
  list "emitting a target output for each source equal to its allocation".
\<close>

definition sorted_sources :: "source list \<Rightarrow> source list" where
  "sorted_sources srcs = sort_key weight srcs"

definition dispatch_targets :: "source list \<Rightarrow> real \<Rightarrow> real list" where
  "dispatch_targets srcs requirement =
     allocate_walk requirement (map capacity (sorted_sources srcs))"

section \<open>Scheduler: the convergence loop of one time step\<close>

text \<open>
  The scheduler (\<open>hisim.simulator\<close>) is reached only through \<open>hisim_main.main\<close> in
  \<open>tests/test_examples.py\<close>; its module is not among the source files. The loop is
  written from section 4.2 of the specification.
\<close>

type_synonym store = "string \<times> string \<Rightarrow> real"

record component =
  execute :: "store \<Rightarrow> py_error + store"
  doublecheck :: "(store \<Rightarrow> bool) option"

text \<open>
  Modelled from the spec: \<open>Execute(order)\<close>, "run components in resolved order"; "failure
  in any single component's step execution is fatal to the whole run".
\<close>

fun execute_order :: "component list \<Rightarrow> store \<Rightarrow> py_error + store" where
  "execute_order [] v = Inr v"
| "execute_order (c # cs) v =
     (case execute c v of Inl e \<Rightarrow> Inl e | Inr v' \<Rightarrow> execute_order cs v')"

text \<open>
  Modelled from the spec: \<open>Doublecheck\<close>, "the scheduler collects a boolean stable verdict
  from every component that declared a convergence check".
\<close>

definition all_stable :: "component list \<Rightarrow> store \<Rightarrow> bool" where
  "all_stable cs v =
     list_all (\<lambda>c. case doublecheck c of None \<Rightarrow> True | Some chk \<Rightarrow> chk v) cs"

datatype step_outcome = Converged | ConvergenceWarning | Fatal py_error

record step_result =
  outcome :: step_outcome
  iterations :: nat
  step_values :: store

text \<open>
  Modelled from the spec: the state machine \<open>Prepare \<rightarrow> Execute(order) \<rightarrow> Doublecheck \<rightarrow>
  {Converged | Retry | Fatal}\<close>. The first argument counts the retries that are left, the
  second the iterations already made.
\<close>

fun retry_loop :: "nat \<Rightarrow> nat \<Rightarrow> component list \<Rightarrow> store \<Rightarrow> step_result" where
  "retry_loop 0 n cs v =
     (case execute_order cs v of
        Inl e \<Rightarrow> \<lparr>outcome = Fatal e, iterations = Suc n, step_values = v\<rparr>
      | Inr v' \<Rightarrow>
          if all_stable cs v'
          then \<lparr>outcome = Converged, iterations = Suc n, step_values = v'\<rparr>
          else \<lparr>outcome = ConvergenceWarning, iterations = Suc n, step_values = v'\<rparr>)"
| "retry_loop (Suc k) n cs v =
     (case execute_order cs v of
        Inl e \<Rightarrow> \<lparr>outcome = Fatal e, iterations = Suc n, step_values = v\<rparr>
      | Inr v' \<Rightarrow>
          if all_stable cs v'
          then \<lparr>outcome = Converged, iterations = Suc n, step_values = v'\<rparr>
          else retry_loop k (Suc n) cs v')"

text \<open>
  Modelled from the spec: one time step under "a fixed maximum retry count"; the count is
  the number of iterations the step may make.
\<close>

definition run_step :: "nat \<Rightarrow> component list \<Rightarrow> store \<Rightarrow> step_result" where
  "run_step max_retries cs v = retry_loop (max_retries - 1) 0 cs v"

text \<open>
  Modelled from the spec: the loop over the time steps. A converged step and a step that
  ended with a warning both "proceed to the next time step"; a fatal outcome ends the run.
  The result lists the outcome of every step that ran.
\<close>

fun run_steps :: "nat \<Rightarrow> nat \<Rightarrow> component list \<Rightarrow> store \<Rightarrow> py_error + (step_result list)" where
  "run_steps 0 max_retries cs v = Inr []"
| "run_steps (Suc t) max_retries cs v =
     (let r = run_step max_retries cs v in
      case outcome r of
        Fatal e \<Rightarrow> Inl e
      | _ \<Rightarrow> (case run_steps t max_retries cs (step_values r) of
                Inl e \<Rightarrow> Inl e
              | Inr rs \<Rightarrow> Inr (r # rs)))"

text \<open>
  A component for trying the loop: it raises its target by one at every execution and
  declares a convergence check that never passes.
\<close>

definition never_settling :: component where
  "never_settling =
     \<lparr>execute = (\<lambda>v. Inr (v((''C'', ''target'') := v (''C'', ''target'') + 1))),
      doublecheck = Some (\<lambda>v. False)\<rparr>"

section \<open>Python operations used by the components\<close>

text \<open>\<open>xs[i]\<close> for an integer index: a negative index counts from the end, an index out of
  range raises IndexError.\<close>

definition py_index :: "'a list \<Rightarrow> int \<Rightarrow> py_error + 'a" where
  "py_index xs i =
     (if 0 \<le> i \<and> i < int (length xs) then Inr (xs ! nat i)
      else if i < 0 \<and> - int (length xs) \<le> i then Inr (xs ! nat (int (length xs) + i))
      else Inl IndexError)"

text \<open>\<open>xs[i:j]\<close>: a negative bound counts from the end, every bound is clamped to the list,
  and the slice never raises.\<close>

definition py_slice :: "'a list \<Rightarrow> int \<Rightarrow> int \<Rightarrow> 'a list" where
  "py_slice xs i j =
     (let n = int (length xs);
          a = (if i < 0 then max (i + n) 0 else min i n);
          b = (if j < 0 then max (j + n) 0 else min j n)
      in take (nat (b - a)) (drop (nat a) xs))"

text \<open>\<open>int(x)\<close> of a float truncates towards zero.\<close>

definition py_int :: "real \<Rightarrow> int" where
  "py_int x = (if 0 \<le> x then \<lfloor>x\<rfloor> else \<lceil>x\<rceil>)"

text \<open>\<open>range(start, stop, step)\<close> as a list; a step of zero raises ValueError.\<close>

definition py_range :: "int \<Rightarrow> int \<Rightarrow> int \<Rightarrow> py_error + int list" where
  "py_range start stop step =
     (if step = 0 then Inl ValueError
      else if 0 < step
      then Inr (map (\<lambda>k. start + int k * step) [0 ..< nat ((stop - start + step - 1) div step)])
      else Inr (map (\<lambda>k. start + int k * step) [0 ..< nat ((start - stop - step - 1) div (- step))]))"

text \<open>\<open>numpy.round\<close> rounds to the nearest integer and a tie to the even neighbour.\<close>

definition np_round :: "real \<Rightarrow> real" where
  "np_round x =
     (let f = \<lfloor>x\<rfloor>; d = x - of_int f
      in if d < 1 / 2 then of_int f
         else if 1 / 2 < d then of_int (f + 1)
         else if even f then of_int f else of_int (f + 1))"

text \<open>\<open>n.bit_length()\<close>: the number of binary digits of a natural number.\<close>

fun bit_length :: "nat \<Rightarrow> nat" where
  "bit_length n = (if n = 0 then 0 else Suc (bit_length (n div 2)))"

declare bit_length.simps [simp del]

text \<open>
  The binary exponent of a positive real \<open>x\<close>: the integer \<open>e\<close> with \<open>2^e \<le> x < 2^(e+1)\<close>,
  found from the digits of the integer part of \<open>x\<close>, or of \<open>1 / x\<close> when \<open>x\<close> is below one.
\<close>

definition binary_exponent :: "real \<Rightarrow> int" where
  "binary_exponent x =
     (if 1 \<le> x then int (bit_length (nat \<lfloor>x\<rfloor>)) - 1
      else - int (bit_length (nat (\<lceil>1 / x\<rceil> - 1))))"

text \<open>
  The result of a float operation (IEEE 754 binary64, as Python's \<open>float\<close>): the exact
  result rounded to 53 significant bits, a tie to the even significand. The true division
  of two Python integers is rounded in the same way.
\<close>

definition fl64 :: "real \<Rightarrow> real" where
  "fl64 x =
     (if x = 0 then 0
      else (let e = binary_exponent \<bar>x\<bar> - 52
            in np_round (x / 2 powi e) * 2 powi e))"

section \<open>The component framework as the connector uses it\<close>

text \<open>
  \<open>hisim.component\<close>, \<open>hisim.components.configuration\<close> and the simulation repository are
  imported by the connector but are not among the source files. An output is identified by
  the pair of its component name and its field name.
\<close>

type_synonym output_key = "string \<times> string"

record component_output =
  object_name :: string
  out_field_name :: string
  load_type :: string
  out_unit :: string

record component_input =
  in_object_name :: string
  in_field_name :: string
  in_load_type :: string
  in_unit :: string
  mandatory :: bool
  source_output :: "component_output option"

definition output_key_of :: "component_output \<Rightarrow> output_key" where
  "output_key_of out = (object_name out, out_field_name out)"

text \<open>
  Modelled from the spec: \<open>SingleTimeStepValues\<close>, "a per-step value store, one slot per
  declared ComponentOutput across the whole graph, keyed by (component name, field name)".
  The list \<open>writes\<close> records every write in the order it happened, so that writes can be
  counted.
\<close>

record single_time_step_values =
  slots :: "output_key \<Rightarrow> real"
  writes :: "(output_key \<times> real) list"

text \<open>
  Modelled from the spec: \<open>get_input_value\<close> reads the slot of the output the input is bound
  to, "the latest value of its source output"; an input without a source reads as zero.
\<close>

definition get_input_value :: "single_time_step_values \<Rightarrow> component_input \<Rightarrow> real" where
  "get_input_value stsv inp =
     (case source_output inp of None \<Rightarrow> 0 | Some out \<Rightarrow> slots stsv (output_key_of out))"

text \<open>
  Modelled from the spec: \<open>set_output_value\<close>, a component "writing its declared outputs
  into the step's SingleTimeStepValues".
\<close>

definition set_output_value ::
  "single_time_step_values \<Rightarrow> component_output \<Rightarrow> real \<Rightarrow> single_time_step_values" where
  "set_output_value stsv out v =
     stsv\<lparr>slots := (slots stsv)(output_key_of out := v),
          writes := writes stsv @ [(output_key_of out, v)]\<rparr>"

text \<open>
  Modelled from the spec: the simulation repository, where a component leaves "a precomputed
  demand forecast" for others to read; \<open>set_entry\<close> stores a value under a key.
\<close>

type_synonym simulation_repository = "string \<rightharpoonup> real list"

definition set_entry :: "simulation_repository \<Rightarrow> string \<Rightarrow> real list \<Rightarrow> simulation_repository" where
  "set_entry repo key entry = repo(key \<mapsto> entry)"

text \<open>
  The constants of \<open>HouseholdWarmWaterDemandConfig\<close> and \<open>PhysicsConfig\<close> that \<open>i_simulate\<close>
  reads. Their values are not in the source files, so they are parameters.
\<close>

record ww_config =
  ww_temperature_demand :: real
  freshwater_temperature :: real
  temperature_difference_hot :: real
  temperature_difference_cold :: real
  heat_exchanger_losses :: real
  water_specific_heat_capacity :: real

text \<open>The fields of \<open>SimulationParameters\<close> the connector reads; \<open>simulation_days\<close> is
  \<open>(end_date - start_date).days\<close>.\<close>

record simulation_parameters =
  seconds_per_timestep :: int
  simulation_days :: int
  predictive :: bool

section \<open>UtspLpgConnector\<close>

text \<open>File and network accesses, recorded in the order they happen.\<close>

datatype io_event =
    CacheLookup string
  | FileRead string
  | FileWrite string
  | ProfileRequest

record utsp_lpg_connector =
  my_simulation_parameters :: simulation_parameters
  number_of_residents :: "real list"
  heating_by_residents :: "real list"
  electricity_consumption :: "real list"
  water_consumption :: "real list"
  max_hot_water_demand :: "real option"
  ww_mass_input :: component_input
  ww_temperature_input :: component_input
  number_of_residentsC :: component_output
  heating_by_residentsC :: component_output
  electricity_outputC :: component_output
  water_consumptionC :: component_output

definition component_name :: string where
  "component_name = ''UtspLpgConnector''"

definition Electricity_Demand_Forecast_24h :: string where
  "Electricity_Demand_Forecast_24h = ''Electricity_Demand_Forecast_24h''"

subsection \<open>\<open>i_simulate\<close>\<close>

text \<open>
  The local variables of the warm-water block of \<open>i_simulate\<close> when it ends. The block
  computes them and writes none of them to an output (the four \<open>set_output_value\<close> calls
  for them are commented out in the source). \<open>first_ww_temperature_input\<close> and
  \<open>first_ww_mass_input\<close> are the two inputs after the first-iteration replacement and before
  the discharge is computed.
\<close>

record ww_locals =
  ww_energy_demand :: real
  demand_satisfied :: nat
  first_ww_temperature_input :: real
  first_ww_mass_input :: real
  energy_discharged :: real
  ww_temperature_output :: real
  ww_mass_output :: real

text \<open>Lines 199 to 204: "first iteration --> random numbers".\<close>

definition first_iteration :: "real \<Rightarrow> real \<Rightarrow> real \<Rightarrow> real \<times> real" where
  "first_iteration energy_demand mass_in temperature_in =
     (if 0 < energy_demand \<and> (mass_in = 0 \<and> temperature_in = 0)
      then (40.45, 9.3)
      else (temperature_in, mass_in))"

text \<open>The divisor of line 218 to 221, from the temperature input in force there.\<close>

definition discharge_divisor :: "ww_config \<Rightarrow> real \<Rightarrow> real" where
  "discharge_divisor cfg temperature_in =
     water_specific_heat_capacity cfg
       * (temperature_in - (freshwater_temperature cfg + temperature_difference_cold cfg))"

text \<open>
  Lines 161 to 227, given the two input values read from the value store and the water
  consumption of the step. Python's float division raises ZeroDivisionError on a zero
  divisor.
\<close>

definition ww_block :: "ww_config \<Rightarrow> real \<Rightarrow> real \<Rightarrow> real \<Rightarrow> py_error + ww_locals" where
  "ww_block cfg water mass_in temperature_in =
     (let specific_heat = 4180 / 3600;
          energy_demand =
            specific_heat * water * (ww_temperature_demand cfg - freshwater_temperature cfg);
          satisfied =
            (if ww_temperature_demand cfg + temperature_difference_hot cfg < temperature_in
                \<or> energy_demand = 0
             then 1 else 0);
          (temperature_in1, mass_in1) = first_iteration energy_demand mass_in temperature_in
      in if 0 < energy_demand
         then (let discharged = energy_demand + 0;
                   temperature_out = freshwater_temperature cfg + temperature_difference_cold cfg
               in if discharge_divisor cfg temperature_in1 = 0 then Inl ZeroDivisionError
                  else Inr \<lparr>ww_energy_demand = energy_demand, demand_satisfied = satisfied,
                            first_ww_temperature_input = temperature_in1,
                            first_ww_mass_input = mass_in1,
                            energy_discharged = discharged,
                            ww_temperature_output = temperature_out,
                            ww_mass_output = discharged / discharge_divisor cfg temperature_in1\<rparr>)
         else Inr \<lparr>ww_energy_demand = energy_demand, demand_satisfied = satisfied,
                   first_ww_temperature_input = temperature_in1,
                   first_ww_mass_input = mass_in1,
                   energy_discharged = 0,
                   ww_temperature_output = temperature_in1,
                   ww_mass_output = 0\<rparr>)"

text \<open>
  Everything \<open>i_simulate\<close> can reach: the connector itself, the value store of the step, the
  simulation repository, and the record of file and network accesses made so far.
\<close>

record sim_state =
  connector :: utsp_lpg_connector
  stsv :: single_time_step_values
  repository :: simulation_repository
  io_events :: "io_event list"

text \<open>Lines 159 to 232: the warm-water block runs when the mass input has a source.\<close>

definition ww_step :: "ww_config \<Rightarrow> int \<Rightarrow> sim_state \<Rightarrow> py_error + ww_locals option" where
  "ww_step cfg timestep s =
     (if source_output (ww_mass_input (connector s)) \<noteq> None
      then (let mass_in = get_input_value (stsv s) (ww_mass_input (connector s));
                temperature_in = get_input_value (stsv s) (ww_temperature_input (connector s))
            in case py_index (water_consumption (connector s)) timestep of
                 Inl e \<Rightarrow> Inl e
               | Inr water \<Rightarrow>
                   (case ww_block cfg water mass_in temperature_in of
                      Inl e \<Rightarrow> Inl e
                    | Inr locals \<Rightarrow> Inr (Some locals)))
      else Inr None)"

text \<open>One of the calls of lines 234 to 243: the series is indexed, then the value written.\<close>

definition write_output ::
  "component_output \<Rightarrow> real list \<Rightarrow> int \<Rightarrow> sim_state \<Rightarrow> py_error option \<times> sim_state" where
  "write_output out series timestep s =
     (case py_index series timestep of
        Inl e \<Rightarrow> (Some e, s)
      | Inr v \<Rightarrow> (None, s\<lparr>stsv := set_output_value (stsv s) out v\<rparr>))"

text \<open>Lines 245 to 258: the forecast of the next 24 hours.\<close>

definition store_forecast :: "int \<Rightarrow> sim_state \<Rightarrow> py_error option \<times> sim_state" where
  "store_forecast timestep s =
     (let c = connector s; sps = seconds_per_timestep (my_simulation_parameters c)
      in if predictive (my_simulation_parameters c)
         then (if sps = 0 then (Some ZeroDivisionError, s)
               else (let last0 = py_int (of_int timestep + 24 * 3600 / of_int sps);
                         last_forecast_timestep =
                           (if int (length (electricity_consumption c)) < last0
                            then int (length (electricity_consumption c)) else last0);
                         demandforecast =
                           py_slice (electricity_consumption c) timestep last_forecast_timestep
                     in (None, s\<lparr>repository :=
                           set_entry (repository s) Electricity_Demand_Forecast_24h demandforecast\<rparr>)))
         else (None, s))"

text \<open>
  \<open>i_simulate\<close>. The result is the exception raised, if any, and the state reached: a raise
  leaves the writes made before it in place. \<open>force_conversion\<close> is not read.
\<close>

definition i_simulate ::
  "ww_config \<Rightarrow> int \<Rightarrow> bool \<Rightarrow> sim_state \<Rightarrow> py_error option \<times> sim_state" where
  "i_simulate cfg timestep force_conversion s =
     (case ww_step cfg timestep s of
        Inl e \<Rightarrow> (Some e, s)
      | Inr locals \<Rightarrow>
          (case write_output (number_of_residentsC (connector s))
                  (number_of_residents (connector s)) timestep s of
             (Some e, s1) \<Rightarrow> (Some e, s1)
           | (None, s1) \<Rightarrow>
          (case write_output (heating_by_residentsC (connector s1))
                  (heating_by_residents (connector s1)) timestep s1 of
             (Some e, s2) \<Rightarrow> (Some e, s2)
           | (None, s2) \<Rightarrow>
          (case write_output (electricity_outputC (connector s2))
                  (electricity_consumption (connector s2)) timestep s2 of
             (Some e, s3) \<Rightarrow> (Some e, s3)
           | (None, s3) \<Rightarrow>
          (case write_output (water_consumptionC (connector s3))
                  (water_consumption (connector s3)) timestep s3 of
             (Some e, s4) \<Rightarrow> (Some e, s4)
           | (None, s4) \<Rightarrow> store_forecast timestep s4)))))"

subsection \<open>The ports declared by \<open>__init__\<close>\<close>

text \<open>
  Modelled from the spec: \<open>add_input\<close> and \<open>add_output\<close> of \<open>hisim.component\<close>, which is not
  among the source files. An endpoint carries its "owning component name, field name, load
  type, unit", an input also its "mandatory flag" and "optional source reference"; a new
  input has no source.
\<close>

definition add_input :: "string \<Rightarrow> string \<Rightarrow> string \<Rightarrow> string \<Rightarrow> bool \<Rightarrow> component_input" where
  "add_input obj field lt un mand =
     \<lparr>in_object_name = obj, in_field_name = field, in_load_type = lt, in_unit = un,
      mandatory = mand, source_output = None\<rparr>"

definition add_output :: "string \<Rightarrow> string \<Rightarrow> string \<Rightarrow> string \<Rightarrow> component_output" where
  "add_output obj field lt un =
     \<lparr>object_name = obj, out_field_name = field, load_type = lt, out_unit = un\<rparr>"

text \<open>Lines 119 to 141: the four outputs, in the order \<open>__init__\<close> declares them.\<close>

definition declared_outputs :: "component_output list" where
  "declared_outputs =
     [add_output component_name ''NumberByResidents'' ''ANY'' ''ANY'',
      add_output component_name ''HeatingByResidents'' ''HEATING'' ''WATT'',
      add_output component_name ''ElectricityOutput'' ''ELECTRICITY'' ''WATT'',
      add_output component_name ''WaterConsumption'' ''WARM_WATER'' ''LITER'']"

text \<open>Lines 104 to 141 of \<open>__init__\<close>, after \<open>build\<close> has filled the series.\<close>

definition declare_ports :: "utsp_lpg_connector \<Rightarrow> utsp_lpg_connector" where
  "declare_ports c =
     c\<lparr>ww_mass_input :=
         add_input component_name ''Warm Water Mass Input'' ''WARM_WATER'' ''KG_PER_SEC'' False,
       ww_temperature_input :=
         add_input component_name ''Warm Water Temperature Input'' ''WARM_WATER'' ''CELSIUS'' False,
       number_of_residentsC := declared_outputs ! 0,
       heating_by_residentsC := declared_outputs ! 1,
       electricity_outputC := declared_outputs ! 2,
       water_consumptionC := declared_outputs ! 3\<rparr>"

text \<open>The output objects a connector holds, in the order \<open>i_simulate\<close> writes them.\<close>

definition outputs_of :: "utsp_lpg_connector \<Rightarrow> component_output list" where
  "outputs_of c =
     [number_of_residentsC c, heating_by_residentsC c, electricity_outputC c,
      water_consumptionC c]"

subsection \<open>Concrete inputs\<close>

text \<open>
  A configuration, a connector with three steps of data and a value store, for evaluating
  the definitions. In \<open>bound_connector\<close> the two warm-water inputs are connected to the
  outputs of a storage.
\<close>

definition example_config :: ww_config where
  "example_config =
     \<lparr>ww_temperature_demand = 45, freshwater_temperature = 10,
      temperature_difference_hot = 5, temperature_difference_cold = 6,
      heat_exchanger_losses = 0, water_specific_heat_capacity = 4180\<rparr>"

definition example_parameters :: simulation_parameters where
  "example_parameters =
     \<lparr>seconds_per_timestep = 43200, simulation_days = 1, predictive = True\<rparr>"

definition unbound_connector :: utsp_lpg_connector where
  "unbound_connector =
     declare_ports
       \<lparr>my_simulation_parameters = example_parameters,
        number_of_residents = [2, 1, 0],
        heating_by_residents = [300, 100, 0],
        electricity_consumption = [120, 60, 30],
        water_consumption = [3, 0, 1],
        max_hot_water_demand = Some 3,
        ww_mass_input = add_input [] [] [] [] False,
        ww_temperature_input = add_input [] [] [] [] False,
        number_of_residentsC = add_output [] [] [] [],
        heating_by_residentsC = add_output [] [] [] [],
        electricity_outputC = add_output [] [] [] [],
        water_consumptionC = add_output [] [] [] []\<rparr>"

definition storage_mass_output :: component_output where
  "storage_mass_output = add_output ''Storage'' ''Mass Output'' ''WARM_WATER'' ''KG_PER_SEC''"

definition storage_temperature_output :: component_output where
  "storage_temperature_output =
     add_output ''Storage'' ''Temperature Output'' ''WARM_WATER'' ''CELSIUS''"

definition bound_connector :: utsp_lpg_connector where
  "bound_connector =
     unbound_connector
       \<lparr>ww_mass_input :=
          (ww_mass_input unbound_connector)\<lparr>source_output := Some storage_mass_output\<rparr>,
        ww_temperature_input :=
          (ww_temperature_input unbound_connector)
            \<lparr>source_output := Some storage_temperature_output\<rparr>\<rparr>"

definition storage_values :: "real \<Rightarrow> real \<Rightarrow> single_time_step_values" where
  "storage_values mass temperature =
     \<lparr>slots = ((\<lambda>k. 0)(output_key_of storage_mass_output := mass))
                 (output_key_of storage_temperature_output := temperature),
      writes = []\<rparr>"

definition example_state :: "utsp_lpg_connector \<Rightarrow> real \<Rightarrow> real \<Rightarrow> sim_state" where
  "example_state c mass temperature =
     \<lparr>connector = c, stsv = storage_values mass temperature,
      repository = Map.empty, io_events = []\<rparr>"

subsection \<open>\<open>build\<close>\<close>

text \<open>
  A table is a list of named columns in file order: a CSV file as \<open>pandas.read_csv\<close> parses
  it, or the named lists of a JSON object. Parsing itself is not modelled. Indexing a table
  by a name it does not have raises KeyError.
\<close>

type_synonym table = "(string \<times> real list) list"

definition column :: "table \<Rightarrow> string \<Rightarrow> py_error + real list" where
  "column t name = (case map_of t name of None \<Rightarrow> Inl (KeyError name) | Some xs \<Rightarrow> Inr xs)"

text \<open>
  \<open>DataFrame.to_csv(path)\<close> writes the row index as a first column without a name, then the
  columns; \<open>read_csv\<close> names a column without a name \<open>Unnamed: 0\<close>.
\<close>

definition to_csv :: "table \<Rightarrow> table" where
  "to_csv df =
     ([], map real [0 ..< (case df of [] \<Rightarrow> 0 | (name, xs) # rest \<Rightarrow> length xs)]) # df"

definition read_csv :: "table \<Rightarrow> table" where
  "read_csv file = map (\<lambda>(name, xs). (if name = [] then ''Unnamed: 0'' else name, xs)) file"

text \<open>
  What \<open>get_profiles_from_utsp\<close> returns, parsed: the electricity and warm-water result
  files as tables and the two bodily-activity files as JSON objects. \<open>saved_result_files\<close>
  are the names of the flexibility and transport files the function saves on its way.
\<close>

record utsp_profiles =
  electricity_file :: table
  warm_water_file :: table
  high_activity_file :: table
  low_activity_file :: table
  saved_result_files :: "string list"

text \<open>
  The world \<open>build\<close> runs in. \<open>cache_filepath\<close> is the path \<open>utils.get_cache_file\<close> derives
  from the component name, the configuration and the simulation parameters; that function
  is not among the source files, so the path is a parameter. \<open>files\<close> holds the CSV files on
  disk, \<open>utsp_reply\<close> is what a profile request to the UTSP service would deliver.
\<close>

record build_env =
  cache_filepath :: string
  files :: "string \<rightharpoonup> table"
  utsp_reply :: "py_error + utsp_profiles"

text \<open>
  Modelled from the spec: \<open>utils.get_cache_file\<close>, "an external cache keyed by a hash of
  (component identity, configuration, simulation parameters)"; a hit is a file at the path
  of the key.
\<close>

definition get_cache_file :: "build_env \<Rightarrow> bool \<times> string" where
  "get_cache_file env = (files env (cache_filepath env) \<noteq> None, cache_filepath env)"

text \<open>The four series \<open>build\<close> leaves in the connector.\<close>

record lpg_series =
  series_number_of_residents :: "real list"
  series_heating_by_residents :: "real list"
  series_electricity_consumption :: "real list"
  series_water_consumption :: "real list"

text \<open>
  Lines 465 to 474, for one mode: the loop over \<open>range(steps_original)\<close>, with the gain of
  the mode and its occupancy object. The pair holds \<open>number_of_residents\<close> and
  \<open>heating_by_residents\<close>.
\<close>

fun equal_loop ::
  "real \<Rightarrow> table \<Rightarrow> nat list \<Rightarrow> real list \<times> real list \<Rightarrow> py_error + (real list \<times> real list)" where
  "equal_loop gain occ [] acc = Inr acc"
| "equal_loop gain occ (t # ts) (num, heat) =
     (if \<not> t < length num then Inl IndexError
      else case column occ ''Values'' of
             Inl e \<Rightarrow> Inl e
           | Inr vals \<Rightarrow>
               if \<not> t < length vals then Inl IndexError
               else if \<not> t < length heat then Inl IndexError
               else equal_loop gain occ ts
                      (num[t := num ! t + vals ! t], heat[t := heat ! t + gain * vals ! t]))"

text \<open>
  Lines 478 to 496, for one mode: the loop over \<open>range(steps_desired)\<close>. The mean of the
  block is the sum of the slice divided by \<open>steps_ratio\<close>.
\<close>

fun average_loop ::
  "real \<Rightarrow> table \<Rightarrow> int \<Rightarrow> nat list \<Rightarrow> real list \<times> real list
     \<Rightarrow> py_error + (real list \<times> real list)" where
  "average_loop gain occ steps_ratio [] acc = Inr acc"
| "average_loop gain occ steps_ratio (t # ts) (num, heat) =
     (case column occ ''Values'' of
        Inl e \<Rightarrow> Inl e
      | Inr vals \<Rightarrow>
          if steps_ratio = 0 then Inl ZeroDivisionError
          else (let number_of_residents_av =
                      sum_list (py_slice vals (int t * steps_ratio) ((int t + 1) * steps_ratio))
                        / of_int steps_ratio
                in if \<not> t < length num then Inl IndexError
                   else if \<not> t < length heat then Inl IndexError
                   else average_loop gain occ steps_ratio ts
                          (num[t := num ! t + np_round number_of_residents_av],
                           heat[t := heat ! t + gain * number_of_residents_av])))"

text \<open>Lines 498 to 505: one entry for every \<open>n\<close> of \<open>range(0, steps_original, steps_ratio)\<close>.\<close>

definition block_sums :: "real list \<Rightarrow> int \<Rightarrow> int \<Rightarrow> py_error + real list" where
  "block_sums xs steps_original steps_ratio =
     (case py_range 0 steps_original steps_ratio of
        Inl e \<Rightarrow> Inl e
      | Inr ns \<Rightarrow> Inr (map (\<lambda>n. sum_list (py_slice xs n (n + steps_ratio))) ns))"

text \<open>
  Lines 464 to 474: the branch for equal resolutions, over both modes. The gains per
  person are 150 for the first mode (the high-activity file) and 100 for the second (the
  low-activity file).
\<close>

definition equal_case ::
  "utsp_profiles \<Rightarrow> int \<Rightarrow> real list \<times> real list \<Rightarrow> real list \<Rightarrow> real list
     \<Rightarrow> py_error + lpg_series" where
  "equal_case p steps_original acc0 electricity water =
     (case equal_loop 150 (high_activity_file p) [0 ..< nat steps_original] acc0 of
        Inl e \<Rightarrow> Inl e
      | Inr acc1 \<Rightarrow>
          (case equal_loop 100 (low_activity_file p) [0 ..< nat steps_original] acc1 of
             Inl e \<Rightarrow> Inl e
           | Inr (num, heat) \<Rightarrow>
               Inr \<lparr>series_number_of_residents = num,
                    series_heating_by_residents = heat,
                    series_electricity_consumption = electricity,
                    series_water_consumption = water\<rparr>))"

text \<open>Lines 477 to 505: the branch that averages, over both modes, then the block sums.\<close>

definition average_case ::
  "utsp_profiles \<Rightarrow> int \<Rightarrow> int \<Rightarrow> int \<Rightarrow> real list \<times> real list \<Rightarrow> real list \<Rightarrow> real list
     \<Rightarrow> py_error + lpg_series" where
  "average_case p steps_original steps_desired steps_ratio acc0 electricity water =
     (case average_loop 150 (high_activity_file p) steps_ratio [0 ..< nat steps_desired] acc0 of
        Inl e \<Rightarrow> Inl e
      | Inr acc1 \<Rightarrow>
          (case average_loop 100 (low_activity_file p) steps_ratio [0 ..< nat steps_desired] acc1 of
             Inl e \<Rightarrow> Inl e
           | Inr (num, heat) \<Rightarrow>
               (case block_sums electricity steps_original steps_ratio of
                  Inl e \<Rightarrow> Inl e
                | Inr electricity_sums \<Rightarrow>
                    (case block_sums water steps_original steps_ratio of
                       Inl e \<Rightarrow> Inl e
                     | Inr water_sums \<Rightarrow>
                         Inr \<lparr>series_number_of_residents = num,
                              series_heating_by_residents = heat,
                              series_electricity_consumption =
                                map (\<lambda>s. s / of_int steps_ratio) electricity_sums,
                              series_water_consumption = water_sums\<rparr>))))"

text \<open>
  Lines 424 to 429: \<open>steps_desired\<close>. The division by the step length can raise; its
  quotient is a float, the integer \<open>days * 24\<close> is converted to a float for the product, and
  the product is rounded again before \<open>int\<close> truncates it.
\<close>

definition steps_desired_of :: "simulation_parameters \<Rightarrow> py_error + int" where
  "steps_desired_of params =
     (if seconds_per_timestep params = 0 then Inl ZeroDivisionError
      else Inr (py_int (fl64 (fl64 (of_int (simulation_days params * 24))
                                * fl64 (3600 / of_int (seconds_per_timestep params))))))"

text \<open>
  Lines 412 to 510: the series from the fetched profiles. The quotient of line 430 is a
  float before \<open>int\<close> truncates it to \<open>steps_ratio\<close>.
\<close>

definition compute_series :: "simulation_parameters \<Rightarrow> utsp_profiles \<Rightarrow> py_error + lpg_series" where
  "compute_series params p =
     (case column (high_activity_file p) ''Values'' of
        Inl e \<Rightarrow> Inl e
      | Inr high \<Rightarrow>
          (case steps_desired_of params of
             Inl e \<Rightarrow> Inl e
           | Inr steps_desired \<Rightarrow>
               if steps_desired = 0 then Inl ZeroDivisionError
               else
                 (case column (electricity_file p) ''Sum [kWh]'' of
                    Inl e \<Rightarrow> Inl e
                  | Inr kwh \<Rightarrow>
                      (case column (warm_water_file p) ''Sum [L]'' of
                         Inl e \<Rightarrow> Inl e
                       | Inr litres \<Rightarrow>
                           (let steps_original = int (length high);
                                steps_ratio =
                                  py_int (fl64 (of_int steps_original / of_int steps_desired));
                                acc0 = (replicate (nat steps_desired) 0,
                                        replicate (nat steps_desired) 0);
                                electricity = map (\<lambda>x. x * 1000 * 60) kwh
                            in if steps_original = steps_desired
                               then equal_case p steps_original acc0 electricity litres
                               else if steps_desired < steps_original
                               then average_case p steps_original steps_desired steps_ratio
                                      acc0 electricity litres
                               else Inl (PlainException
                                 ''input from LPG is given in wrong time resolution - or at least cannot be interpolated correctly''))))))"

text \<open>
  Lines 513 to 529: \<open>numpy.transpose\<close> of the four lists and the data frame with the four
  column names; lists of different lengths raise ValueError.
\<close>

definition cache_table :: "lpg_series \<Rightarrow> py_error + table" where
  "cache_table sr =
     (if length (series_heating_by_residents sr) = length (series_number_of_residents sr)
         \<and> length (series_electricity_consumption sr) = length (series_number_of_residents sr)
         \<and> length (series_water_consumption sr) = length (series_number_of_residents sr)
      then Inr [(''number_of_residents'', series_number_of_residents sr),
                (''heating_by_residents'', series_heating_by_residents sr),
                (''electricity_consumption'', series_electricity_consumption sr),
                (''water_consumption'', series_water_consumption sr)]
      else Inl ValueError)"

text \<open>Lines 392 to 398: the four columns of the cache file, in the order they are read.\<close>

definition load_series :: "table \<Rightarrow> py_error + lpg_series" where
  "load_series dataframe =
     (case column dataframe ''number_of_residents'' of Inl e \<Rightarrow> Inl e | Inr num \<Rightarrow>
     (case column dataframe ''heating_by_residents'' of Inl e \<Rightarrow> Inl e | Inr heat \<Rightarrow>
     (case column dataframe ''electricity_consumption'' of Inl e \<Rightarrow> Inl e | Inr electricity \<Rightarrow>
     (case column dataframe ''water_consumption'' of Inl e \<Rightarrow> Inl e | Inr water \<Rightarrow>
        Inr \<lparr>series_number_of_residents = num, series_heating_by_residents = heat,
             series_electricity_consumption = electricity,
             series_water_consumption = water\<rparr>))))"

text \<open>Line 535: \<open>max\<close> of an empty list raises ValueError.\<close>

definition py_max :: "real list \<Rightarrow> py_error + real" where
  "py_max xs = (case xs of [] \<Rightarrow> Inl ValueError | x # rest \<Rightarrow> Inr (fold max rest x))"

text \<open>
  What \<open>build\<close> leaves behind: the exception raised, if any, the connector with the
  attributes assigned so far, the files on disk, and the file and network accesses in order.
  When the computation of the series raises, the object under construction is dropped with
  the exception; the model then shows the connector as it was.
\<close>

record build_result =
  raised :: "py_error option"
  built :: utsp_lpg_connector
  files_after :: "string \<rightharpoonup> table"
  build_events :: "io_event list"

definition assign_series :: "utsp_lpg_connector \<Rightarrow> lpg_series \<Rightarrow> utsp_lpg_connector" where
  "assign_series c sr =
     c\<lparr>number_of_residents := series_number_of_residents sr,
       heating_by_residents := series_heating_by_residents sr,
       electricity_consumption := series_electricity_consumption sr,
       water_consumption := series_water_consumption sr\<rparr>"

text \<open>Line 535, the last of \<open>build\<close> on both paths.\<close>

definition assign_max ::
  "utsp_lpg_connector \<Rightarrow> (string \<rightharpoonup> table) \<Rightarrow> io_event list \<Rightarrow> build_result" where
  "assign_max c fs evs =
     (case py_max (water_consumption c) of
        Inl e \<Rightarrow> \<lparr>raised = Some e, built = c, files_after = fs, build_events = evs\<rparr>
      | Inr m \<Rightarrow> \<lparr>raised = None, built = c\<lparr>max_hot_water_demand := Some m\<rparr>,
                  files_after = fs, build_events = evs\<rparr>)"

text \<open>
  \<open>build\<close>, lines 385 to 535. Reading a file that is not there raises an OSError
  (FileNotFoundError); other failures of the file system are not modelled.
\<close>

definition build :: "utsp_lpg_connector \<Rightarrow> build_env \<Rightarrow> build_result" where
  "build c env =
     (let (file_exists, path) = get_cache_file env;
          ev0 = [CacheLookup path]
      in if file_exists
         then (case files env path of
                 None \<Rightarrow> \<lparr>raised = Some OSError, built = c, files_after = files env,
                           build_events = ev0 @ [FileRead path]\<rparr>
               | Some file \<Rightarrow>
                   (case load_series (read_csv file) of
                      Inl e \<Rightarrow> \<lparr>raised = Some e, built = c, files_after = files env,
                                build_events = ev0 @ [FileRead path]\<rparr>
                    | Inr sr \<Rightarrow>
                        assign_max (assign_series c sr) (files env) (ev0 @ [FileRead path])))
         else (case utsp_reply env of
                 Inl e \<Rightarrow> \<lparr>raised = Some e, built = c, files_after = files env,
                           build_events = ev0 @ [ProfileRequest]\<rparr>
               | Inr p \<Rightarrow>
                   (let ev1 = ev0 @ [ProfileRequest] @ map FileWrite (saved_result_files p)
                    in case compute_series (my_simulation_parameters c) p of
                         Inl e \<Rightarrow> \<lparr>raised = Some e, built = c, files_after = files env,
                                   build_events = ev1\<rparr>
                       | Inr sr \<Rightarrow>
                           (case cache_table sr of
                              Inl e \<Rightarrow> \<lparr>raised = Some e, built = assign_series c sr,
                                        files_after = files env, build_events = ev1\<rparr>
                            | Inr database \<Rightarrow>
                                assign_max (assign_series c sr)
                                  ((files env)(path \<mapsto> to_csv database))
                                  (ev1 @ [FileWrite path])))))"

text \<open>
  \<open>__init__\<close>: the simulation parameters are stored, \<open>build\<close> runs (line 101), then the
  ports are declared; an exception of \<open>build\<close> leaves no connector. The attributes that
  \<open>build\<close> and the port declarations assign do not exist before; the model starts them empty.
\<close>

definition new_connector :: "simulation_parameters \<Rightarrow> utsp_lpg_connector" where
  "new_connector params =
     \<lparr>my_simulation_parameters = params,
      number_of_residents = [], heating_by_residents = [],
      electricity_consumption = [], water_consumption = [],
      max_hot_water_demand = None,
      ww_mass_input = add_input [] [] [] [] False,
      ww_temperature_input = add_input [] [] [] [] False,
      number_of_residentsC = add_output [] [] [] [],
      heating_by_residentsC = add_output [] [] [] [],
      electricity_outputC = add_output [] [] [] [],
      water_consumptionC = add_output [] [] [] []\<rparr>"

definition connector_init ::
  "simulation_parameters \<Rightarrow> build_env \<Rightarrow> (py_error + utsp_lpg_connector) \<times> build_result" where
  "connector_init params env =
     (let r = build (new_connector params) env
      in (case raised r of Some e \<Rightarrow> Inl e | None \<Rightarrow> Inr (declare_ports (built r)), r))"

text \<open>
  The block of simulation step \<open>t\<close> in the words of the claim about the averaging branch:
  "its block of steps_ratio original values", the values at the positions from
  \<open>t * steps_ratio\<close> up to, but not including, \<open>(t + 1) * steps_ratio\<close>.
\<close>

definition block_of :: "'a list \<Rightarrow> nat \<Rightarrow> nat \<Rightarrow> 'a list" where
  "block_of xs steps_ratio t = take steps_ratio (drop (t * steps_ratio) xs)"

text \<open>
  Profiles for evaluating \<open>build\<close>: four original steps for a simulation of one day in two
  steps, with the means 0.5 in the first block of both activity files.
\<close>

definition example_profiles :: utsp_profiles where
  "example_profiles =
     \<lparr>electricity_file = [(''Time'', [0, 1, 2, 3]), (''Sum [kWh]'', [0.001, 0.003, 0.002, 0.002])],
      warm_water_file = [(''Time'', [0, 1, 2, 3]), (''Sum [L]'', [1, 2, 3, 4])],
      high_activity_file = [(''Values'', [1, 0, 1, 1])],
      low_activity_file = [(''Values'', [0, 1, 1, 1])],
      saved_result_files = [''FlexibilityEvents.HH1.json'']\<rparr>"

text \<open>
  Profiles whose block means lie halfway between two integers: 1.5 and 2.5 in the
  high-activity file, 0.5 in the first block of the low-activity file.
\<close>

definition tie_profiles :: utsp_profiles where
  "tie_profiles =
     \<lparr>electricity_file = [(''Time'', [0, 1, 2, 3]), (''Sum [kWh]'', [0.001, 0.003, 0.002, 0.002])],
      warm_water_file = [(''Time'', [0, 1, 2, 3]), (''Sum [L]'', [1, 2, 3, 4])],
      high_activity_file = [(''Values'', [1, 2, 3, 2])],
      low_activity_file = [(''Values'', [0, 1, 0, 0])],
      saved_result_files = []\<rparr>"

definition example_env :: build_env where
  "example_env =
     \<lparr>cache_filepath = ''cache/UtspLpgConnector_1.csv'',
      files = Map.empty,
      utsp_reply = Inr example_profiles\<rparr>"

text \<open>The world after a first \<open>build\<close> in \<open>example_env\<close>: the cache file is there.\<close>

definition cached_env :: build_env where
  "cached_env =
     example_env\<lparr>files := files_after (build (new_connector example_parameters) example_env)\<rparr>"

section \<open>SystemChart\<close>

text \<open>
  The chart of all components, \<open>hisim.postprocessing.system_chart\<close>. The modules it imports
  (\<open>pydot\<close>, \<open>hisim.log\<close>, the data transfer object and \<open>SystemChartEntry\<close>) are not among
  the source files; they are modelled by what the chart uses of them.
\<close>

text \<open>\<open>SystemChartEntry(filename, caption)\<close>: the two values it is built from.\<close>

record system_chart_entry =
  entry_filename :: string
  entry_caption :: string

text \<open>
  What the chart reads of a wrapped component: the name and the class name of
  \<open>my_component\<close>, and the inputs.
\<close>

record wrapped_component =
  my_component_name :: string
  my_class_name :: string
  component_inputs :: "component_input list"

text \<open>
  \<open>src_object_name\<close> and \<open>src_field_name\<close> of an input: the component and the field of the
  output it is bound to, \<open>None\<close> for an input without a source.
\<close>

definition src_object_name :: "component_input \<Rightarrow> string option" where
  "src_object_name inp = map_option object_name (source_output inp)"

definition src_field_name :: "component_input \<Rightarrow> string option" where
  "src_field_name inp = map_option out_field_name (source_output inp)"

text \<open>\<open>str(x)\<close> of an optional string.\<close>

definition py_str :: "string option \<Rightarrow> string" where
  "py_str x = (case x of None \<Rightarrow> ''None'' | Some s \<Rightarrow> s)"

text \<open>
  Line 60, \<open>label.replace("\<degree>C", "&#8451;")\<close>: every occurrence of the degree sign (code
  point B0) followed by \<open>C\<close>, from the left.
\<close>

fun replace_degree_celsius :: "string \<Rightarrow> string" where
  "replace_degree_celsius (a # b # cs) =
     (if a = CHR 0xB0 \<and> b = CHR ''C'' then ''&#8451;'' @ replace_degree_celsius cs
      else a # replace_degree_celsius (b # cs))"
| "replace_degree_celsius cs = cs"

text \<open>\<open>os.path.join\<close> of two POSIX paths: an absolute second path replaces the first.\<close>

definition os_path_join :: "string \<Rightarrow> string \<Rightarrow> string" where
  "os_path_join a b =
     (if b \<noteq> [] \<and> hd b = CHR ''/'' then b
      else if a = [] \<or> last a = CHR ''/'' then a @ b
      else a @ ''/'' @ b)"

text \<open>
  The \<open>pydot\<close> graph. A node is the object \<open>pydot.Node(name)\<close>; two node objects are the
  same object when they were made for the same position of the component list, which the
  first component of the pair records. An edge joins two nodes and may carry a label.
\<close>

type_synonym dot_node = "nat \<times> string"

type_synonym dot_edge = "dot_node \<times> dot_node \<times> string option"

record dot_graph =
  graph_type :: string
  node_defaults :: "(string \<times> string) list"
  graph_nodes :: "dot_node list"
  graph_edges :: "dot_edge list"

text \<open>Lines 41 and 42: the empty directed graph with its node defaults.\<close>

definition new_digraph :: dot_graph where
  "new_digraph =
     \<lparr>graph_type = ''digraph'',
      node_defaults = [(''color'', ''lightgray''), (''style'', ''filled''), (''shape'', ''box''),
                       (''fontname'', ''Arial''), (''fontsize'', ''10'')],
      graph_nodes = [], graph_edges = []\<rparr>"

text \<open>
  Lines 44 to 50, one round of the loop: the node of a component, named by the component
  and, on request, by its class on a second line; the node is entered in \<open>node_dict\<close> under
  the name of the component and added to the graph.
\<close>

definition add_component_node ::
  "bool \<Rightarrow> nat \<times> wrapped_component \<Rightarrow> dot_graph \<times> (string \<rightharpoonup> dot_node)
     \<Rightarrow> dot_graph \<times> (string \<rightharpoonup> dot_node)" where
  "add_component_node with_class_names numbered acc =
     (let (position, component) = numbered;
          (graph, node_dict) = acc;
          node_name = (if with_class_names
                       then my_component_name component @ [CHR 0x0A] @ my_class_name component
                       else my_component_name component);
          my_node = (position, node_name)
      in (graph\<lparr>graph_nodes := graph_nodes graph @ [my_node]\<rparr>,
          node_dict(my_component_name component \<mapsto> my_node)))"

text \<open>
  The dictionary \<open>edge_labels\<close>, in the order of insertion. Assigning to a key that is
  present keeps its place.
\<close>

type_synonym edge_labels = "((dot_node \<times> dot_node) \<times> string) list"

fun dict_set :: "'k \<Rightarrow> 'v \<Rightarrow> ('k \<times> 'v) list \<Rightarrow> ('k \<times> 'v) list" where
  "dict_set k v [] = [(k, v)]"
| "dict_set k v ((k', v') # rest) =
     (if k' = k then (k, v) # rest else (k', v') # dict_set k v rest)"

text \<open>
  Lines 53 to 64, the loop over the inputs of one component. An input without a source is
  skipped; looking up a source that is no component of the list raises KeyError.
\<close>

fun label_inputs ::
  "(string \<rightharpoonup> dot_node) \<Rightarrow> wrapped_component \<Rightarrow> component_input list \<Rightarrow> edge_labels
     \<Rightarrow> py_error + edge_labels" where
  "label_inputs node_dict component [] labels = Inr labels"
| "label_inputs node_dict component (component_input # inputs) labels =
     (case src_object_name component_input of
        None \<Rightarrow> label_inputs node_dict component inputs labels
      | Some src \<Rightarrow>
          (case node_dict src of
             None \<Rightarrow> Inl (KeyError src)
           | Some node_a \<Rightarrow>
               (case node_dict (my_component_name component) of
                  None \<Rightarrow> Inl (KeyError (my_component_name component))
                | Some node_b \<Rightarrow>
                    (let this_edge_label =
                           replace_degree_celsius
                             (py_str (src_field_name component_input) @ '' -> ''
                                @ in_field_name component_input @ '' in ''
                                @ in_unit component_input)
                     in label_inputs node_dict component inputs
                          (case map_of labels (node_a, node_b) of
                             None \<Rightarrow> dict_set (node_a, node_b) this_edge_label labels
                           | Some present \<Rightarrow>
                               dict_set (node_a, node_b)
                                 (present @ [CHR 0x5C, CHR ''n''] @ this_edge_label) labels)))))"

text \<open>Lines 52 to 64, the loop over the components.\<close>

fun label_components ::
  "(string \<rightharpoonup> dot_node) \<Rightarrow> wrapped_component list \<Rightarrow> edge_labels \<Rightarrow> py_error + edge_labels" where
  "label_components node_dict [] labels = Inr labels"
| "label_components node_dict (component # components) labels =
     (case label_inputs node_dict component (component_inputs component) labels of
        Inl exc \<Rightarrow> Inl exc
      | Inr labels' \<Rightarrow> label_components node_dict components labels')"

text \<open>Lines 66 to 70, one round: the edge of a key, with its label on request.\<close>

definition add_label_edge ::
  "bool \<Rightarrow> (dot_node \<times> dot_node) \<times> string \<Rightarrow> dot_graph \<Rightarrow> dot_graph" where
  "add_label_edge with_labels item graph =
     (let (node_key, label_text) = item
      in graph\<lparr>graph_edges := graph_edges graph
                  @ [(fst node_key, snd node_key,
                      if with_labels then Some label_text else None)]\<rparr>)"

text \<open>Lines 41 to 70: the graph, or the exception raised on the way.\<close>

definition chart_graph ::
  "wrapped_component list \<Rightarrow> bool \<Rightarrow> bool \<Rightarrow> py_error + dot_graph" where
  "chart_graph components with_labels with_class_names =
     (let (graph, node_dict) =
            fold (add_component_node with_class_names) (enumerate 0 components)
              (new_digraph, Map.empty)
      in case label_components node_dict components [] of
           Inl exc \<Rightarrow> Inl exc
         | Inr labels \<Rightarrow> Inr (fold (add_label_edge with_labels) labels graph))"

text \<open>
  The data transfer object: the wrapped components and the result directory of the
  simulation parameters.
\<close>

record post_processing_data_transfer =
  wrapped_components :: "wrapped_component list"
  result_directory :: string

text \<open>
  \<open>graph.write_png(path)\<close> hands the graph to the Graphviz programs. Whether they are
  installed and can write the file is a matter of the machine: the renderer is a parameter
  that answers with the exception raised, or with \<open>None\<close> when the file was written.
\<close>

type_synonym renderer = "dot_graph \<Rightarrow> string \<Rightarrow> py_error option"

text \<open>
  What the chart leaves behind: the records of \<open>log.error\<close>, each the text of the message
  and the exception whose \<open>str\<close> ends it, and the image files written.
\<close>

record chart_state =
  error_log :: "(string \<times> py_error) list"
  png_files :: "(string \<times> dot_graph) list"

text \<open>
  Modelled from the spec: \<open>log.error\<close>; a failure of the reporting collaborator "is caught
  and logged". The call records the message and returns.
\<close>

definition log_error :: "chart_state \<Rightarrow> string \<Rightarrow> py_error \<Rightarrow> chart_state" where
  "log_error st message exc = st\<lparr>error_log := error_log st @ [(message, exc)]\<rparr>"

text \<open>Lines 41 to 72: the body of the \<open>try\<close> statement.\<close>

definition try_render ::
  "renderer \<Rightarrow> post_processing_data_transfer \<Rightarrow> bool \<Rightarrow> bool \<Rightarrow> string \<Rightarrow> chart_state
     \<Rightarrow> py_error + chart_state" where
  "try_render write_png ppdt with_labels with_class_names filename st =
     (case chart_graph (wrapped_components ppdt) with_labels with_class_names of
        Inl exc \<Rightarrow> Inl exc
      | Inr graph \<Rightarrow>
          (let fullpath = os_path_join (result_directory ppdt) filename
           in case write_png graph fullpath of
                Some exc \<Rightarrow> Inl exc
              | None \<Rightarrow> Inr (st\<lparr>png_files := png_files st @ [(fullpath, graph)]\<rparr>)))"

definition failure_message :: string where
  "failure_message =
     ''Failed to generate network charts. Probably Graphviz is missing on your system. The python error was: ''"

text \<open>
  \<open>make_graphviz_chart\<close>, lines 37 to 76. The handler is \<open>except Exception\<close>, and every
  value of \<open>py_error\<close> is an \<open>Exception\<close>: whatever the body raises, the handler logs it and
  the entry becomes \<open>None\<close>.
\<close>

definition make_graphviz_chart ::
  "renderer \<Rightarrow> post_processing_data_transfer \<Rightarrow> bool \<Rightarrow> bool \<Rightarrow> string \<Rightarrow> string \<Rightarrow> chart_state
     \<Rightarrow> system_chart_entry option \<times> chart_state" where
  "make_graphviz_chart write_png ppdt with_labels with_class_names filename caption st =
     (let se = Some \<lparr>entry_filename = filename, entry_caption = caption\<rparr>
      in case try_render write_png ppdt with_labels with_class_names filename st of
           Inl exc \<Rightarrow> (None, log_error st failure_message exc)
         | Inr st' \<Rightarrow> (se, st'))"

text \<open>\<open>make_chart\<close>, lines 20 to 35: the three charts, and the list of those that are there.\<close>

definition make_chart ::
  "renderer \<Rightarrow> post_processing_data_transfer \<Rightarrow> chart_state
     \<Rightarrow> system_chart_entry list \<times> chart_state" where
  "make_chart write_png ppdt st =
     (let files0 = [];
          (f1, st1) = make_graphviz_chart write_png ppdt False True
                        ''System_no_Edge_with_class_labels.png''
                        ''System Chart of all components'' st;
          files1 = (case f1 of None \<Rightarrow> files0 | Some entry \<Rightarrow> files0 @ [entry]);
          (f2, st2) = make_graphviz_chart write_png ppdt False False
                        ''System_no_Edge_labels.png''
                        ''System Chart of all components and all outputs.'' st1;
          files2 = (case f2 of None \<Rightarrow> files1 | Some entry \<Rightarrow> files1 @ [entry]);
          (f3, st3) = make_graphviz_chart write_png ppdt True False
                        ''System_with_Edge_labels.png''
                        ''System Chart with labels on all edges.'' st2;
          files3 = (case f3 of None \<Rightarrow> files2 | Some entry \<Rightarrow> files2 @ [entry])
      in (files3, st3))"

text \<open>
  The three calls of \<open>make_chart\<close> as data, for stating what it returns: the two switches,
  the file name and the caption of each.
\<close>

definition chart_calls :: "(bool \<times> bool \<times> string \<times> string) list" where
  "chart_calls =
     [(False, True, ''System_no_Edge_with_class_labels.png'', ''System Chart of all components''),
      (False, False, ''System_no_Edge_labels.png'',
         ''System Chart of all components and all outputs.''),
      (True, False, ''System_with_Edge_labels.png'', ''System Chart with labels on all edges.'')]"

text \<open>A call is rendered when the graph is built and the renderer writes its file.\<close>

definition rendered ::
  "renderer \<Rightarrow> post_processing_data_transfer \<Rightarrow> bool \<times> bool \<times> string \<times> string \<Rightarrow> bool" where
  "rendered write_png ppdt call =
     (let (with_labels, with_class_names, filename, caption) = call
      in case chart_graph (wrapped_components ppdt) with_labels with_class_names of
           Inl exc \<Rightarrow> False
         | Inr graph \<Rightarrow>
             write_png graph (os_path_join (result_directory ppdt) filename) = None)"

definition entry_of :: "bool \<times> bool \<times> string \<times> string \<Rightarrow> system_chart_entry" where
  "entry_of call =
     (let (with_labels, with_class_names, filename, caption) = call
      in \<lparr>entry_filename = filename, entry_caption = caption\<rparr>)"

text \<open>
  A system for trying the chart: the connector with its two inputs bound to a storage, the
  temperature in degrees Celsius, and the storage. In \<open>dangling_ppdt\<close> the storage is not
  among the wrapped components.
\<close>

definition chart_connector :: wrapped_component where
  "chart_connector =
     \<lparr>my_component_name = ''UtspLpgConnector'', my_class_name = ''UtspLpgConnector'',
      component_inputs =
        [\<lparr>in_object_name = ''UtspLpgConnector'', in_field_name = ''WW_Mass_Input'',
           in_load_type = ''WarmWater'', in_unit = ''kg/s'', mandatory = False,
           source_output = Some \<lparr>object_name = ''Storage'', out_field_name = ''WW_Mass_Output'',
                                  load_type = ''WarmWater'', out_unit = ''kg/s''\<rparr>\<rparr>,
         \<lparr>in_object_name = ''UtspLpgConnector'', in_field_name = ''WW_Temperature_Input'',
           in_load_type = ''WarmWater'', in_unit = [CHR 0xB0, CHR ''C''], mandatory = False,
           source_output = Some \<lparr>object_name = ''Storage'', out_field_name = ''WW_Temperature_Output'',
                                  load_type = ''WarmWater'', out_unit = [CHR 0xB0, CHR ''C'']\<rparr>\<rparr>]\<rparr>"

definition chart_storage :: wrapped_component where
  "chart_storage =
     \<lparr>my_component_name = ''Storage'', my_class_name = ''HeatStorage'', component_inputs = []\<rparr>"

definition example_ppdt :: post_processing_data_transfer where
  "example_ppdt =
     \<lparr>wrapped_components = [chart_connector, chart_storage], result_directory = ''results''\<rparr>"

definition dangling_ppdt :: post_processing_data_transfer where
  "dangling_ppdt =
     \<lparr>wrapped_components = [chart_connector], result_directory = ''results''\<rparr>"

text \<open>Three machines: Graphviz installed, Graphviz missing, and a machine on which only the
  chart with edge labels cannot be written.\<close>

definition graphviz_installed :: renderer where
  "graphviz_installed graph path = None"

definition graphviz_missing :: renderer where
  "graphviz_missing graph path = Some OSError"

definition labels_fail :: renderer where
  "labels_fail graph path =
     (if path = ''results/System_with_Edge_labels.png'' then Some OSError else None)"

definition empty_chart_state :: chart_state where
  "empty_chart_state = \<lparr>error_log = [], png_files = []\<rparr>"

section \<open>Properties of the dispatch controller\<close>

lemma allocate_walk_length: "length (allocate_walk r caps) = length caps"
  by (induction caps arbitrary: r) (simp_all add: Let_def)

lemma allocate_walk_nth:
  "i < length caps \<Longrightarrow>
   allocate_walk r caps ! i =
     allocation (r - sum_list (take i (allocate_walk r caps))) (caps ! i)"
proof (induction caps arbitrary: r i)
  case Nil
  then show ?case by simp
next
  case (Cons c cs)
  show ?case
  proof (cases i)
    case 0
    then show ?thesis by (simp add: Let_def)
  next
    case (Suc j)
    with Cons.prems have "j < length cs" by simp
    from Cons.IH [OF this, of "r - allocation r c"] Suc show ?thesis
      by (simp add: Let_def algebra_simps)
  qed
qed

lemma allocate_walk_sum:
  "0 \<le> r \<Longrightarrow> list_all (\<lambda>c. 0 \<le> c) caps \<Longrightarrow>
   sum_list (allocate_walk r caps) = min r (sum_list caps)"
proof (induction caps arbitrary: r)
  case Nil
  then show ?case by simp
next
  case (Cons c cs)
  from Cons.prems have c: "0 \<le> c" and cs: "list_all (\<lambda>c. 0 \<le> c) cs" by simp_all
  from cs have s: "0 \<le> sum_list cs"
    by (induction cs) simp_all
  have r': "0 \<le> r - min r c" by simp
  from Cons.IH [OF r' cs] Cons.prems(1) c s show ?case
    by (simp add: Let_def allocation_def min_def)
qed

lemma allocate_walk_take_le:
  "0 \<le> r \<Longrightarrow> sum_list (take i (allocate_walk r caps)) \<le> r"
proof (induction caps arbitrary: r i)
  case Nil
  then show ?case by simp
next
  case (Cons c cs)
  show ?case
  proof (cases i)
    case 0
    with Cons.prems show ?thesis by simp
  next
    case (Suc j)
    have "0 \<le> r - allocation r c"
      using Cons.prems by (simp add: allocation_def)
    from Cons.IH [OF this, of j] Suc show ?thesis
      by (simp add: Let_def)
  qed
qed

lemma allocation_cases:
  "(0 \<le> r \<longrightarrow> allocation r c = min r c) \<and> (r < 0 \<longrightarrow> allocation r c = max r (- c))"
  by (simp add: allocation_def)

lemma dispatch_targets_nth:
  assumes "i < length srcs"
  shows "dispatch_targets srcs requirement ! i =
           allocation (requirement - sum_list (take i (dispatch_targets srcs requirement)))
                      (capacity (sorted_sources srcs ! i))"
proof -
  have len: "i < length (map capacity (sorted_sources srcs))"
    using assms by (simp add: sorted_sources_def)
  from allocate_walk_nth [OF len, of requirement] assms show ?thesis
    by (simp add: dispatch_targets_def sorted_sources_def)
qed

lemma dispatch_targets_example:
  "dispatch_targets
     [\<lparr>weight = 1, capacity = 5\<rparr>, \<lparr>weight = 2, capacity = 5\<rparr>, \<lparr>weight = 3, capacity = 5\<rparr>] 8
   = [5, 3, 0]"
  by (simp add: dispatch_targets_def sorted_sources_def allocation_def Let_def)

text \<open>
  Claim C1. The sources are served in ascending order of weight. The source at position
  \<open>i\<close> of the sorted list is allocated, when what is still outstanding (the requirement
  less the allocations already made) is not negative, the minimum of the outstanding amount
  and its own capacity, and when the outstanding amount is negative, the maximum of the
  outstanding amount and its negated capacity. A requirement that is not negative leaves a
  non-negative amount outstanding at every position, so there the rule of the minimum holds
  along the whole walk. For weights 1, 2, 3, capacities 5, 5, 5 and a requirement of 8 the
  targets are 5, 3, 0 in weight order, and they sum to 8.
\<close>

theorem dispatch_targets_walk:
  assumes "i < length srcs"
  shows "sorted (map weight (sorted_sources srcs))
       \<and> mset (sorted_sources srcs) = mset srcs
       \<and> length (dispatch_targets srcs requirement) = length srcs
       \<and> (0 \<le> requirement \<longrightarrow>
            0 \<le> requirement - sum_list (take i (dispatch_targets srcs requirement)))
       \<and> (0 \<le> requirement - sum_list (take i (dispatch_targets srcs requirement)) \<longrightarrow>
            dispatch_targets srcs requirement ! i =
              min (requirement - sum_list (take i (dispatch_targets srcs requirement)))
                  (capacity (sorted_sources srcs ! i)))
       \<and> (requirement - sum_list (take i (dispatch_targets srcs requirement)) < 0 \<longrightarrow>
            dispatch_targets srcs requirement ! i =
              max (requirement - sum_list (take i (dispatch_targets srcs requirement)))
                  (- capacity (sorted_sources srcs ! i)))
       \<and> dispatch_targets
           [\<lparr>weight = 1, capacity = 5\<rparr>, \<lparr>weight = 2, capacity = 5\<rparr>, \<lparr>weight = 3, capacity = 5\<rparr>] 8
         = [5, 3, 0]
       \<and> sum_list (dispatch_targets
           [\<lparr>weight = 1, capacity = 5\<rparr>, \<lparr>weight = 2, capacity = 5\<rparr>, \<lparr>weight = 3, capacity = 5\<rparr>] 8)
         = 8"
proof -
  let ?out = "requirement - sum_list (take i (dispatch_targets srcs requirement))"
  have a: "sorted (map weight (sorted_sources srcs))"
    by (simp add: sorted_sources_def)
  have b: "mset (sorted_sources srcs) = mset srcs"
    by (simp add: sorted_sources_def)
  have c: "length (dispatch_targets srcs requirement) = length srcs"
    by (simp add: dispatch_targets_def allocate_walk_length sorted_sources_def)
  have d: "0 \<le> requirement \<longrightarrow> 0 \<le> ?out"
    using allocate_walk_take_le [of requirement i "map capacity (sorted_sources srcs)"]
    by (simp add: dispatch_targets_def)
  note n = dispatch_targets_nth [OF assms, of requirement]
  have e: "0 \<le> ?out \<longrightarrow>
             dispatch_targets srcs requirement ! i = min ?out (capacity (sorted_sources srcs ! i))"
    unfolding n using allocation_cases [of ?out] by blast
  have f: "?out < 0 \<longrightarrow>
             dispatch_targets srcs requirement ! i = max ?out (- capacity (sorted_sources srcs ! i))"
    unfolding n using allocation_cases [of ?out] by blast
  note g = dispatch_targets_example
  have h: "sum_list (dispatch_targets
           [\<lparr>weight = 1, capacity = 5\<rparr>, \<lparr>weight = 2, capacity = 5\<rparr>, \<lparr>weight = 3, capacity = 5\<rparr>] 8)
         = 8"
    by (simp add: g)
  from a b c d e f g h show ?thesis by blast
qed

theorem dispatch_targets_walk_witness:
  "map weight (sorted_sources [\<lparr>weight = 3, capacity = 5\<rparr>, \<lparr>weight = 1, capacity = 5\<rparr>, \<lparr>weight = 2, capacity = 5\<rparr>]) = [1, 2, 3]
   \<and> dispatch_targets [\<lparr>weight = 3, capacity = 5\<rparr>, \<lparr>weight = 1, capacity = 5\<rparr>, \<lparr>weight = 2, capacity = 5\<rparr>] 8 = [5, 3, 0]
   \<and> dispatch_targets [\<lparr>weight = 3, capacity = 5\<rparr>, \<lparr>weight = 1, capacity = 5\<rparr>, \<lparr>weight = 2, capacity = 5\<rparr>] 8 ! 1 =
       min (8 - sum_list (take 1 (dispatch_targets [\<lparr>weight = 3, capacity = 5\<rparr>, \<lparr>weight = 1, capacity = 5\<rparr>, \<lparr>weight = 2, capacity = 5\<rparr>] 8)))
           (capacity (sorted_sources [\<lparr>weight = 3, capacity = 5\<rparr>, \<lparr>weight = 1, capacity = 5\<rparr>, \<lparr>weight = 2, capacity = 5\<rparr>] ! 1))
   \<and> dispatch_targets [\<lparr>weight = 3, capacity = 5\<rparr>, \<lparr>weight = 1, capacity = 5\<rparr>, \<lparr>weight = 2, capacity = 5\<rparr>] (- 8) = [- 5, - 3, 0]
   \<and> dispatch_targets [\<lparr>weight = 3, capacity = 5\<rparr>, \<lparr>weight = 1, capacity = 5\<rparr>, \<lparr>weight = 2, capacity = 5\<rparr>] (- 8) ! 1 =
       max (- 8 - sum_list (take 1 (dispatch_targets [\<lparr>weight = 3, capacity = 5\<rparr>, \<lparr>weight = 1, capacity = 5\<rparr>, \<lparr>weight = 2, capacity = 5\<rparr>] (- 8))))
           (- capacity (sorted_sources [\<lparr>weight = 3, capacity = 5\<rparr>, \<lparr>weight = 1, capacity = 5\<rparr>, \<lparr>weight = 2, capacity = 5\<rparr>] ! 1))"
proof -
  let ?srcs = "[\<lparr>weight = 3, capacity = 5\<rparr>, \<lparr>weight = 1, capacity = 5\<rparr>, \<lparr>weight = 2, capacity = (5::real)\<rparr>]"
  have h: "(1::nat) < length ?srcs" by simp
  have w: "map weight (sorted_sources ?srcs) = [1, 2, 3]"
    by (simp add: sorted_sources_def)
  have p: "dispatch_targets ?srcs 8 = [5, 3, 0]"
    by (simp add: dispatch_targets_def sorted_sources_def allocation_def Let_def)
  have q: "dispatch_targets ?srcs (- 8) = [- 5, - 3, 0]"
    by (simp add: dispatch_targets_def sorted_sources_def allocation_def Let_def)
  have po: "0 \<le> 8 - sum_list (take 1 (dispatch_targets ?srcs 8))"
    by (simp add: p)
  have qo: "- 8 - sum_list (take 1 (dispatch_targets ?srcs (- 8))) < 0"
    by (simp add: q)
  from dispatch_targets_walk [OF h, of 8] po
  have r: "dispatch_targets ?srcs 8 ! 1 =
       min (8 - sum_list (take 1 (dispatch_targets ?srcs 8))) (capacity (sorted_sources ?srcs ! 1))"
    by blast
  from dispatch_targets_walk [OF h, of "- 8"] qo
  have s: "dispatch_targets ?srcs (- 8) ! 1 =
       max (- 8 - sum_list (take 1 (dispatch_targets ?srcs (- 8))))
           (- capacity (sorted_sources ?srcs ! 1))"
    by blast
  from w p r q s show ?thesis by blast
qed

text \<open>
  The rule of the minimum alone does not describe the walk for a negative requirement: with
  the three sources of the example and a requirement of -8 the targets are -5, -3, 0, and
  the first target, -5, is not the minimum of -8 and the capacity 5.
\<close>

theorem dispatch_targets_negative_counterexample:
  "dispatch_targets
     [\<lparr>weight = 1, capacity = 5\<rparr>, \<lparr>weight = 2, capacity = 5\<rparr>, \<lparr>weight = 3, capacity = 5\<rparr>] (- 8)
     = [- 5, - 3, 0]
   \<and> dispatch_targets
       [\<lparr>weight = 1, capacity = 5\<rparr>, \<lparr>weight = 2, capacity = 5\<rparr>, \<lparr>weight = 3, capacity = 5\<rparr>] (- 8) ! 0
     \<noteq> min (- 8 - sum_list (take 0 (dispatch_targets
                [\<lparr>weight = 1, capacity = 5\<rparr>, \<lparr>weight = 2, capacity = 5\<rparr>, \<lparr>weight = 3, capacity = 5\<rparr>] (- 8))))
           (capacity (sorted_sources
                [\<lparr>weight = 1, capacity = 5\<rparr>, \<lparr>weight = 2, capacity = 5\<rparr>, \<lparr>weight = 3, capacity = 5\<rparr>] ! 0))"
proof -
  let ?srcs = "[\<lparr>weight = 1, capacity = 5\<rparr>, \<lparr>weight = 2, capacity = 5\<rparr>, \<lparr>weight = 3, capacity = (5::real)\<rparr>]"
  have q: "dispatch_targets ?srcs (- 8) = [- 5, - 3, 0]"
    by (simp add: dispatch_targets_def sorted_sources_def allocation_def Let_def)
  have c: "capacity (sorted_sources ?srcs ! 0) = 5"
    by (simp add: sorted_sources_def)
  show ?thesis unfolding q c by simp
qed

section \<open>Properties of the scheduler's convergence loop\<close>

lemma retry_loop_bound: "iterations (retry_loop k n cs v) \<le> n + k + 1"
proof (induction k arbitrary: n v)
  case 0
  show ?case by (simp split: sum.splits)
next
  case (Suc k)
  show ?case
  proof (cases "execute_order cs v")
    case (Inl e)
    then show ?thesis by simp
  next
    case (Inr u)
    from Suc.IH [of "Suc n" u] Inr show ?thesis by simp
  qed
qed

lemma retry_loop_never_stable:
  assumes "\<forall>v. \<not> all_stable cs v" and "\<forall>v. \<exists>v'. execute_order cs v = Inr v'"
  shows "retry_loop k n cs v =
           \<lparr>outcome = ConvergenceWarning, iterations = n + k + 1,
            step_values = ((\<lambda>u. projr (execute_order cs u)) ^^ (k + 1)) v\<rparr>"
proof (induction k arbitrary: n v)
  case 0
  from assms(2) obtain v' where "execute_order cs v = Inr v'" by blast
  with assms(1) show ?case by simp
next
  case (Suc k)
  from assms(2) obtain v' where v': "execute_order cs v = Inr v'" by blast
  have "retry_loop (Suc k) n cs v = retry_loop k (Suc n) cs v'"
    using v' assms(1) by simp
  also have "\<dots> = \<lparr>outcome = ConvergenceWarning, iterations = Suc n + k + 1,
            step_values = ((\<lambda>u. projr (execute_order cs u)) ^^ (k + 1)) v'\<rparr>"
    by (rule Suc.IH)
  also have "((\<lambda>u. projr (execute_order cs u)) ^^ (k + 1)) v' =
             ((\<lambda>u. projr (execute_order cs u)) ^^ (Suc k + 1)) v"
  proof -
    define f where "f = (\<lambda>u. projr (execute_order cs u))"
    have "f v = v'" by (simp add: f_def v')
    then have "(f ^^ (k + 1)) v' = (f ^^ (Suc k + 1)) v"
      by (simp add: funpow_swap1)
    then show ?thesis by (simp only: f_def)
  qed
  finally show ?case by simp
qed

text \<open>
  Claim C5. The retry loop of a time step is bounded by the iteration cap whatever the
  components do. With a cap of 3, components that execute without error and a stability
  check that never passes, the step makes exactly 3 iterations and ends with a
  ConvergenceWarning, not a fatal error, holding the values of the last iteration; the same
  holds for every positive cap, and a run of any number of such steps completes, every step
  ending with the warning.
\<close>

theorem run_step_bounded_retry:
  assumes "\<forall>v. \<not> all_stable cs v" and "\<forall>v. \<exists>v'. execute_order cs v = Inr v'"
    and "0 < m"
  shows "iterations (run_step k cs' v') \<le> max k 1
       \<and> run_step 3 cs v =
           \<lparr>outcome = ConvergenceWarning, iterations = 3,
            step_values = ((\<lambda>u. projr (execute_order cs u)) ^^ 3) v\<rparr>
       \<and> run_step m cs v =
           \<lparr>outcome = ConvergenceWarning, iterations = m,
            step_values = ((\<lambda>u. projr (execute_order cs u)) ^^ m) v\<rparr>
       \<and> (\<exists>rs. run_steps t 3 cs v = Inr rs \<and> length rs = t
              \<and> list_all (\<lambda>r. outcome r = ConvergenceWarning \<and> iterations r = 3) rs)"
proof -
  have a: "iterations (run_step k cs' v') \<le> max k 1"
    using retry_loop_bound [of "k - 1" 0 cs' v'] by (simp add: run_step_def)
  have m: "run_step j cs u =
           \<lparr>outcome = ConvergenceWarning, iterations = j,
            step_values = ((\<lambda>u. projr (execute_order cs u)) ^^ j) u\<rparr>" if "0 < j" for j u
    using that retry_loop_never_stable [OF assms(1,2), of "j - 1" 0 u]
    by (simp add: run_step_def)
  have d: "\<exists>rs. run_steps t 3 cs v = Inr rs \<and> length rs = t
              \<and> list_all (\<lambda>r. outcome r = ConvergenceWarning \<and> iterations r = 3) rs"
  proof (induction t arbitrary: v)
    case 0
    show ?case by simp
  next
    case (Suc t)
    let ?r = "run_step 3 cs v"
    have o: "outcome ?r = ConvergenceWarning" "iterations ?r = 3"
      by (simp_all add: m)
    from Suc.IH [of "step_values ?r"] obtain rs where
      "run_steps t 3 cs (step_values ?r) = Inr rs" "length rs = t"
      "list_all (\<lambda>r. outcome r = ConvergenceWarning \<and> iterations r = 3) rs" by blast
    with o show ?case by (simp add: Let_def)
  qed
  from a m [of 3 v] m [OF assms(3), of v] d show ?thesis by simp
qed

theorem run_step_bounded_retry_witness:
  "outcome (run_step 3 [never_settling] (\<lambda>k. 0)) = ConvergenceWarning
   \<and> iterations (run_step 3 [never_settling] (\<lambda>k. 0)) = 3
   \<and> step_values (run_step 3 [never_settling] (\<lambda>k. 0)) (''C'', ''target'') = 3
   \<and> iterations (run_step 0 [never_settling] (\<lambda>k. 0)) \<le> 1"
proof -
  have h1: "\<forall>v. \<not> all_stable [never_settling] v"
    by (simp add: all_stable_def never_settling_def)
  have h2: "\<forall>v. \<exists>v'. execute_order [never_settling] v = Inr v'"
    by (simp add: never_settling_def)
  have h3: "(0::nat) < 3" by simp
  have e: "((\<lambda>u. projr (execute_order [never_settling] u)) ^^ 3) (\<lambda>k. 0) (''C'', ''target'') = 3"
    by (simp add: never_settling_def numeral_3_eq_3)
  from run_step_bounded_retry [OF h1 h2 h3, of 0 "[never_settling]" "\<lambda>k. 0" "\<lambda>k. 0" 0] e
  show ?thesis by simp
qed

section \<open>Properties of \<open>i_simulate\<close>\<close>

lemma py_index_in_range:
  "0 \<le> i \<Longrightarrow> i < int (length xs) \<Longrightarrow> py_index xs i = Inr (xs ! nat i)"
  by (simp add: py_index_def)

lemma py_int_forecast:
  assumes "0 < sps" and "0 \<le> t"
  shows "py_int (of_int t + 24 * 3600 / of_int sps) = t + 86400 div sps"
proof -
  have "(0::real) \<le> of_int t + 24 * 3600 / of_int sps"
    using assms by simp
  then have "py_int (of_int t + 24 * 3600 / of_int sps) = \<lfloor>of_int t + (of_int 86400 / of_int sps :: real)\<rfloor>"
    by (simp add: py_int_def)
  also have "\<dots> = t + \<lfloor>(of_int 86400 / of_int sps :: real)\<rfloor>"
    by (simp only: int_add_floor)
  also have "\<lfloor>(of_int 86400 / of_int sps :: real)\<rfloor> = 86400 div sps"
    by (rule floor_divide_of_int_eq)
  finally show ?thesis .
qed

lemma ww_step_unbound:
  "source_output (ww_mass_input (connector s)) = None \<Longrightarrow> ww_step cfg t s = Inr None"
  by (simp add: ww_step_def)

text \<open>
  Claim C4. When the warm-water mass input is bound, the warm-water energy demand of the
  step is positive and both warm-water inputs read exactly zero, the block replaces the
  temperature input by 40.45 and the mass input by 9.3 before it computes the discharge:
  the discharged mass is the energy demand divided by the heat capacity times
  (40.45 minus the return temperature), and the division raises ZeroDivisionError when
  that divisor is zero.
\<close>

theorem first_iteration_substitution:
  assumes "source_output (ww_mass_input (connector s)) \<noteq> None"
    and "py_index (water_consumption (connector s)) timestep = Inr water"
    and "0 < 4180 / 3600 * water * (ww_temperature_demand cfg - freshwater_temperature cfg)"
    and "get_input_value (stsv s) (ww_mass_input (connector s)) = 0"
    and "get_input_value (stsv s) (ww_temperature_input (connector s)) = 0"
  shows "first_iteration
           (4180 / 3600 * water * (ww_temperature_demand cfg - freshwater_temperature cfg)) 0 0
         = (40.45, 9.3)
       \<and> ww_step cfg timestep s =
           (if discharge_divisor cfg 40.45 = 0 then Inl ZeroDivisionError
            else Inr (Some
              \<lparr>ww_energy_demand =
                 4180 / 3600 * water * (ww_temperature_demand cfg - freshwater_temperature cfg),
               demand_satisfied =
                 (if ww_temperature_demand cfg + temperature_difference_hot cfg < 0 then 1 else 0),
               first_ww_temperature_input = 40.45,
               first_ww_mass_input = 9.3,
               energy_discharged =
                 4180 / 3600 * water * (ww_temperature_demand cfg - freshwater_temperature cfg),
               ww_temperature_output =
                 freshwater_temperature cfg + temperature_difference_cold cfg,
               ww_mass_output =
                 4180 / 3600 * water * (ww_temperature_demand cfg - freshwater_temperature cfg)
                 / (water_specific_heat_capacity cfg
                    * (40.45 - (freshwater_temperature cfg + temperature_difference_cold cfg)))\<rparr>))"
proof -
  define E where "E = 4180 / 3600 * water * (ww_temperature_demand cfg - freshwater_temperature cfg)"
  have pos: "0 < E" using assms(3) by (simp add: E_def)
  have fi: "first_iteration E 0 0 = (40.45, 9.3)"
    using pos by (simp add: first_iteration_def)
  have "ww_block cfg water 0 0 =
          (if discharge_divisor cfg 40.45 = 0 then Inl ZeroDivisionError
            else Inr
              \<lparr>ww_energy_demand = E,
               demand_satisfied =
                 (if ww_temperature_demand cfg + temperature_difference_hot cfg < 0 then 1 else 0),
               first_ww_temperature_input = 40.45,
               first_ww_mass_input = 9.3,
               energy_discharged = E,
               ww_temperature_output =
                 freshwater_temperature cfg + temperature_difference_cold cfg,
               ww_mass_output = E / discharge_divisor cfg 40.45\<rparr>)"
    using pos fi unfolding ww_block_def Let_def E_def [symmetric]
    by simp
  then show ?thesis
    using assms(1,2,4,5) fi
    by (simp add: ww_step_def E_def discharge_divisor_def)
qed


lemmas example_defs =
  example_state_def bound_connector_def unbound_connector_def declare_ports_def
  declared_outputs_def add_input_def add_output_def storage_values_def
  storage_mass_output_def storage_temperature_output_def example_config_def
  example_parameters_def component_name_def output_key_of_def get_input_value_def

theorem first_iteration_substitution_witness:
  "ww_step example_config 0 (example_state bound_connector 0 0) =
     Inr (Some
       \<lparr>ww_energy_demand = 4180 / 3600 * 3 * (45 - 10), demand_satisfied = 0,
        first_ww_temperature_input = 40.45, first_ww_mass_input = 9.3,
        energy_discharged = 4180 / 3600 * 3 * (45 - 10),
        ww_temperature_output = 10 + 6,
        ww_mass_output = 4180 / 3600 * 3 * (45 - 10) / (4180 * (40.45 - (10 + 6)))\<rparr>)"
proof -
  let ?s = "example_state bound_connector 0 0"
  have h1: "source_output (ww_mass_input (connector ?s)) \<noteq> None"
    by (simp add: example_defs)
  have h2: "py_index (water_consumption (connector ?s)) 0 = Inr 3"
    by (simp add: example_defs py_index_def)
  have h3: "0 < 4180 / 3600 * (3::real)
              * (ww_temperature_demand example_config - freshwater_temperature example_config)"
    by (simp add: example_config_def)
  have h4: "get_input_value (stsv ?s) (ww_mass_input (connector ?s)) = 0"
    by (simp add: example_defs)
  have h5: "get_input_value (stsv ?s) (ww_temperature_input (connector ?s)) = 0"
    by (simp add: example_defs)
  have d: "discharge_divisor example_config 40.45 \<noteq> 0"
    by (simp add: discharge_divisor_def example_config_def)
  from first_iteration_substitution [OF h1 h2 h3 h4 h5] d show ?thesis
    by (simp add: example_config_def)
qed

lemma discharge_divisor_eq_0:
  "discharge_divisor cfg T = 0 \<longleftrightarrow>
     water_specific_heat_capacity cfg = 0
     \<or> T = freshwater_temperature cfg + temperature_difference_cold cfg"
  by (auto simp: discharge_divisor_def)

lemma ww_block_positive:
  assumes "0 < 4180 / 3600 * water * (ww_temperature_demand cfg - freshwater_temperature cfg)"
  shows "ww_block cfg water m T =
     (if discharge_divisor cfg (fst (first_iteration
            (4180 / 3600 * water * (ww_temperature_demand cfg - freshwater_temperature cfg)) m T)) = 0
      then Inl ZeroDivisionError
      else Inr
        \<lparr>ww_energy_demand =
           4180 / 3600 * water * (ww_temperature_demand cfg - freshwater_temperature cfg),
         demand_satisfied =
           (if ww_temperature_demand cfg + temperature_difference_hot cfg < T then 1 else 0),
         first_ww_temperature_input = fst (first_iteration
            (4180 / 3600 * water * (ww_temperature_demand cfg - freshwater_temperature cfg)) m T),
         first_ww_mass_input = snd (first_iteration
            (4180 / 3600 * water * (ww_temperature_demand cfg - freshwater_temperature cfg)) m T),
         energy_discharged =
           4180 / 3600 * water * (ww_temperature_demand cfg - freshwater_temperature cfg),
         ww_temperature_output = freshwater_temperature cfg + temperature_difference_cold cfg,
         ww_mass_output =
           4180 / 3600 * water * (ww_temperature_demand cfg - freshwater_temperature cfg)
           / discharge_divisor cfg (fst (first_iteration
            (4180 / 3600 * water * (ww_temperature_demand cfg - freshwater_temperature cfg)) m T))\<rparr>)"
proof -
  define E where "E = 4180 / 3600 * water * (ww_temperature_demand cfg - freshwater_temperature cfg)"
  have pos: "0 < E" using assms by (simp add: E_def)
  obtain T1 m1 where fi: "first_iteration E m T = (T1, m1)" by (cases "first_iteration E m T")
  show ?thesis
    unfolding ww_block_def Let_def E_def [symmetric]
    using pos fi by simp
qed

text \<open>
  Claim C9, as amended. With a bound warm-water mass input and a positive energy demand,
  the divisor of the discharged mass is zero exactly when the heat capacity is zero or the
  temperature input in force (after the first-iteration replacement) equals the freshwater
  temperature plus \<open>temperature_difference_cold\<close>; the block raises ZeroDivisionError exactly
  then, and otherwise the discharged mass is the energy demand divided by the divisor.
\<close>

theorem discharge_divisor_zero_iff:
  assumes "source_output (ww_mass_input (connector s)) \<noteq> None"
    and "py_index (water_consumption (connector s)) timestep = Inr water"
    and "0 < 4180 / 3600 * water * (ww_temperature_demand cfg - freshwater_temperature cfg)"
  shows "let E = 4180 / 3600 * water * (ww_temperature_demand cfg - freshwater_temperature cfg);
             T1 = fst (first_iteration E
                    (get_input_value (stsv s) (ww_mass_input (connector s)))
                    (get_input_value (stsv s) (ww_temperature_input (connector s))))
         in (discharge_divisor cfg T1 = 0 \<longleftrightarrow>
               water_specific_heat_capacity cfg = 0
               \<or> T1 = freshwater_temperature cfg + temperature_difference_cold cfg)
          \<and> (ww_step cfg timestep s = Inl ZeroDivisionError \<longleftrightarrow> discharge_divisor cfg T1 = 0)
          \<and> (discharge_divisor cfg T1 \<noteq> 0 \<longrightarrow>
               (\<exists>l. ww_step cfg timestep s = Inr (Some l)
                    \<and> ww_mass_output l = E / discharge_divisor cfg T1))"
  using assms
  by (simp add: Let_def discharge_divisor_eq_0 ww_step_def ww_block_positive)

theorem discharge_divisor_zero_iff_witness:
  "discharge_divisor example_config 60 \<noteq> 0
   \<and> ww_step example_config 0 (example_state bound_connector 1 60) \<noteq> Inl ZeroDivisionError
   \<and> (\<exists>l. ww_step example_config 0 (example_state bound_connector 1 60) = Inr (Some l)
          \<and> ww_mass_output l = 4180 / 3600 * 3 * (45 - 10) / (4180 * (60 - 16)))"
proof -
  let ?s = "example_state bound_connector 1 60"
  have h1: "source_output (ww_mass_input (connector ?s)) \<noteq> None"
    by (simp add: example_defs)
  have h2: "py_index (water_consumption (connector ?s)) 0 = Inr 3"
    by (simp add: example_defs py_index_def)
  have h3: "0 < 4180 / 3600 * (3::real)
              * (ww_temperature_demand example_config - freshwater_temperature example_config)"
    by (simp add: example_config_def)
  have m: "get_input_value (stsv ?s) (ww_mass_input (connector ?s)) = 1"
    by (simp add: example_defs)
  have t: "get_input_value (stsv ?s) (ww_temperature_input (connector ?s)) = 60"
    by (simp add: example_defs)
  have d: "discharge_divisor example_config 60 = 4180 * (60 - 16)"
    by (simp add: discharge_divisor_def example_config_def)
  from discharge_divisor_zero_iff [OF h1 h2 h3] show ?thesis
    unfolding Let_def m t
    by (simp add: first_iteration_def d) (auto simp add: example_config_def mult.commute)
qed

text \<open>
  The divisor can be zero: a storage that delivers water at 16 degrees, the return
  temperature of the example configuration, with a water consumption of 3 in the step.
\<close>

theorem discharge_divisor_zero_counterexample:
  "source_output (ww_mass_input (connector (example_state bound_connector 1 16))) \<noteq> None
   \<and> py_index (water_consumption (connector (example_state bound_connector 1 16))) 0 = Inr 3
   \<and> 0 < 4180 / 3600 * (3::real)
          * (ww_temperature_demand example_config - freshwater_temperature example_config)
   \<and> get_input_value (stsv (example_state bound_connector 1 16))
        (ww_temperature_input (connector (example_state bound_connector 1 16))) = 16
   \<and> discharge_divisor example_config 16 = 0
   \<and> ww_step example_config 0 (example_state bound_connector 1 16) = Inl ZeroDivisionError"
proof -
  let ?s = "example_state bound_connector 1 16"
  have h1: "source_output (ww_mass_input (connector ?s)) \<noteq> None"
    by (simp add: example_defs)
  have h2: "py_index (water_consumption (connector ?s)) 0 = Inr 3"
    by (simp add: example_defs py_index_def)
  have h3: "0 < 4180 / 3600 * (3::real)
              * (ww_temperature_demand example_config - freshwater_temperature example_config)"
    by (simp add: example_config_def)
  have m: "get_input_value (stsv ?s) (ww_mass_input (connector ?s)) = 1"
    by (simp add: example_defs)
  have t: "get_input_value (stsv ?s) (ww_temperature_input (connector ?s)) = 16"
    by (simp add: example_defs)
  have d: "discharge_divisor example_config 16 = 0"
    by (simp add: discharge_divisor_def example_config_def)
  have "ww_block example_config 3 1 16 = Inl ZeroDivisionError"
    using h3 d by (simp add: ww_block_positive first_iteration_def)
  then have "ww_step example_config 0 ?s = Inl ZeroDivisionError"
    using h1 h2 m t by (simp add: ww_step_def)
  with h1 h2 h3 t d show ?thesis by blast
qed

lemma store_forecast_frame:
  "connector (snd (store_forecast t s)) = connector s
   \<and> stsv (snd (store_forecast t s)) = stsv s
   \<and> io_events (snd (store_forecast t s)) = io_events s"
  by (simp add: store_forecast_def Let_def)

lemma write_output_frame:
  "connector (snd (write_output out xs t s)) = connector s
   \<and> repository (snd (write_output out xs t s)) = repository s
   \<and> io_events (snd (write_output out xs t s)) = io_events s"
  by (simp add: write_output_def split: sum.splits)

lemma write_output_in_range:
  "0 \<le> t \<Longrightarrow> t < int (length xs) \<Longrightarrow>
   write_output out xs t s = (None, s\<lparr>stsv := set_output_value (stsv s) out (xs ! nat t)\<rparr>)"
  by (simp add: write_output_def py_index_in_range)

text \<open>The state after the four writes of lines 234 to 243.\<close>

lemma i_simulate_normal:
  assumes "0 \<le> t"
    and "t < int (length (number_of_residents (connector s)))"
    and "t < int (length (heating_by_residents (connector s)))"
    and "t < int (length (electricity_consumption (connector s)))"
    and "t < int (length (water_consumption (connector s)))"
    and "ww_step cfg t s = Inr locals"
  shows "i_simulate cfg t fc s =
     store_forecast t
       (s\<lparr>stsv :=
          set_output_value
            (set_output_value
              (set_output_value
                (set_output_value (stsv s)
                  (number_of_residentsC (connector s)) (number_of_residents (connector s) ! nat t))
                (heating_by_residentsC (connector s)) (heating_by_residents (connector s) ! nat t))
              (electricity_outputC (connector s)) (electricity_consumption (connector s) ! nat t))
            (water_consumptionC (connector s)) (water_consumption (connector s) ! nat t)\<rparr>)"
  using assms by (simp add: i_simulate_def write_output_in_range)

lemma declared_outputs_distinct: "distinct (map output_key_of declared_outputs)"
  by (simp add: declared_outputs_def add_output_def output_key_of_def)

text \<open>
  Claim C6, as amended. For a time step within the length of the four series, a call of
  \<open>i_simulate\<close> whose warm-water block does not raise writes one value for each of the four
  declared outputs NumberByResidents, HeatingByResidents, ElectricityOutput and
  WaterConsumption, in this order and exactly once each: the value of its series at the
  step. This holds whether the warm-water block runs or not, and whatever it computes.
\<close>

theorem i_simulate_writes_outputs:
  assumes "0 \<le> timestep"
    and "timestep < int (length (number_of_residents (connector s)))"
    and "timestep < int (length (heating_by_residents (connector s)))"
    and "timestep < int (length (electricity_consumption (connector s)))"
    and "timestep < int (length (water_consumption (connector s)))"
    and "ww_step cfg timestep s = Inr locals"
    and "outputs_of (connector s) = declared_outputs"
  shows "writes (stsv (snd (i_simulate cfg timestep fc s))) =
           writes (stsv s) @
             [((component_name, ''NumberByResidents''),
                 number_of_residents (connector s) ! nat timestep),
              ((component_name, ''HeatingByResidents''),
                 heating_by_residents (connector s) ! nat timestep),
              ((component_name, ''ElectricityOutput''),
                 electricity_consumption (connector s) ! nat timestep),
              ((component_name, ''WaterConsumption''),
                 water_consumption (connector s) ! nat timestep)]
       \<and> map fst (drop (length (writes (stsv s)))
                     (writes (stsv (snd (i_simulate cfg timestep fc s)))))
           = map output_key_of declared_outputs
       \<and> distinct (map output_key_of declared_outputs)
       \<and> (\<forall>out \<in> set declared_outputs.
             count_list
               (map fst (drop (length (writes (stsv s)))
                           (writes (stsv (snd (i_simulate cfg timestep fc s))))))
               (output_key_of out) = 1)
       \<and> slots (stsv (snd (i_simulate cfg timestep fc s))) (component_name, ''NumberByResidents'')
           = number_of_residents (connector s) ! nat timestep
       \<and> slots (stsv (snd (i_simulate cfg timestep fc s))) (component_name, ''HeatingByResidents'')
           = heating_by_residents (connector s) ! nat timestep
       \<and> slots (stsv (snd (i_simulate cfg timestep fc s))) (component_name, ''ElectricityOutput'')
           = electricity_consumption (connector s) ! nat timestep
       \<and> slots (stsv (snd (i_simulate cfg timestep fc s))) (component_name, ''WaterConsumption'')
           = water_consumption (connector s) ! nat timestep"
proof -
  from assms(7) have o:
    "number_of_residentsC (connector s) = add_output component_name ''NumberByResidents'' ''ANY'' ''ANY''"
    "heating_by_residentsC (connector s) = add_output component_name ''HeatingByResidents'' ''HEATING'' ''WATT''"
    "electricity_outputC (connector s) = add_output component_name ''ElectricityOutput'' ''ELECTRICITY'' ''WATT''"
    "water_consumptionC (connector s) = add_output component_name ''WaterConsumption'' ''WARM_WATER'' ''LITER''"
    by (simp_all add: outputs_of_def declared_outputs_def)
  have k: "output_key_of (add_output a b c d) = (a, b)" for a b c d
    by (simp add: output_key_of_def add_output_def)
  let ?s' = "snd (i_simulate cfg timestep fc s)"
  have w: "writes (stsv ?s') =
           writes (stsv s) @
             [((component_name, ''NumberByResidents''),
                 number_of_residents (connector s) ! nat timestep),
              ((component_name, ''HeatingByResidents''),
                 heating_by_residents (connector s) ! nat timestep),
              ((component_name, ''ElectricityOutput''),
                 electricity_consumption (connector s) ! nat timestep),
              ((component_name, ''WaterConsumption''),
                 water_consumption (connector s) ! nat timestep)]"
    by (simp add: i_simulate_normal [OF assms(1-6)] store_forecast_frame set_output_value_def o k)
  have m: "map fst (drop (length (writes (stsv s))) (writes (stsv ?s')))
           = map output_key_of declared_outputs"
    by (simp add: w declared_outputs_def k)
  have c: "\<forall>out \<in> set declared_outputs.
             count_list (map fst (drop (length (writes (stsv s))) (writes (stsv ?s'))))
               (output_key_of out) = 1"
    unfolding m by (simp add: declared_outputs_def k)
  have sl:
    "slots (stsv ?s') (component_name, ''NumberByResidents'')
           = number_of_residents (connector s) ! nat timestep"
    "slots (stsv ?s') (component_name, ''HeatingByResidents'')
           = heating_by_residents (connector s) ! nat timestep"
    "slots (stsv ?s') (component_name, ''ElectricityOutput'')
           = electricity_consumption (connector s) ! nat timestep"
    "slots (stsv ?s') (component_name, ''WaterConsumption'')
           = water_consumption (connector s) ! nat timestep"
    by (simp_all add: i_simulate_normal [OF assms(1-6)] store_forecast_frame set_output_value_def o k)
  from w m c sl declared_outputs_distinct show ?thesis by blast
qed


lemma example_ww_step_60:
  "\<exists>l. ww_step example_config 0 (example_state bound_connector 1 60) = Inr l"
proof -
  have h3: "0 < 4180 / 3600 * (3::real)
              * (ww_temperature_demand example_config - freshwater_temperature example_config)"
    by (simp add: example_config_def)
  have d: "discharge_divisor example_config 60 \<noteq> 0"
    by (simp add: discharge_divisor_def example_config_def)
  have "\<exists>l. ww_block example_config 3 1 60 = Inr l"
    using d by (simp add: ww_block_positive [OF h3] first_iteration_def)
  then show ?thesis
    by (auto simp add: ww_step_def example_defs py_index_def)
qed

theorem i_simulate_writes_outputs_witness:
  "writes (stsv (snd (i_simulate example_config 0 False (example_state bound_connector 1 60)))) =
     [((''UtspLpgConnector'', ''NumberByResidents''), 2),
      ((''UtspLpgConnector'', ''HeatingByResidents''), 300),
      ((''UtspLpgConnector'', ''ElectricityOutput''), 120),
      ((''UtspLpgConnector'', ''WaterConsumption''), 3)]
   \<and> writes (stsv (snd (i_simulate example_config 0 False (example_state unbound_connector 0 0)))) =
     [((''UtspLpgConnector'', ''NumberByResidents''), 2),
      ((''UtspLpgConnector'', ''HeatingByResidents''), 300),
      ((''UtspLpgConnector'', ''ElectricityOutput''), 120),
      ((''UtspLpgConnector'', ''WaterConsumption''), 3)]"
proof -
  let ?b = "example_state bound_connector 1 60"
  let ?u = "example_state unbound_connector 0 0"
  from example_ww_step_60 obtain l where l: "ww_step example_config 0 ?b = Inr l" by blast
  have u: "ww_step example_config 0 ?u = Inr None"
    by (simp add: ww_step_def example_defs)
  have b1: "(0::int) \<le> 0" by simp
  have b2: "0 < int (length (number_of_residents (connector ?b)))"
    and b3: "0 < int (length (heating_by_residents (connector ?b)))"
    and b4: "0 < int (length (electricity_consumption (connector ?b)))"
    and b5: "0 < int (length (water_consumption (connector ?b)))"
    and b7: "outputs_of (connector ?b) = declared_outputs"
    by (simp_all add: example_defs outputs_of_def)
  have u2: "0 < int (length (number_of_residents (connector ?u)))"
    and u3: "0 < int (length (heating_by_residents (connector ?u)))"
    and u4: "0 < int (length (electricity_consumption (connector ?u)))"
    and u5: "0 < int (length (water_consumption (connector ?u)))"
    and u7: "outputs_of (connector ?u) = declared_outputs"
    by (simp_all add: example_defs outputs_of_def)
  have vb: "writes (stsv ?b) = []" "number_of_residents (connector ?b) ! 0 = 2"
    "heating_by_residents (connector ?b) ! 0 = 300"
    "electricity_consumption (connector ?b) ! 0 = 120"
    "water_consumption (connector ?b) ! 0 = 3"
    by (simp_all add: example_defs)
  have vu: "writes (stsv ?u) = []" "number_of_residents (connector ?u) ! 0 = 2"
    "heating_by_residents (connector ?u) ! 0 = 300"
    "electricity_consumption (connector ?u) ! 0 = 120"
    "water_consumption (connector ?u) ! 0 = 3"
    by (simp_all add: example_defs)
  from i_simulate_writes_outputs [OF b1 b2 b3 b4 b5 l b7, of False]
       i_simulate_writes_outputs [OF b1 u2 u3 u4 u5 u u7, of False]
  show ?thesis
    by (simp add: vb vu component_name_def)
qed

text \<open>
  A call within the series that writes nothing: the warm-water block divides by zero at
  line 218, before the first write of line 234 is reached.
\<close>

theorem i_simulate_writes_counterexample:
  "(0::int) \<le> 0
   \<and> 0 < int (length (number_of_residents (connector (example_state bound_connector 1 16))))
   \<and> 0 < int (length (heating_by_residents (connector (example_state bound_connector 1 16))))
   \<and> 0 < int (length (electricity_consumption (connector (example_state bound_connector 1 16))))
   \<and> 0 < int (length (water_consumption (connector (example_state bound_connector 1 16))))
   \<and> outputs_of (connector (example_state bound_connector 1 16)) = declared_outputs
   \<and> fst (i_simulate example_config 0 False (example_state bound_connector 1 16))
       = Some ZeroDivisionError
   \<and> writes (stsv (snd (i_simulate example_config 0 False (example_state bound_connector 1 16))))
       = []"
proof -
  let ?s = "example_state bound_connector 1 16"
  have h3: "0 < 4180 / 3600 * (3::real)
              * (ww_temperature_demand example_config - freshwater_temperature example_config)"
    by (simp add: example_config_def)
  have d: "discharge_divisor example_config 16 = 0"
    by (simp add: discharge_divisor_def example_config_def)
  have "ww_block example_config 3 1 16 = Inl ZeroDivisionError"
    using d by (simp add: ww_block_positive [OF h3] first_iteration_def)
  then have w: "ww_step example_config 0 ?s = Inl ZeroDivisionError"
    by (simp add: ww_step_def example_defs py_index_def)
  have r: "i_simulate example_config 0 False ?s = (Some ZeroDivisionError, ?s)"
    by (simp add: i_simulate_def w)
  have "writes (stsv ?s) = []" by (simp add: example_defs)
  with r show ?thesis
    by (simp add: example_defs outputs_of_def)
qed

lemma py_slice_forward:
  assumes "0 \<le> i" and "i \<le> j" and "j \<le> int (length xs)"
  shows "py_slice xs i j = take (nat (j - i)) (drop (nat i) xs)"
  using assms by (simp add: py_slice_def Let_def min_def)

text \<open>
  Claim C10. With the predictive option set, a positive step length and a time step \<open>t\<close>
  within the series, a call of \<open>i_simulate\<close> that gets past the warm-water block returns
  without an exception and leaves under the key \<open>Electricity_Demand_Forecast_24h\<close> the slice
  of the electricity series from \<open>t\<close> to the minimum of \<open>t + 24 * 3600 div
  seconds_per_timestep\<close> and the length of the series. The slice is no longer than 24 hours
  of steps, ends within the series, and no other key of the repository changes.
\<close>

theorem i_simulate_forecast:
  assumes "predictive (my_simulation_parameters (connector s))"
    and "0 < seconds_per_timestep (my_simulation_parameters (connector s))"
    and "0 \<le> timestep"
    and "timestep < int (length (number_of_residents (connector s)))"
    and "timestep < int (length (heating_by_residents (connector s)))"
    and "timestep < int (length (electricity_consumption (connector s)))"
    and "timestep < int (length (water_consumption (connector s)))"
    and "ww_step cfg timestep s = Inr locals"
  shows "let e = electricity_consumption (connector s);
             horizon = 24 * 3600 div seconds_per_timestep (my_simulation_parameters (connector s));
             last = min (timestep + horizon) (int (length e));
             r = i_simulate cfg timestep fc s
         in fst r = None
          \<and> repository (snd r) Electricity_Demand_Forecast_24h = Some (py_slice e timestep last)
          \<and> py_slice e timestep last = take (nat (last - timestep)) (drop (nat timestep) e)
          \<and> length (py_slice e timestep last) \<le> nat horizon
          \<and> nat timestep + length (py_slice e timestep last) \<le> length e
          \<and> (\<forall>k. k \<noteq> Electricity_Demand_Forecast_24h \<longrightarrow>
                 repository (snd r) k = repository s k)"
proof -
  define c where "c = connector s"
  define e where "e = electricity_consumption c"
  define sps where "sps = seconds_per_timestep (my_simulation_parameters c)"
  define horizon where "horizon = 24 * 3600 div sps"
  define last where "last = min (timestep + horizon) (int (length e))"
  define s4 where "s4 = s\<lparr>stsv :=
          set_output_value
            (set_output_value
              (set_output_value
                (set_output_value (stsv s)
                  (number_of_residentsC (connector s)) (number_of_residents (connector s) ! nat timestep))
                (heating_by_residentsC (connector s)) (heating_by_residents (connector s) ! nat timestep))
              (electricity_outputC (connector s)) (electricity_consumption (connector s) ! nat timestep))
            (water_consumptionC (connector s)) (water_consumption (connector s) ! nat timestep)\<rparr>"
  have sim: "i_simulate cfg timestep fc s = store_forecast timestep s4"
    unfolding s4_def by (rule i_simulate_normal [OF assms(3-8)])
  have c4: "connector s4 = c" "repository s4 = repository s"
    by (simp_all add: s4_def c_def)
  have sps: "0 < sps" using assms(2) by (simp add: sps_def c_def)
  have h0: "0 \<le> horizon" using sps by (simp add: horizon_def pos_imp_zdiv_nonneg_iff)
  have pi: "py_int (of_int timestep + 86400 / of_int sps) = timestep + horizon"
    using py_int_forecast [OF sps assms(3)] by (simp add: horizon_def)
  have l: "(if int (length e) < timestep + horizon then int (length e) else timestep + horizon) = last"
    by (simp add: last_def min_def)
  have sf: "store_forecast timestep s4 =
        (None, s4\<lparr>repository :=
                    set_entry (repository s4) Electricity_Demand_Forecast_24h (py_slice e timestep last)\<rparr>)"
    using assms(1) sps
    by (simp add: store_forecast_def Let_def c4 sps_def [symmetric] e_def [symmetric] pi
          c_def [symmetric] last_def min_def)
  have tl: "timestep \<le> last" "last \<le> int (length e)"
    using h0 assms(6) by (simp_all add: last_def e_def c_def)
  have sl: "py_slice e timestep last = take (nat (last - timestep)) (drop (nat timestep) e)"
    by (rule py_slice_forward [OF assms(3) tl])
  have len: "length (py_slice e timestep last) = nat (last - timestep)"
    using tl assms(3) by (simp add: sl)
  have b1: "length (py_slice e timestep last) \<le> nat horizon"
    unfolding len using h0 by (simp add: last_def)
  have b2: "nat timestep + length (py_slice e timestep last) \<le> length e"
    unfolding len using tl assms(3) by linarith
  have "fst (i_simulate cfg timestep fc s) = None"
    and "repository (snd (i_simulate cfg timestep fc s)) Electricity_Demand_Forecast_24h
           = Some (py_slice e timestep last)"
    and "\<forall>k. k \<noteq> Electricity_Demand_Forecast_24h \<longrightarrow>
                 repository (snd (i_simulate cfg timestep fc s)) k = repository s k"
    by (simp_all add: sim sf set_entry_def c4)
  with sl b1 b2 show ?thesis
    unfolding Let_def e_def [symmetric] c_def [symmetric] sps_def [symmetric]
      horizon_def [symmetric] last_def [symmetric]
    by blast
qed


theorem i_simulate_forecast_witness:
  "fst (i_simulate example_config 2 False (example_state bound_connector 1 60)) = None
   \<and> repository (snd (i_simulate example_config 2 False (example_state bound_connector 1 60)))
        ''Electricity_Demand_Forecast_24h'' = Some [30]
   \<and> fst (i_simulate example_config 0 False (example_state unbound_connector 0 0)) = None
   \<and> repository (snd (i_simulate example_config 0 False (example_state unbound_connector 0 0)))
        ''Electricity_Demand_Forecast_24h'' = Some [120, 60]"
proof -
  let ?b = "example_state bound_connector 1 60"
  let ?u = "example_state unbound_connector 0 0"
  have h3: "0 < 4180 / 3600 * (1::real)
              * (ww_temperature_demand example_config - freshwater_temperature example_config)"
    by (simp add: example_config_def)
  have d: "discharge_divisor example_config 60 \<noteq> 0"
    by (simp add: discharge_divisor_def example_config_def)
  have "\<exists>l. ww_block example_config 1 1 60 = Inr l"
    using d by (simp add: ww_block_positive [OF h3] first_iteration_def)
  then have "\<exists>l. ww_step example_config 2 ?b = Inr l"
    by (auto simp add: ww_step_def example_defs py_index_def)
  then obtain l where l: "ww_step example_config 2 ?b = Inr l" by blast
  have u: "ww_step example_config 0 ?u = Inr None"
    by (simp add: ww_step_def example_defs)
  have b1: "predictive (my_simulation_parameters (connector ?b))"
    and b2: "0 < seconds_per_timestep (my_simulation_parameters (connector ?b))"
    and b3: "(0::int) \<le> 2"
    and b4: "2 < int (length (number_of_residents (connector ?b)))"
    and b5: "2 < int (length (heating_by_residents (connector ?b)))"
    and b6: "2 < int (length (electricity_consumption (connector ?b)))"
    and b7: "2 < int (length (water_consumption (connector ?b)))"
    by (simp_all add: example_defs)
  have u1: "predictive (my_simulation_parameters (connector ?u))"
    and u2: "0 < seconds_per_timestep (my_simulation_parameters (connector ?u))"
    and u3: "(0::int) \<le> 0"
    and u4: "0 < int (length (number_of_residents (connector ?u)))"
    and u5: "0 < int (length (heating_by_residents (connector ?u)))"
    and u6: "0 < int (length (electricity_consumption (connector ?u)))"
    and u7: "0 < int (length (water_consumption (connector ?u)))"
    by (simp_all add: example_defs)
  have vb: "electricity_consumption (connector ?b) = [120, 60, 30]"
    "seconds_per_timestep (my_simulation_parameters (connector ?b)) = 43200"
    by (simp_all add: example_defs)
  have vu: "electricity_consumption (connector ?u) = [120, 60, 30]"
    "seconds_per_timestep (my_simulation_parameters (connector ?u)) = 43200"
    by (simp_all add: example_defs)
  from i_simulate_forecast [OF b1 b2 b3 b4 b5 b6 b7 l, of False]
       i_simulate_forecast [OF u1 u2 u3 u4 u5 u6 u7 u, of False]
  show ?thesis
    unfolding Let_def vb vu
    by (simp add: Electricity_Demand_Forecast_24h_def)
qed

text \<open>
  A call with the predictive option set that stores no forecast: the warm-water block
  divides by zero at line 218, and lines 245 to 258 are not reached.
\<close>

theorem i_simulate_forecast_counterexample:
  "predictive (my_simulation_parameters (connector (example_state bound_connector 1 16)))
   \<and> 0 < seconds_per_timestep
           (my_simulation_parameters (connector (example_state bound_connector 1 16)))
   \<and> (0::int) < int (length (electricity_consumption
                               (connector (example_state bound_connector 1 16))))
   \<and> i_simulate example_config 0 False (example_state bound_connector 1 16)
       = (Some ZeroDivisionError, example_state bound_connector 1 16)
   \<and> repository (snd (i_simulate example_config 0 False (example_state bound_connector 1 16)))
        Electricity_Demand_Forecast_24h = None"
proof -
  let ?s = "example_state bound_connector 1 16"
  have h3: "0 < 4180 / 3600 * (3::real)
              * (ww_temperature_demand example_config - freshwater_temperature example_config)"
    by (simp add: example_config_def)
  have d: "discharge_divisor example_config 16 = 0"
    by (simp add: discharge_divisor_def example_config_def)
  have "ww_block example_config 3 1 16 = Inl ZeroDivisionError"
    using d by (simp add: ww_block_positive [OF h3] first_iteration_def)
  then have w: "ww_step example_config 0 ?s = Inl ZeroDivisionError"
    by (simp add: ww_step_def example_defs py_index_def)
  have r: "i_simulate example_config 0 False ?s = (Some ZeroDivisionError, ?s)"
    by (simp add: i_simulate_def w)
  have "repository ?s Electricity_Demand_Forecast_24h = None"
    by (simp add: example_state_def)
  with r show ?thesis
    by (simp add: example_defs)
qed

section \<open>Properties of \<open>build\<close>\<close>

lemma py_slice_nonneg:
  assumes "0 \<le> a" and "a \<le> b"
  shows "py_slice xs a b = take (nat (b - a)) (drop (nat a) xs)"
proof (cases "b \<le> int (length xs)")
  case True
  with assms show ?thesis by (simp add: py_slice_def Let_def min_def)
next
  case False
  show ?thesis
  proof (cases "a \<le> int (length xs)")
    case True
    with False assms show ?thesis by (simp add: py_slice_def Let_def min_def)
  next
    case False
    with assms show ?thesis by (simp add: py_slice_def Let_def min_def)
  qed
qed

lemma equal_loop_result:
  assumes "column occ ''Values'' = Inr vals" and "distinct ts"
    and "\<forall>t \<in> set ts. t < length num \<and> t < length heat \<and> t < length vals"
  shows "equal_loop g occ ts (num, heat) =
     Inr (map (\<lambda>i. if i \<in> set ts then num ! i + vals ! i else num ! i) [0 ..< length num],
          map (\<lambda>i. if i \<in> set ts then heat ! i + g * vals ! i else heat ! i) [0 ..< length heat])"
  using assms(2,3)
proof (induction ts arbitrary: num heat)
  case Nil
  show ?case by (simp add: map_nth)
next
  case (Cons t ts)
  let ?num = "num[t := num ! t + vals ! t]"
  let ?heat = "heat[t := heat ! t + g * vals ! t]"
  from Cons.prems have t: "t < length num" "t < length heat" "t < length vals" "t \<notin> set ts"
    and d: "distinct ts"
    and r: "\<forall>u \<in> set ts. u < length ?num \<and> u < length ?heat \<and> u < length vals"
    by simp_all
  have "equal_loop g occ (t # ts) (num, heat) = equal_loop g occ ts (?num, ?heat)"
    using t assms(1) by simp
  also have "\<dots> =
     Inr (map (\<lambda>i. if i \<in> set ts then ?num ! i + vals ! i else ?num ! i) [0 ..< length ?num],
          map (\<lambda>i. if i \<in> set ts then ?heat ! i + g * vals ! i else ?heat ! i) [0 ..< length ?heat])"
    by (rule Cons.IH [OF d r])
  also have "map (\<lambda>i. if i \<in> set ts then ?num ! i + vals ! i else ?num ! i) [0 ..< length ?num]
           = map (\<lambda>i. if i \<in> set (t # ts) then num ! i + vals ! i else num ! i) [0 ..< length num]"
    using t by (auto simp: nth_list_update)
  also have "map (\<lambda>i. if i \<in> set ts then ?heat ! i + g * vals ! i else ?heat ! i) [0 ..< length ?heat]
           = map (\<lambda>i. if i \<in> set (t # ts) then heat ! i + g * vals ! i else heat ! i) [0 ..< length heat]"
    using t by (auto simp: nth_list_update)
  finally show ?case .
qed

lemma average_loop_result:
  assumes "column occ ''Values'' = Inr vals" and "r \<noteq> 0" and "distinct ts"
    and "\<forall>t \<in> set ts. t < length num \<and> t < length heat"
  shows "average_loop g occ r ts (num, heat) =
     Inr (map (\<lambda>i. if i \<in> set ts
                    then num ! i + np_round (sum_list (py_slice vals (int i * r) ((int i + 1) * r))
                                              / of_int r)
                    else num ! i) [0 ..< length num],
          map (\<lambda>i. if i \<in> set ts
                    then heat ! i + g * (sum_list (py_slice vals (int i * r) ((int i + 1) * r))
                                              / of_int r)
                    else heat ! i) [0 ..< length heat])"
  using assms(3,4)
proof (induction ts arbitrary: num heat)
  case Nil
  show ?case by (simp add: map_nth)
next
  case (Cons t ts)
  define av where "av i = sum_list (py_slice vals (int i * r) ((int i + 1) * r)) / real_of_int r" for i
  let ?num = "num[t := num ! t + np_round (av t)]"
  let ?heat = "heat[t := heat ! t + g * av t]"
  from Cons.prems have t: "t < length num" "t < length heat" "t \<notin> set ts"
    and d: "distinct ts"
    and r: "\<forall>u \<in> set ts. u < length ?num \<and> u < length ?heat"
    by simp_all
  have "average_loop g occ r (t # ts) (num, heat) = average_loop g occ r ts (?num, ?heat)"
    using t assms(1,2) by (simp add: av_def Let_def)
  also have "\<dots> =
     Inr (map (\<lambda>i. if i \<in> set ts then ?num ! i + np_round (av i) else ?num ! i) [0 ..< length ?num],
          map (\<lambda>i. if i \<in> set ts then ?heat ! i + g * av i else ?heat ! i) [0 ..< length ?heat])"
    unfolding av_def by (rule Cons.IH [OF d r [unfolded av_def]])
  also have "map (\<lambda>i. if i \<in> set ts then ?num ! i + np_round (av i) else ?num ! i) [0 ..< length ?num]
           = map (\<lambda>i. if i \<in> set (t # ts) then num ! i + np_round (av i) else num ! i) [0 ..< length num]"
    using t by (auto simp: nth_list_update)
  also have "map (\<lambda>i. if i \<in> set ts then ?heat ! i + g * av i else ?heat ! i) [0 ..< length ?heat]
           = map (\<lambda>i. if i \<in> set (t # ts) then heat ! i + g * av i else heat ! i) [0 ..< length heat]"
    using t by (auto simp: nth_list_update)
  finally show ?case unfolding av_def .
qed


text \<open>
  The float quotient of two natural numbers, the dividend below \<open>2^53\<close>, truncates to their
  integer quotient: the rounding never reaches the next integer.
\<close>

lemma bit_length_bounds:
  "0 < n \<Longrightarrow> 2 ^ (bit_length n - 1) \<le> n \<and> n < 2 ^ bit_length n"
proof (induction n rule: bit_length.induct)
  case (1 n)
  have bl: "bit_length n = Suc (bit_length (n div 2))"
    using "1.prems" by (simp add: bit_length.simps [of n])
  show ?case
  proof (cases "n div 2 = 0")
    case True
    with "1.prems" have "n = 1" by (simp add: div_eq_0_iff)
    then show ?thesis by (simp add: bit_length.simps)
  next
    case False
    then have h: "0 < n div 2" by simp
    have n0: "n \<noteq> 0" using "1.prems" by simp
    from "1.IH" [OF n0 h]
    have lo: "2 ^ (bit_length (n div 2) - 1) \<le> n div 2"
      and hi: "n div 2 < 2 ^ bit_length (n div 2)" by simp_all
    have pos: "bit_length (n div 2) = Suc (bit_length (n div 2) - 1)"
      using False by (simp add: bit_length.simps [of "n div 2"])
    have "2 ^ (bit_length n - 1) = (2::nat) * 2 ^ (bit_length (n div 2) - 1)"
      unfolding bl using pos by (metis diff_Suc_1 power_Suc)
    also have "\<dots> \<le> 2 * (n div 2)" using lo by simp
    also have "\<dots> \<le> n" by simp
    finally have a: "2 ^ (bit_length n - 1) \<le> n" .
    have "n < 2 * (n div 2 + 1)" by presburger
    also have "\<dots> \<le> 2 * 2 ^ bit_length (n div 2)" using hi by simp
    also have "\<dots> = 2 ^ bit_length n" unfolding bl by simp
    finally have b: "n < 2 ^ bit_length n" .
    from a b show ?thesis ..
  qed
qed

lemma binary_exponent_bounds:
  assumes "0 < x"
  shows "2 powi binary_exponent x \<le> x \<and> x < 2 powi (binary_exponent x + 1)"
proof (cases "1 \<le> x")
  case True
  define n where "n = nat \<lfloor>x\<rfloor>"
  have n: "0 < n" "real n \<le> x" "x < real n + 1"
    using True unfolding n_def by linarith+
  from bit_length_bounds [OF n(1)]
  have lo: "2 ^ (bit_length n - 1) \<le> n" and hi: "n < 2 ^ bit_length n" by simp_all
  have pos: "0 < bit_length n" using n(1) by (simp add: bit_length.simps [of n])
  have E: "binary_exponent x = int (bit_length n - 1)"
    using True pos by (simp add: binary_exponent_def n_def)
  have E1: "binary_exponent x + 1 = int (bit_length n)"
    using E pos by simp
  have "(2::real) ^ (bit_length n - 1) \<le> real n"
    using lo by (metis of_nat_le_iff of_nat_numeral of_nat_power)
  then have a: "2 powi binary_exponent x \<le> x"
    unfolding E power_int_of_nat using n(2) by linarith
  have "real n + 1 \<le> (2::real) ^ bit_length n"
    using hi by (metis Suc_leI of_nat_Suc of_nat_le_iff of_nat_numeral of_nat_power add.commute)
  then have b: "x < 2 powi (binary_exponent x + 1)"
    unfolding E1 power_int_of_nat using n(3) by linarith
  from a b show ?thesis ..
next
  case False
  define y where "y = 1 / x"
  define m where "m = nat (\<lceil>y\<rceil> - 1)"
  have y: "1 < y" using False assms unfolding y_def by simp
  have m: "0 < m" "real m < y" "y \<le> real m + 1"
    using y unfolding m_def by linarith+
  from bit_length_bounds [OF m(1)]
  have lo: "2 ^ (bit_length m - 1) \<le> m" and hi: "m < 2 ^ bit_length m" by simp_all
  have pos: "0 < bit_length m" using m(1) by (simp add: bit_length.simps [of m])
  have E: "binary_exponent x = - int (bit_length m)"
    using False by (simp add: binary_exponent_def m_def y_def)
  have E1: "binary_exponent x + 1 = - int (bit_length m - 1)"
    using E pos by simp
  have "real m + 1 \<le> (2::real) ^ bit_length m"
    using hi by (metis Suc_leI of_nat_Suc of_nat_le_iff of_nat_numeral of_nat_power add.commute)
  with m(3) have "1 / x \<le> (2::real) ^ bit_length m" unfolding y_def by linarith
  then have "1 / (2::real) ^ bit_length m \<le> x"
    using assms by (simp add: field_simps)
  then have a: "2 powi binary_exponent x \<le> x"
    unfolding E power_int_minus power_int_of_nat by (simp add: field_simps)
  have "(2::real) ^ (bit_length m - 1) \<le> real m"
    using lo by (metis of_nat_le_iff of_nat_numeral of_nat_power)
  with m(2) have "(2::real) ^ (bit_length m - 1) < 1 / x" unfolding y_def by linarith
  then have "x < 1 / (2::real) ^ (bit_length m - 1)"
    using assms by (simp add: field_simps)
  then have b: "x < 2 powi (binary_exponent x + 1)"
    unfolding E1 power_int_minus power_int_of_nat by (simp add: field_simps)
  from a b show ?thesis ..
qed

lemma np_round_bounds:
  "of_int \<lfloor>y\<rfloor> \<le> np_round y \<and> np_round y \<le> y + 1 / 2 \<and> y - 1 / 2 \<le> np_round y"
  unfolding np_round_def Let_def by (auto; linarith)


lemma fl64_scaled:
  assumes "0 < x" and "x < 2 ^ 53"
  shows "\<exists>k. fl64 x = np_round (x * 2 ^ k) / 2 ^ k \<and> 2 ^ 52 \<le> x * 2 ^ k"
proof -
  define E where "E = binary_exponent x"
  from binary_exponent_bounds [OF assms(1)]
  have lo: "2 powi E \<le> x" and hi: "x < 2 powi (E + 1)" unfolding E_def by simp_all
  have "E < 53"
  proof (rule ccontr)
    assume "\<not> E < 53"
    then have "53 \<le> E" by simp
    then have "(2::real) powi 53 \<le> 2 powi E" by (intro power_int_increasing) simp_all
    with lo assms(2) show False by simp
  qed
  then have e: "0 \<le> 52 - E" by simp
  define k where "k = nat (52 - E)"
  have k: "E - 52 = - int k" unfolding k_def using e by simp
  have p: "(2::real) powi (E - 52) = 1 / 2 ^ k"
    unfolding k power_int_minus power_int_of_nat by (simp add: field_simps)
  have x0: "x \<noteq> 0" "\<bar>x\<bar> = x" using assms(1) by simp_all
  have f: "fl64 x = np_round (x * 2 ^ k) / 2 ^ k"
    unfolding fl64_def Let_def x0(2) E_def [symmetric] p using x0(1) by simp
  have "(2::real) powi E * 2 ^ k = 2 powi (E + int k)"
    by (simp add: power_int_add)
  also have "E + int k = 52" using k by simp
  finally have "(2::real) powi E * 2 ^ k = 2 ^ 52" by simp
  moreover have "2 powi E * 2 ^ k \<le> x * 2 ^ k" using lo by simp
  ultimately have "2 ^ 52 \<le> x * 2 ^ k" by simp
  with f show ?thesis by blast
qed

lemma py_int_fl64_div:
  assumes "0 < b" and "a < 2 ^ 53"
  shows "py_int (fl64 (real a / real b)) = int (a div b)"
proof (cases "a = 0")
  case True
  then show ?thesis by (simp add: fl64_def py_int_def)
next
  case False
  define x where "x = real a / real b"
  define q where "q = a div b"
  have x: "0 < x" using False assms(1) unfolding x_def by simp
  have "real a < 2 ^ 53"
    using assms(2) by (metis of_nat_less_iff of_nat_numeral of_nat_power)
  moreover have xa: "x \<le> real a"
    unfolding x_def using assms(1) by (simp add: field_simps mult_le_cancel_left1 Suc_leI)
  ultimately have x53: "x < 2 ^ 53" by linarith
  from fl64_scaled [OF x x53] obtain k where
    f: "fl64 x = np_round (x * 2 ^ k) / 2 ^ k" and s: "2 ^ 52 \<le> x * 2 ^ k" by blast
  have ab: "a = q * b + a mod b" unfolding q_def by simp
  have "a mod b < b" using assms(1) by simp
  then have r: "a mod b \<le> b - 1" by linarith
  have "real a = real q * real b + real (a mod b)"
    using ab by (metis of_nat_add of_nat_mult)
  then have xq: "x = real q + real (a mod b) / real b"
    unfolding x_def using assms(1) by (simp add: field_simps)
  have ql: "real q \<le> x" unfolding xq by simp
  have "real (a mod b) \<le> real b - 1" using r assms(1) by linarith
  then have "real (a mod b) / real b \<le> (real b - 1) / real b"
    using assms(1) by (simp add: divide_right_mono)
  also have "\<dots> = 1 - 1 / real b" using assms(1) by (simp add: field_simps)
  finally have xu: "x \<le> real q + 1 - 1 / real b" unfolding xq by simp
  \<comment> \<open>the lower bound\<close>
  have "real q * 2 ^ k = of_int (int q * 2 ^ k)" by simp
  moreover have "real q * 2 ^ k \<le> x * 2 ^ k" using ql by simp
  ultimately have "of_int (int q * 2 ^ k) \<le> x * 2 ^ k" by simp
  then have "int q * 2 ^ k \<le> \<lfloor>x * 2 ^ k\<rfloor>" by (simp only: le_floor_iff)
  then have "real_of_int (int q * 2 ^ k) \<le> of_int \<lfloor>x * 2 ^ k\<rfloor>" by (simp only: of_int_le_iff)
  also have "\<dots> \<le> np_round (x * 2 ^ k)" using np_round_bounds by blast
  finally have "real q * 2 ^ k \<le> np_round (x * 2 ^ k)" by simp
  then have lower: "real q \<le> fl64 x" unfolding f by (simp add: field_simps)
  \<comment> \<open>the upper bound\<close>
  have "2 ^ 52 * real b \<le> real a * 2 ^ k"
    using s assms(1) unfolding x_def by (simp add: field_simps)
  also have "\<dots> < 2 ^ 53 * 2 ^ k" using \<open>real a < 2 ^ 53\<close> by simp
  finally have "real b < 2 * 2 ^ k" by simp
  then have half: "1 / 2 < 2 ^ k / real b" using assms(1) by (simp add: field_simps)
  have "np_round (x * 2 ^ k) \<le> x * 2 ^ k + 1 / 2" using np_round_bounds by blast
  also have "\<dots> \<le> (real q + 1 - 1 / real b) * 2 ^ k + 1 / 2" using xu by simp
  also have "\<dots> = (real q + 1) * 2 ^ k - 2 ^ k / real b + 1 / 2" by (simp add: algebra_simps)
  also have "\<dots> < (real q + 1) * 2 ^ k" using half by simp
  finally have upper: "fl64 x < real q + 1" unfolding f by (simp add: field_simps)
  have "0 \<le> fl64 x" using lower by (meson of_nat_0_le_iff order_trans)
  then have "py_int (fl64 x) = \<lfloor>fl64 x\<rfloor>" by (simp add: py_int_def)
  also have "\<dots> = int q" using lower upper by linarith
  finally show ?thesis unfolding x_def q_def .
qed

lemma np_round_nearest_even:
  "\<exists>k. np_round x = of_int k \<and> \<bar>x - of_int k\<bar> \<le> 1 / 2
       \<and> (\<bar>x - of_int k\<bar> = 1 / 2 \<longrightarrow> even k)"
proof -
  consider (lo) "x - of_int \<lfloor>x\<rfloor> < 1 / 2" | (hi) "1 / 2 < x - of_int \<lfloor>x\<rfloor>"
    | (tie) "x - of_int \<lfloor>x\<rfloor> = 1 / 2" by linarith
  then show ?thesis
  proof cases
    case lo
    have "0 \<le> x - of_int \<lfloor>x\<rfloor>" by linarith
    with lo have "np_round x = of_int \<lfloor>x\<rfloor> \<and> \<bar>x - of_int \<lfloor>x\<rfloor>\<bar> \<le> 1 / 2
       \<and> (\<bar>x - of_int \<lfloor>x\<rfloor>\<bar> = 1 / 2 \<longrightarrow> even \<lfloor>x\<rfloor>)"
      by (simp add: np_round_def Let_def)
    then show ?thesis by blast
  next
    case hi
    have "x - of_int \<lfloor>x\<rfloor> < 1" by linarith
    with hi have "np_round x = of_int (\<lfloor>x\<rfloor> + 1) \<and> \<bar>x - of_int (\<lfloor>x\<rfloor> + 1)\<bar> \<le> 1 / 2
       \<and> (\<bar>x - of_int (\<lfloor>x\<rfloor> + 1)\<bar> = 1 / 2 \<longrightarrow> even (\<lfloor>x\<rfloor> + 1))"
      by (simp add: np_round_def Let_def)
    then show ?thesis by blast
  next
    case tie
    show ?thesis
    proof (cases "even \<lfloor>x\<rfloor>")
      case True
      with tie have "np_round x = of_int \<lfloor>x\<rfloor> \<and> \<bar>x - of_int \<lfloor>x\<rfloor>\<bar> \<le> 1 / 2
         \<and> (\<bar>x - of_int \<lfloor>x\<rfloor>\<bar> = 1 / 2 \<longrightarrow> even \<lfloor>x\<rfloor>)"
        by (simp add: np_round_def Let_def)
      then show ?thesis by blast
    next
      case False
      with tie have "np_round x = of_int (\<lfloor>x\<rfloor> + 1) \<and> \<bar>x - of_int (\<lfloor>x\<rfloor> + 1)\<bar> \<le> 1 / 2
         \<and> (\<bar>x - of_int (\<lfloor>x\<rfloor> + 1)\<bar> = 1 / 2 \<longrightarrow> even (\<lfloor>x\<rfloor> + 1))"
        by (simp add: np_round_def Let_def)
      then show ?thesis by blast
    qed
  qed
qed

lemma py_slice_block:
  "py_slice xs (int t * int r) ((int t + 1) * int r) = block_of xs r t"
proof -
  have a: "(0::int) \<le> int t * int r" by simp
  have b: "int t * int r \<le> (int t + 1) * int r" by (simp add: algebra_simps)
  have c: "nat ((int t + 1) * int r - int t * int r) = r" by (simp add: algebra_simps)
  have d: "nat (int t * int r) = t * r" by (simp add: nat_mult_distrib)
  show ?thesis
    unfolding py_slice_nonneg [OF a b] c d block_of_def ..
qed

lemma block_sums_result:
  assumes "0 < r"
  shows "block_sums xs (int so) (int r) =
           Inr (map (\<lambda>k. sum_list (block_of xs r k)) [0 ..< (so + r - 1) div r])"
proof -
  have "int so - 0 + int r - 1 = int (so + r - 1)" using assms by simp
  then have n: "nat ((int so - 0 + int r - 1) div int r) = (so + r - 1) div r"
    by (simp only: zdiv_int [symmetric] nat_int)
  have s: "py_slice xs (0 + int k * int r) (0 + int k * int r + int r) = block_of xs r k" for k
    using py_slice_block [of xs k r] by (simp add: algebra_simps)
  have "py_range 0 (int so) (int r) =
          Inr (map (\<lambda>k. 0 + int k * int r) [0 ..< (so + r - 1) div r])"
    using assms unfolding py_range_def n by simp
  then show ?thesis
    unfolding block_sums_def by (simp only: sum.case list.map_comp comp_def s)
qed

lemma equal_case_result:
  assumes "column (high_activity_file p) ''Values'' = Inr high"
    and "column (low_activity_file p) ''Values'' = Inr low"
    and "length high = n" and "n \<le> length low"
  shows "equal_case p (int n) (replicate n 0, replicate n 0) el wc =
     Inr \<lparr>series_number_of_residents = map (\<lambda>t. high ! t + low ! t) [0 ..< n],
          series_heating_by_residents = map (\<lambda>t. 150 * high ! t + 100 * low ! t) [0 ..< n],
          series_electricity_consumption = el,
          series_water_consumption = wc\<rparr>"
proof -
  have 1: "equal_loop 150 (high_activity_file p) [0 ..< n] (replicate n 0, replicate n 0) =
             Inr (map (\<lambda>t. high ! t) [0 ..< n], map (\<lambda>t. 150 * high ! t) [0 ..< n])"
    using assms(3) by (simp add: equal_loop_result [OF assms(1)] cong: map_cong)
  have 2: "equal_loop 100 (low_activity_file p) [0 ..< n]
             (map (\<lambda>t. high ! t) [0 ..< n], map (\<lambda>t. 150 * high ! t) [0 ..< n]) =
             Inr (map (\<lambda>t. high ! t + low ! t) [0 ..< n],
                  map (\<lambda>t. 150 * high ! t + 100 * low ! t) [0 ..< n])"
    using assms(4) by (simp add: equal_loop_result [OF assms(2)] cong: map_cong)
  show ?thesis unfolding equal_case_def nat_int 1 sum.case 2 by simp
qed

lemma average_case_result:
  assumes "column (high_activity_file p) ''Values'' = Inr high"
    and "column (low_activity_file p) ''Values'' = Inr low"
    and "0 < r"
  shows "average_case p (int so) (int sd) (int r) (replicate sd 0, replicate sd 0) el wc =
     Inr \<lparr>series_number_of_residents =
            map (\<lambda>t. np_round (sum_list (block_of high r t) / real r)
                      + np_round (sum_list (block_of low r t) / real r)) [0 ..< sd],
          series_heating_by_residents =
            map (\<lambda>t. 150 * (sum_list (block_of high r t) / real r)
                      + 100 * (sum_list (block_of low r t) / real r)) [0 ..< sd],
          series_electricity_consumption =
            map (\<lambda>k. sum_list (block_of el r k) / real r) [0 ..< (so + r - 1) div r],
          series_water_consumption =
            map (\<lambda>k. sum_list (block_of wc r k)) [0 ..< (so + r - 1) div r]\<rparr>"
proof -
  have r0: "int r \<noteq> 0" using assms(3) by simp
  have 1: "average_loop 150 (high_activity_file p) (int r) [0 ..< sd]
             (replicate sd 0, replicate sd 0) =
             Inr (map (\<lambda>t. np_round (sum_list (block_of high r t) / real r)) [0 ..< sd],
                  map (\<lambda>t. 150 * (sum_list (block_of high r t) / real r)) [0 ..< sd])"
    by (simp add: average_loop_result [OF assms(1) r0] py_slice_block cong: map_cong)
  have 2: "average_loop 100 (low_activity_file p) (int r) [0 ..< sd]
             (map (\<lambda>t. np_round (sum_list (block_of high r t) / real r)) [0 ..< sd],
              map (\<lambda>t. 150 * (sum_list (block_of high r t) / real r)) [0 ..< sd]) =
             Inr (map (\<lambda>t. np_round (sum_list (block_of high r t) / real r)
                            + np_round (sum_list (block_of low r t) / real r)) [0 ..< sd],
                  map (\<lambda>t. 150 * (sum_list (block_of high r t) / real r)
                            + 100 * (sum_list (block_of low r t) / real r)) [0 ..< sd])"
    by (simp add: average_loop_result [OF assms(2) r0] py_slice_block cong: map_cong)
  show ?thesis
    unfolding average_case_def nat_int 1 sum.case 2 block_sums_result [OF assms(3)]
    by (simp add: comp_def)
qed


lemma compute_series_unfold:
  assumes "column (high_activity_file p) ''Values'' = Inr high"
    and "column (electricity_file p) ''Sum [kWh]'' = Inr kwh"
    and "column (warm_water_file p) ''Sum [L]'' = Inr litres"
    and "steps_desired_of params = Inr (int sd)" and "0 < sd"
  shows "compute_series params p =
     (if length high = sd
      then equal_case p (int (length high)) (replicate sd 0, replicate sd 0)
             (map (\<lambda>x. x * 1000 * 60) kwh) litres
      else if sd < length high
      then average_case p (int (length high)) (int sd)
             (py_int (fl64 (real (length high) / real sd)))
             (replicate sd 0, replicate sd 0) (map (\<lambda>x. x * 1000 * 60) kwh) litres
      else Inl (PlainException
        ''input from LPG is given in wrong time resolution - or at least cannot be interpolated correctly''))"
  using assms(5)
  by (simp add: compute_series_def assms(1-4) Let_def)

lemma block_index_bound:
  assumes "0 < (sd::nat)" and "sd < so" and "t < sd"
  shows "t < (so + so div sd - 1) div (so div sd)"
    and "(t + 1) * (so div sd) \<le> so"
    and "0 < so div sd"
proof -
  let ?r = "so div sd"
  have "sd \<le> so" using assms(2) by simp
  then have "sd div sd \<le> so div sd" by (rule div_le_mono)
  then show r: "0 < ?r" using assms(1) by simp
  have "t + 1 \<le> sd" using assms(3) by simp
  then have "(t + 1) * ?r \<le> sd * ?r" by (rule mult_le_mono1)
  also have "\<dots> \<le> so" by simp
  finally show b: "(t + 1) * ?r \<le> so" .
  with r have "(t + 1) * ?r \<le> so + ?r - 1" by linarith
  then have "(t + 1) * ?r div ?r \<le> (so + ?r - 1) div ?r"
    by (rule div_le_mono)
  then show "t < (so + ?r - 1) div ?r" using r by simp
qed

lemma compute_series_unfold_ratio:
  assumes "column (high_activity_file p) ''Values'' = Inr high"
    and "column (electricity_file p) ''Sum [kWh]'' = Inr kwh"
    and "column (warm_water_file p) ''Sum [L]'' = Inr litres"
    and "steps_desired_of params = Inr (int sd)" and "0 < sd" and "length high < 2 ^ 53"
  shows "compute_series params p =
     (if length high = sd
      then equal_case p (int (length high)) (replicate sd 0, replicate sd 0)
             (map (\<lambda>x. x * 1000 * 60) kwh) litres
      else if sd < length high
      then average_case p (int (length high)) (int sd) (int (length high div sd))
             (replicate sd 0, replicate sd 0) (map (\<lambda>x. x * 1000 * 60) kwh) litres
      else Inl (PlainException
        ''input from LPG is given in wrong time resolution - or at least cannot be interpolated correctly''))"
  unfolding compute_series_unfold [OF assms(1-5)] py_int_fl64_div [OF assms(5,6)] ..

text \<open>
  Claim C8. On a cache miss, with \<open>steps_original\<close> the length of the fetched occupancy
  profile (the \<open>Values\<close> of the high-activity file) and a positive \<open>steps_desired\<close>: when the
  two are equal the series are taken step by step as fetched (the residents of both
  activity files added, the heat gains 150 and 100 per person, the electricity converted to
  watt); when \<open>steps_original\<close> is greater (and below \<open>2^53\<close>, so that the float quotient
  truncates to \<open>steps_ratio = steps_original div steps_desired\<close>), every simulation step
  gets the mean of its block as electricity consumption, the sum of its block as water
  consumption and, as resident count, the sum over the two activity files of the rounded
  mean of the file's block, each file rounded on its own; when \<open>steps_original\<close> is less, an
  exception is raised. The rounding is to the nearest integer, a tie to the even one.
\<close>

theorem compute_series_cases:
  assumes "column (high_activity_file p) ''Values'' = Inr high"
    and "column (low_activity_file p) ''Values'' = Inr low"
    and "column (electricity_file p) ''Sum [kWh]'' = Inr kwh"
    and "column (warm_water_file p) ''Sum [L]'' = Inr litres"
    and "steps_desired_of params = Inr (int steps_desired)"
    and "0 < steps_desired"
  shows "(length high = steps_desired \<and> steps_desired \<le> length low \<longrightarrow>
           compute_series params p =
             Inr \<lparr>series_number_of_residents =
                    map (\<lambda>t. high ! t + low ! t) [0 ..< steps_desired],
                  series_heating_by_residents =
                    map (\<lambda>t. 150 * high ! t + 100 * low ! t) [0 ..< steps_desired],
                  series_electricity_consumption = map (\<lambda>x. x * 1000 * 60) kwh,
                  series_water_consumption = litres\<rparr>)
       \<and> (steps_desired < length high \<and> length high < 2 ^ 53 \<longrightarrow>
           (\<exists>sr. compute_series params p = Inr sr
              \<and> length (series_number_of_residents sr) = steps_desired
              \<and> length (series_heating_by_residents sr) = steps_desired
              \<and> (\<forall>t < steps_desired.
                    series_electricity_consumption sr ! t =
                      sum_list (block_of (map (\<lambda>x. x * 1000 * 60) kwh)
                                  (length high div steps_desired) t)
                        / real (length high div steps_desired)
                  \<and> series_water_consumption sr ! t =
                      sum_list (block_of litres (length high div steps_desired) t)
                  \<and> series_number_of_residents sr ! t =
                      np_round (sum_list (block_of high (length high div steps_desired) t)
                                  / real (length high div steps_desired))
                      + np_round (sum_list (block_of low (length high div steps_desired) t)
                                  / real (length high div steps_desired))
                  \<and> series_heating_by_residents sr ! t =
                      150 * (sum_list (block_of high (length high div steps_desired) t)
                                  / real (length high div steps_desired))
                      + 100 * (sum_list (block_of low (length high div steps_desired) t)
                                  / real (length high div steps_desired))
                  \<and> length (block_of high (length high div steps_desired) t)
                      = length high div steps_desired)))
       \<and> (length high < steps_desired \<longrightarrow>
           compute_series params p =
             Inl (PlainException
               ''input from LPG is given in wrong time resolution - or at least cannot be interpolated correctly''))
       \<and> (\<forall>x. \<exists>k. np_round x = of_int k \<and> \<bar>x - of_int k\<bar> \<le> 1 / 2
                  \<and> (\<bar>x - of_int k\<bar> = 1 / 2 \<longrightarrow> even k))"
proof (intro conjI impI)
  note u = compute_series_unfold [OF assms(1,3,4,5,6)]
  show "\<forall>x. \<exists>k. np_round x = of_int k \<and> \<bar>x - of_int k\<bar> \<le> 1 / 2
                  \<and> (\<bar>x - of_int k\<bar> = 1 / 2 \<longrightarrow> even k)"
    using np_round_nearest_even by blast
  {
    assume "length high = steps_desired \<and> steps_desired \<le> length low"
    then have e: "length high = steps_desired" "steps_desired \<le> length low" by simp_all
    show "compute_series params p =
             Inr \<lparr>series_number_of_residents =
                    map (\<lambda>t. high ! t + low ! t) [0 ..< steps_desired],
                  series_heating_by_residents =
                    map (\<lambda>t. 150 * high ! t + 100 * low ! t) [0 ..< steps_desired],
                  series_electricity_consumption = map (\<lambda>x. x * 1000 * 60) kwh,
                  series_water_consumption = litres\<rparr>"
      using e(1) by (simp add: u equal_case_result [OF assms(1,2) e])
  }
  {
    assume "length high < steps_desired"
    then show "compute_series params p =
             Inl (PlainException
               ''input from LPG is given in wrong time resolution - or at least cannot be interpolated correctly'')"
      by (simp add: u)
  }
  {
    assume "steps_desired < length high \<and> length high < 2 ^ 53"
    then have gt: "steps_desired < length high" and small: "length high < 2 ^ 53" by simp_all
    note v = compute_series_unfold_ratio [OF assms(1,3,4,5,6) small]
    define r where "r = length high div steps_desired"
    have r: "0 < r" unfolding r_def by (rule block_index_bound(3) [OF assms(6) gt assms(6)])
    define sr where "sr =
       \<lparr>series_number_of_residents =
            map (\<lambda>t. np_round (sum_list (block_of high r t) / real r)
                      + np_round (sum_list (block_of low r t) / real r)) [0 ..< steps_desired],
          series_heating_by_residents =
            map (\<lambda>t. 150 * (sum_list (block_of high r t) / real r)
                      + 100 * (sum_list (block_of low r t) / real r)) [0 ..< steps_desired],
          series_electricity_consumption =
            map (\<lambda>k. sum_list (block_of (map (\<lambda>x. x * 1000 * 60) kwh) r k) / real r)
              [0 ..< (length high + r - 1) div r],
          series_water_consumption =
            map (\<lambda>k. sum_list (block_of litres r k)) [0 ..< (length high + r - 1) div r]\<rparr>"
    have c: "compute_series params p = Inr sr"
      using gt unfolding sr_def
      by (simp add: v average_case_result [OF assms(1,2) r] r_def [symmetric])
    have per: "series_electricity_consumption sr ! t =
                 sum_list (block_of (map (\<lambda>x. x * 1000 * 60) kwh) r t) / real r
             \<and> series_water_consumption sr ! t = sum_list (block_of litres r t)
             \<and> series_number_of_residents sr ! t =
                 np_round (sum_list (block_of high r t) / real r)
                 + np_round (sum_list (block_of low r t) / real r)
             \<and> series_heating_by_residents sr ! t =
                 150 * (sum_list (block_of high r t) / real r)
                 + 100 * (sum_list (block_of low r t) / real r)
             \<and> length (block_of high r t) = r" if t: "t < steps_desired" for t
    proof -
      have i: "t < (length high + r - 1) div r" and b: "(t + 1) * r \<le> length high"
        unfolding r_def
        by (rule block_index_bound(1) [OF assms(6) gt t], rule block_index_bound(2) [OF assms(6) gt t])
      have "length (block_of high r t) = r"
        using b by (simp add: block_of_def)
      then show ?thesis using i t by (simp add: sr_def)
    qed
    have "length (series_number_of_residents sr) = steps_desired"
      and "length (series_heating_by_residents sr) = steps_desired"
      by (simp_all add: sr_def)
    with c per show "\<exists>sr. compute_series params p = Inr sr
              \<and> length (series_number_of_residents sr) = steps_desired
              \<and> length (series_heating_by_residents sr) = steps_desired
              \<and> (\<forall>t < steps_desired.
                    series_electricity_consumption sr ! t =
                      sum_list (block_of (map (\<lambda>x. x * 1000 * 60) kwh)
                                  (length high div steps_desired) t)
                        / real (length high div steps_desired)
                  \<and> series_water_consumption sr ! t =
                      sum_list (block_of litres (length high div steps_desired) t)
                  \<and> series_number_of_residents sr ! t =
                      np_round (sum_list (block_of high (length high div steps_desired) t)
                                  / real (length high div steps_desired))
                      + np_round (sum_list (block_of low (length high div steps_desired) t)
                                  / real (length high div steps_desired))
                  \<and> series_heating_by_residents sr ! t =
                      150 * (sum_list (block_of high (length high div steps_desired) t)
                                  / real (length high div steps_desired))
                      + 100 * (sum_list (block_of low (length high div steps_desired) t)
                                  / real (length high div steps_desired))
                  \<and> length (block_of high (length high div steps_desired) t)
                      = length high div steps_desired)"
      unfolding r_def by blast
  }
qed


lemma example_columns:
  "column (high_activity_file example_profiles) ''Values'' = Inr [1, 0, 1, 1]"
  "column (low_activity_file example_profiles) ''Values'' = Inr [0, 1, 1, 1]"
  "column (electricity_file example_profiles) ''Sum [kWh]'' = Inr [0.001, 0.003, 0.002, 0.002]"
  "column (warm_water_file example_profiles) ''Sum [L]'' = Inr [1, 2, 3, 4]"
  by (simp_all add: example_profiles_def column_def)

lemma tie_columns:
  "column (high_activity_file tie_profiles) ''Values'' = Inr [1, 2, 3, 2]"
  "column (low_activity_file tie_profiles) ''Values'' = Inr [0, 1, 0, 0]"
  "column (electricity_file tie_profiles) ''Sum [kWh]'' = Inr [0.001, 0.003, 0.002, 0.002]"
  "column (warm_water_file tie_profiles) ''Sum [L]'' = Inr [1, 2, 3, 4]"
  by (simp_all add: tie_profiles_def column_def)

lemmas fl64_defs = fl64_def binary_exponent_def bit_length.simps np_round_def Let_def py_int_def

lemma example_steps_desired:
  "steps_desired_of \<lparr>seconds_per_timestep = 43200, simulation_days = 1, predictive = b\<rparr>
     = Inr (int 2)"
  "steps_desired_of \<lparr>seconds_per_timestep = 21600, simulation_days = 1, predictive = b\<rparr>
     = Inr (int 4)"
  "steps_desired_of \<lparr>seconds_per_timestep = 10800, simulation_days = 1, predictive = b\<rparr>
     = Inr (int 8)"
  by (simp_all add: steps_desired_of_def fl64_defs)

text \<open>
  A week in steps of 168 seconds: the float quotient \<open>3600 / 168\<close> lies below the exact
  one, its product with 168 below 3600, and the truncation gives 3599 steps, not 3600.
\<close>

lemma steps_desired_week:
  "steps_desired_of \<lparr>seconds_per_timestep = 168, simulation_days = 7, predictive = b\<rparr>
     = Inr 3599"
  by (simp add: steps_desired_of_def fl64_defs)

lemma np_round_half:
  "np_round 0 = 0" "np_round (1 / 2) = 0" "np_round 1 = 1" "np_round (3 / 2) = 2"
  "np_round (5 / 2) = 2"
  by (simp_all add: np_round_def Let_def)

lemma example_series:
  "compute_series \<lparr>seconds_per_timestep = 43200, simulation_days = 1, predictive = b\<rparr>
     example_profiles =
     Inr \<lparr>series_number_of_residents = [0, 2],
          series_heating_by_residents = [125, 250],
          series_electricity_consumption = [120, 120],
          series_water_consumption = [3, 7]\<rparr>"
proof -
  have r: "(0::nat) < 2" by simp
  have small: "length [1, 0, 1, 1::real] < 2 ^ 53" by simp
  have two: "[0 ..< 2] = [0, 1]" by (simp add: upt_rec)
  have u: "compute_series \<lparr>seconds_per_timestep = 43200, simulation_days = 1, predictive = b\<rparr>
             example_profiles =
             average_case example_profiles (int 4) (int 2) (int 2) (replicate 2 0, replicate 2 0)
               (map (\<lambda>x. x * 1000 * 60) [0.001, 0.003, 0.002, 0.002]) [1, 2, 3, 4]"
    using compute_series_unfold_ratio [OF example_columns(1,3,4) example_steps_desired(1) r small]
    by simp
  show ?thesis
    unfolding u average_case_result [OF example_columns(1,2) r]
    by (simp add: two block_of_def np_round_half)
qed

lemma example_series_equal:
  "compute_series \<lparr>seconds_per_timestep = 21600, simulation_days = 1, predictive = b\<rparr>
     example_profiles =
     Inr \<lparr>series_number_of_residents = [1, 1, 2, 2],
          series_heating_by_residents = [150, 100, 250, 250],
          series_electricity_consumption = [60, 180, 120, 120],
          series_water_consumption = [1, 2, 3, 4]\<rparr>"
proof -
  have r: "(0::nat) < 4" by simp
  have four: "[0 ..< 4] = [0, 1, 2, 3]" by (simp add: upt_rec)
  have l: "length [1, 0, 1, 1::real] = 4" "4 \<le> length [0, 1, 1, 1::real]" by simp_all
  have u: "compute_series \<lparr>seconds_per_timestep = 21600, simulation_days = 1, predictive = b\<rparr>
             example_profiles =
             equal_case example_profiles (int 4) (replicate 4 0, replicate 4 0)
               (map (\<lambda>x. x * 1000 * 60) [0.001, 0.003, 0.002, 0.002]) [1, 2, 3, 4]"
    using compute_series_unfold [OF example_columns(1,3,4) example_steps_desired(2) r]
    by simp
  show ?thesis
    unfolding u equal_case_result [OF example_columns(1,2) l]
    by (simp add: four)
qed

theorem compute_series_cases_witness:
  "(\<exists>sr. compute_series \<lparr>seconds_per_timestep = 43200, simulation_days = 1, predictive = False\<rparr> example_profiles = Inr sr
        \<and> series_electricity_consumption sr ! 0 = 120
        \<and> series_water_consumption sr ! 1 = 7
        \<and> series_number_of_residents sr ! 0 = 0
        \<and> series_number_of_residents sr ! 1 = 2
        \<and> series_heating_by_residents sr ! 0 = 125)
   \<and> (\<exists>sr. compute_series \<lparr>seconds_per_timestep = 43200, simulation_days = 1, predictive = False\<rparr> tie_profiles = Inr sr
        \<and> series_number_of_residents sr ! 0 = 2
        \<and> series_number_of_residents sr ! 1 = 2
        \<and> series_heating_by_residents sr ! 0 = 275)
   \<and> compute_series \<lparr>seconds_per_timestep = 21600, simulation_days = 1, predictive = False\<rparr>
        example_profiles
        = Inr \<lparr>series_number_of_residents = [1, 1, 2, 2],
               series_heating_by_residents = [150, 100, 250, 250],
               series_electricity_consumption = [60, 180, 120, 120],
               series_water_consumption = [1, 2, 3, 4]\<rparr>
   \<and> compute_series \<lparr>seconds_per_timestep = 10800, simulation_days = 1, predictive = False\<rparr>
        example_profiles
        = Inl (PlainException
            ''input from LPG is given in wrong time resolution - or at least cannot be interpolated correctly'')
   \<and> np_round (3 / 2) = 2 \<and> np_round (5 / 2) = 2 \<and> np_round (1 / 2) = 0"
proof -
  have p2: "(0::nat) < 2" and p4: "(0::nat) < 4" and p8: "(0::nat) < 8" by simp_all
  note t2 = compute_series_cases [OF example_columns example_steps_desired(1) p2]
  note t4 = compute_series_cases [OF example_columns example_steps_desired(2) p4]
  note t8 = compute_series_cases [OF example_columns example_steps_desired(3) p8]
  note tt = compute_series_cases [OF tie_columns example_steps_desired(1) p2]
  have g: "2 < length [1, 0, 1, 1::real] \<and> length [1, 0, 1, 1::real] < 2 ^ 53" by simp
  from t2 [THEN conjunct2, THEN conjunct1, THEN mp, OF g] obtain sr where
    c: "compute_series \<lparr>seconds_per_timestep = 43200, simulation_days = 1, predictive = False\<rparr> example_profiles = Inr sr"
    and a: "\<forall>t < 2.
                    series_electricity_consumption sr ! t =
                      sum_list (block_of (map (\<lambda>x. x * 1000 * 60) [0.001, 0.003, 0.002, 0.002::real]) (length [1, 0, 1, 1::real] div 2) t) / real (length [1, 0, 1, 1::real] div 2)
                  \<and> series_water_consumption sr ! t = sum_list (block_of [1, 2, 3, 4::real] (length [1, 0, 1, 1::real] div 2) t)
                  \<and> series_number_of_residents sr ! t =
                      np_round (sum_list (block_of [1, 0, 1, 1::real] (length [1, 0, 1, 1::real] div 2) t) / real (length [1, 0, 1, 1::real] div 2))
                      + np_round (sum_list (block_of [0, 1, 1, 1::real] (length [1, 0, 1, 1::real] div 2) t) / real (length [1, 0, 1, 1::real] div 2))
                  \<and> series_heating_by_residents sr ! t =
                      150 * (sum_list (block_of [1, 0, 1, 1::real] (length [1, 0, 1, 1::real] div 2) t) / real (length [1, 0, 1, 1::real] div 2))
                      + 100 * (sum_list (block_of [0, 1, 1, 1::real] (length [1, 0, 1, 1::real] div 2) t) / real (length [1, 0, 1, 1::real] div 2))
                  \<and> length (block_of [1, 0, 1, 1::real] (length [1, 0, 1, 1::real] div 2) t) = (length [1, 0, 1, 1::real] div 2)"
    by blast
  have r: "(length [1, 0, 1, 1::real] div 2) = 2" by simp
  have z: "(0::nat) < 2" "(1::nat) < 2" by simp_all
  from a [rule_format, OF z(1)] have a0: "series_electricity_consumption sr ! 0 = 120"
      "series_number_of_residents sr ! 0 = 0" "series_heating_by_residents sr ! 0 = 125"
    unfolding r by (simp_all add: block_of_def np_round_half)
  from a [rule_format, OF z(2)] have a1: "series_water_consumption sr ! 1 = 7"
      "series_number_of_residents sr ! 1 = 2"
    unfolding r by (simp_all add: block_of_def np_round_half)
  from c a0 a1 have first:
    "\<exists>sr. compute_series \<lparr>seconds_per_timestep = 43200, simulation_days = 1, predictive = False\<rparr> example_profiles = Inr sr
        \<and> series_electricity_consumption sr ! 0 = 120
        \<and> series_water_consumption sr ! 1 = 7
        \<and> series_number_of_residents sr ! 0 = 0
        \<and> series_number_of_residents sr ! 1 = 2
        \<and> series_heating_by_residents sr ! 0 = 125"
    by blast
  have gt: "2 < length [1, 2, 3, 2::real] \<and> length [1, 2, 3, 2::real] < 2 ^ 53" by simp
  from tt [THEN conjunct2, THEN conjunct1, THEN mp, OF gt] obtain st where
    ct: "compute_series \<lparr>seconds_per_timestep = 43200, simulation_days = 1, predictive = False\<rparr> tie_profiles = Inr st"
    and b: "\<forall>t < 2.
                    series_electricity_consumption st ! t =
                      sum_list (block_of (map (\<lambda>x. x * 1000 * 60) [0.001, 0.003, 0.002, 0.002::real]) (length [1, 2, 3, 2::real] div 2) t) / real (length [1, 2, 3, 2::real] div 2)
                  \<and> series_water_consumption st ! t = sum_list (block_of [1, 2, 3, 4::real] (length [1, 2, 3, 2::real] div 2) t)
                  \<and> series_number_of_residents st ! t =
                      np_round (sum_list (block_of [1, 2, 3, 2::real] (length [1, 2, 3, 2::real] div 2) t) / real (length [1, 2, 3, 2::real] div 2))
                      + np_round (sum_list (block_of [0, 1, 0, 0::real] (length [1, 2, 3, 2::real] div 2) t) / real (length [1, 2, 3, 2::real] div 2))
                  \<and> series_heating_by_residents st ! t =
                      150 * (sum_list (block_of [1, 2, 3, 2::real] (length [1, 2, 3, 2::real] div 2) t) / real (length [1, 2, 3, 2::real] div 2))
                      + 100 * (sum_list (block_of [0, 1, 0, 0::real] (length [1, 2, 3, 2::real] div 2) t) / real (length [1, 2, 3, 2::real] div 2))
                  \<and> length (block_of [1, 2, 3, 2::real] (length [1, 2, 3, 2::real] div 2) t) = (length [1, 2, 3, 2::real] div 2)"
    by blast
  have rt: "(length [1, 2, 3, 2::real] div 2) = 2" by simp
  from b [rule_format, OF z(1)] have b0: "series_number_of_residents st ! 0 = 2"
      "series_heating_by_residents st ! 0 = 275"
    unfolding rt by (simp_all add: block_of_def np_round_half)
  from b [rule_format, OF z(2)] have b1: "series_number_of_residents st ! 1 = 2"
    unfolding rt by (simp add: block_of_def np_round_half)
  from ct b0 b1 have second:
    "\<exists>sr. compute_series \<lparr>seconds_per_timestep = 43200, simulation_days = 1, predictive = False\<rparr> tie_profiles = Inr sr
        \<and> series_number_of_residents sr ! 0 = 2
        \<and> series_number_of_residents sr ! 1 = 2
        \<and> series_heating_by_residents sr ! 0 = 275"
    by blast
  have four: "[0 ..< 4] = [0, 1, 2, 3]" by (simp add: upt_rec)
  from t4 have e:
    "compute_series \<lparr>seconds_per_timestep = 21600, simulation_days = 1, predictive = False\<rparr>
        example_profiles
        = Inr \<lparr>series_number_of_residents = [1, 1, 2, 2],
               series_heating_by_residents = [150, 100, 250, 250],
               series_electricity_consumption = [60, 180, 120, 120],
               series_water_consumption = [1, 2, 3, 4]\<rparr>"
    by (simp add: four)
  from t8 have l:
    "compute_series \<lparr>seconds_per_timestep = 10800, simulation_days = 1, predictive = False\<rparr>
        example_profiles
        = Inl (PlainException
            ''input from LPG is given in wrong time resolution - or at least cannot be interpolated correctly'')"
    by simp
  have n: "np_round (3 / 2) = 2 \<and> np_round (5 / 2) = 2 \<and> np_round (1 / 2) = 0"
    by (simp add: np_round_half)
  from first second e l n show ?thesis by blast
qed

text \<open>
  The resident count of the averaging branch is not the rounded mean of the block of the
  resident counts. In the example the residents per original step are 1, 1, 2, 2; the mean
  of the first block is 1, and so is its rounding. The code rounds the block means of the
  two activity files, 0.5 and 0.5, one by one to 0, and the resident count of the first
  simulation step is 0.
\<close>

theorem compute_series_residents_counterexample:
  "\<exists>fetched averaged.
      compute_series \<lparr>seconds_per_timestep = 21600, simulation_days = 1, predictive = False\<rparr>
        example_profiles = Inr fetched
    \<and> compute_series \<lparr>seconds_per_timestep = 43200, simulation_days = 1, predictive = False\<rparr>
        example_profiles = Inr averaged
    \<and> series_number_of_residents fetched = [1, 1, 2, 2]
    \<and> np_round (sum_list (block_of (series_number_of_residents fetched) 2 0) / 2) = 1
    \<and> series_number_of_residents averaged ! 0 = 0
    \<and> series_number_of_residents averaged ! 0
        \<noteq> np_round (sum_list (block_of (series_number_of_residents fetched) 2 0) / 2)"
  unfolding example_series example_series_equal
  by (simp add: block_of_def np_round_half)

section \<open>Frame of \<open>i_simulate\<close> and the cache paths of \<open>build\<close>\<close>

lemma write_output_cases:
  "write_output out xs t s = (Some IndexError, s)
   \<or> (\<exists>v. write_output out xs t s = (None, s\<lparr>stsv := set_output_value (stsv s) out v\<rparr>))"
proof -
  have "py_index xs t = Inl IndexError \<or> (\<exists>v. py_index xs t = Inr v)"
    by (simp add: py_index_def)
  then show ?thesis by (auto simp: write_output_def)
qed

lemma store_forecast_repository:
  "(\<forall>k. k \<noteq> Electricity_Demand_Forecast_24h \<longrightarrow>
        repository (snd (store_forecast t s)) k = repository s k)
   \<and> (\<not> predictive (my_simulation_parameters (connector s)) \<longrightarrow>
        repository (snd (store_forecast t s)) = repository s)"
  by (simp add: store_forecast_def Let_def set_entry_def)

lemma i_simulate_frame_aux:
  "connector (snd (i_simulate cfg t fc s)) = connector s
   \<and> io_events (snd (i_simulate cfg t fc s)) = io_events s
   \<and> (\<forall>k. k \<noteq> Electricity_Demand_Forecast_24h \<longrightarrow>
         repository (snd (i_simulate cfg t fc s)) k = repository s k)
   \<and> (\<not> predictive (my_simulation_parameters (connector s)) \<longrightarrow>
         repository (snd (i_simulate cfg t fc s)) = repository s)"
proof (cases "ww_step cfg t s")
  case (Inl e)
  then show ?thesis by (simp add: i_simulate_def)
next
  case (Inr l)
  let ?c = "connector s"
  consider (e1) "write_output (number_of_residentsC ?c) (number_of_residents ?c) t s
                   = (Some IndexError, s)"
    | (w1) v1 where "write_output (number_of_residentsC ?c) (number_of_residents ?c) t s
                   = (None, s\<lparr>stsv := set_output_value (stsv s) (number_of_residentsC ?c) v1\<rparr>)"
    using write_output_cases by blast
  then show ?thesis
  proof cases
    case e1
    with Inr show ?thesis by (simp add: i_simulate_def)
  next
    case w1
    let ?s1 = "s\<lparr>stsv := set_output_value (stsv s) (number_of_residentsC ?c) v1\<rparr>"
    consider (e2) "write_output (heating_by_residentsC ?c) (heating_by_residents ?c) t ?s1
                     = (Some IndexError, ?s1)"
      | (w2) v2 where "write_output (heating_by_residentsC ?c) (heating_by_residents ?c) t ?s1
                     = (None, ?s1\<lparr>stsv := set_output_value (stsv ?s1) (heating_by_residentsC ?c) v2\<rparr>)"
      using write_output_cases by blast
    then show ?thesis
    proof cases
      case e2
      with Inr w1 show ?thesis by (simp add: i_simulate_def)
    next
      case w2
      let ?s2 = "?s1\<lparr>stsv := set_output_value (stsv ?s1) (heating_by_residentsC ?c) v2\<rparr>"
      consider (e3) "write_output (electricity_outputC ?c) (electricity_consumption ?c) t ?s2
                       = (Some IndexError, ?s2)"
        | (w3) v3 where "write_output (electricity_outputC ?c) (electricity_consumption ?c) t ?s2
                       = (None, ?s2\<lparr>stsv := set_output_value (stsv ?s2) (electricity_outputC ?c) v3\<rparr>)"
        using write_output_cases by blast
      then show ?thesis
      proof cases
        case e3
        with Inr w1 w2 show ?thesis by (simp add: i_simulate_def)
      next
        case w3
        let ?s3 = "?s2\<lparr>stsv := set_output_value (stsv ?s2) (electricity_outputC ?c) v3\<rparr>"
        consider (e4) "write_output (water_consumptionC ?c) (water_consumption ?c) t ?s3
                         = (Some IndexError, ?s3)"
          | (w4) v4 where "write_output (water_consumptionC ?c) (water_consumption ?c) t ?s3
                         = (None, ?s3\<lparr>stsv := set_output_value (stsv ?s3) (water_consumptionC ?c) v4\<rparr>)"
          using write_output_cases by blast
        then show ?thesis
        proof cases
          case e4
          with Inr w1 w2 w3 show ?thesis by (simp add: i_simulate_def)
        next
          case w4
          let ?s4 = "?s3\<lparr>stsv := set_output_value (stsv ?s3) (water_consumptionC ?c) v4\<rparr>"
          have "i_simulate cfg t fc s = store_forecast t ?s4"
            using Inr w1 w2 w3 w4 by (simp add: i_simulate_def)
          then show ?thesis
            using store_forecast_frame [of t ?s4] store_forecast_repository [of t ?s4]
            by simp
        qed
      qed
    qed
  qed
qed

lemma build_events_head:
  "\<exists>rest. build_events (build c env) =
     CacheLookup (cache_filepath env)
       # (if files env (cache_filepath env) = None then ProfileRequest
          else FileRead (cache_filepath env)) # rest"
  by (auto simp: build_def get_cache_file_def assign_max_def Let_def
           split: option.splits sum.splits)


text \<open>
  Claim C7. A call of \<open>i_simulate\<close>, whatever its arguments and however it ends, leaves the
  connector as it was, and with it the four profile series built at construction time, and
  makes no file or network access. In the simulation repository it changes at most the entry
  of \<open>Electricity_Demand_Forecast_24h\<close>, and nothing when the predictive option is off; all
  else it writes is the value store of the step. The file and network accesses are those of
  \<open>build\<close>, which starts with the cache lookup followed by the read of the cache file or the
  profile request.
\<close>

theorem i_simulate_frame:
  "connector (snd (i_simulate cfg timestep fc s)) = connector s
   \<and> number_of_residents (connector (snd (i_simulate cfg timestep fc s)))
       = number_of_residents (connector s)
   \<and> heating_by_residents (connector (snd (i_simulate cfg timestep fc s)))
       = heating_by_residents (connector s)
   \<and> electricity_consumption (connector (snd (i_simulate cfg timestep fc s)))
       = electricity_consumption (connector s)
   \<and> water_consumption (connector (snd (i_simulate cfg timestep fc s)))
       = water_consumption (connector s)
   \<and> io_events (snd (i_simulate cfg timestep fc s)) = io_events s
   \<and> (\<forall>k. k \<noteq> Electricity_Demand_Forecast_24h \<longrightarrow>
         repository (snd (i_simulate cfg timestep fc s)) k = repository s k)
   \<and> (\<not> predictive (my_simulation_parameters (connector s)) \<longrightarrow>
         repository (snd (i_simulate cfg timestep fc s)) = repository s)
   \<and> (\<exists>rest. build_events (build c env) =
         CacheLookup (cache_filepath env)
           # (if files env (cache_filepath env) = None then ProfileRequest
              else FileRead (cache_filepath env)) # rest)"
  using i_simulate_frame_aux [of cfg timestep fc s] build_events_head [of c env]
  by simp

theorem i_simulate_frame_witness:
  "connector (snd (i_simulate example_config 0 False (example_state bound_connector 1 60)))
     = bound_connector
   \<and> io_events (snd (i_simulate example_config 0 False (example_state bound_connector 1 60)))
       = []
   \<and> repository (snd (i_simulate example_config 0 False (example_state bound_connector 1 60)))
        ''Weather_Forecast'' = None
   \<and> repository (snd (i_simulate example_config 0 False
        (example_state (unbound_connector\<lparr>my_simulation_parameters :=
            example_parameters\<lparr>predictive := False\<rparr>\<rparr>) 0 0))) = Map.empty
   \<and> take 2 (build_events (build (new_connector example_parameters) example_env))
       = [CacheLookup ''cache/UtspLpgConnector_1.csv'', ProfileRequest]"
proof -
  let ?b = "example_state bound_connector 1 60"
  let ?u = "example_state (unbound_connector\<lparr>my_simulation_parameters :=
            example_parameters\<lparr>predictive := False\<rparr>\<rparr>) 0 0"
  have n: "''Weather_Forecast'' \<noteq> Electricity_Demand_Forecast_24h"
    by (simp add: Electricity_Demand_Forecast_24h_def)
  have p: "\<not> predictive (my_simulation_parameters (connector ?u))"
    by (simp add: example_state_def)
  have v: "connector ?b = bound_connector" "io_events ?b = []"
    "repository ?b ''Weather_Forecast'' = None" "repository ?u = Map.empty"
    by (simp_all add: example_state_def)
  have f: "files example_env ''cache/UtspLpgConnector_1.csv'' = None"
    "cache_filepath example_env = ''cache/UtspLpgConnector_1.csv''"
    by (simp_all add: example_env_def)
  from i_simulate_frame [of example_config 0 False ?b "new_connector example_parameters" example_env]
       i_simulate_frame [of example_config 0 False ?u "new_connector example_parameters" example_env]
       n p
  show ?thesis
    by (auto simp add: v f)
qed


lemma column_read_csv:
  "name \<noteq> [] \<Longrightarrow> name \<noteq> ''Unnamed: 0'' \<Longrightarrow> column (read_csv csv) name = column csv name"
proof (induction csv)
  case Nil
  show ?case by (simp add: read_csv_def column_def)
next
  case (Cons col csv)
  obtain n xs where col: "col = (n, xs)" by (cases col)
  from Cons.IH [OF Cons.prems] have "map_of (read_csv csv) name = map_of csv name"
    by (auto simp: column_def split: option.splits)
  then show ?case
    using Cons.prems by (simp add: col read_csv_def column_def)
qed

lemma load_series_columns:
  assumes "column file ''number_of_residents'' = Inr num"
    and "column file ''heating_by_residents'' = Inr heat"
    and "column file ''electricity_consumption'' = Inr electricity"
    and "column file ''water_consumption'' = Inr water"
  shows "load_series (read_csv file) =
     Inr \<lparr>series_number_of_residents = num, series_heating_by_residents = heat,
          series_electricity_consumption = electricity, series_water_consumption = water\<rparr>"
  using assms by (simp add: load_series_def column_read_csv)

lemma load_series_roundtrip:
  assumes "cache_table sr = Inr db"
  shows "load_series (read_csv (to_csv db)) = Inr sr"
proof -
  from assms have db: "db = [(''number_of_residents'', series_number_of_residents sr),
                (''heating_by_residents'', series_heating_by_residents sr),
                (''electricity_consumption'', series_electricity_consumption sr),
                (''water_consumption'', series_water_consumption sr)]"
    by (simp add: cache_table_def split: if_splits)
  have c: "column (to_csv db) ''number_of_residents'' = Inr (series_number_of_residents sr)"
    "column (to_csv db) ''heating_by_residents'' = Inr (series_heating_by_residents sr)"
    "column (to_csv db) ''electricity_consumption'' = Inr (series_electricity_consumption sr)"
    "column (to_csv db) ''water_consumption'' = Inr (series_water_consumption sr)"
    by (simp_all add: db to_csv_def column_def)
  show ?thesis by (simp add: load_series_columns [OF c])
qed

lemma assign_max_fields:
  "build_events (assign_max c fs evs) = evs"
  "files_after (assign_max c fs evs) = fs"
  "number_of_residents (built (assign_max c fs evs)) = number_of_residents c"
  "heating_by_residents (built (assign_max c fs evs)) = heating_by_residents c"
  "electricity_consumption (built (assign_max c fs evs)) = electricity_consumption c"
  "water_consumption (built (assign_max c fs evs)) = water_consumption c"
  by (simp_all add: assign_max_def split: sum.splits)

lemma count_list_FileWrite: "count_list (map FileWrite names) ProfileRequest = 0"
  by (induction names) simp_all

lemma build_miss_events:
  assumes "files env (cache_filepath env) = None"
  shows "\<exists>rest. build_events (build c env) =
           [CacheLookup (cache_filepath env), ProfileRequest] @ map FileWrite rest"
proof (cases "utsp_reply env")
  case (Inl e)
  then have "build_events (build c env) =
           [CacheLookup (cache_filepath env), ProfileRequest] @ map FileWrite []"
    using assms by (simp add: build_def get_cache_file_def Let_def)
  then show ?thesis by blast
next
  case (Inr p)
  show ?thesis
  proof (cases "compute_series (my_simulation_parameters c) p")
    case (Inl e)
    then have "build_events (build c env) =
           [CacheLookup (cache_filepath env), ProfileRequest] @ map FileWrite (saved_result_files p)"
      using assms Inr by (simp add: build_def get_cache_file_def Let_def)
    then show ?thesis by blast
  next
    case sr: (Inr sr)
    show ?thesis
    proof (cases "cache_table sr")
      case (Inl e)
      then have "build_events (build c env) =
           [CacheLookup (cache_filepath env), ProfileRequest] @ map FileWrite (saved_result_files p)"
        using assms Inr sr by (simp add: build_def get_cache_file_def Let_def)
      then show ?thesis by blast
    next
      case db: (Inr db)
      have "build_events (build c env) =
           [CacheLookup (cache_filepath env), ProfileRequest]
             @ map FileWrite (saved_result_files p @ [cache_filepath env])"
        using assms Inr sr db by (simp add: build_def get_cache_file_def assign_max_fields Let_def)
      then show ?thesis by blast
    qed
  qed
qed

text \<open>
  Claim C3. \<open>build\<close> looks the cache up once. When the cache file exists it reads that file,
  makes no profile request and writes no file, and the connector gets the four columns
  \<open>number_of_residents\<close>, \<open>heating_by_residents\<close>, \<open>electricity_consumption\<close> and
  \<open>water_consumption\<close> of the file. When the file does not exist it makes one profile request
  and reads no cache file; when the service delivers and the four series are computed with
  equal lengths, they are written to the cache file as the four columns of these names, so
  that loading the file gives the same series back, and they are the series of the
  connector. The write comes before the last statement of \<open>build\<close>.
\<close>

theorem build_cache_paths:
  "(files env (cache_filepath env) = Some cache_file \<longrightarrow>
      build_events (build c env)
        = [CacheLookup (cache_filepath env), FileRead (cache_filepath env)]
    \<and> ProfileRequest \<notin> set (build_events (build c env))
    \<and> files_after (build c env) = files env
    \<and> (column cache_file ''number_of_residents'' = Inr num
       \<and> column cache_file ''heating_by_residents'' = Inr heat
       \<and> column cache_file ''electricity_consumption'' = Inr electricity
       \<and> column cache_file ''water_consumption'' = Inr water \<longrightarrow>
         number_of_residents (built (build c env)) = num
       \<and> heating_by_residents (built (build c env)) = heat
       \<and> electricity_consumption (built (build c env)) = electricity
       \<and> water_consumption (built (build c env)) = water))
   \<and> (files env (cache_filepath env) = None \<longrightarrow>
      take 2 (build_events (build c env)) = [CacheLookup (cache_filepath env), ProfileRequest]
    \<and> count_list (build_events (build c env)) ProfileRequest = 1
    \<and> FileRead (cache_filepath env) \<notin> set (build_events (build c env))
    \<and> (utsp_reply env = Inr p
       \<and> compute_series (my_simulation_parameters c) p = Inr sr
       \<and> cache_table sr = Inr db \<longrightarrow>
         build_events (build c env)
           = [CacheLookup (cache_filepath env), ProfileRequest]
               @ map FileWrite (saved_result_files p) @ [FileWrite (cache_filepath env)]
       \<and> files_after (build c env) = (files env)(cache_filepath env \<mapsto> to_csv db)
       \<and> db = [(''number_of_residents'', series_number_of_residents sr),
               (''heating_by_residents'', series_heating_by_residents sr),
               (''electricity_consumption'', series_electricity_consumption sr),
               (''water_consumption'', series_water_consumption sr)]
       \<and> load_series (read_csv (to_csv db)) = Inr sr
       \<and> number_of_residents (built (build c env)) = series_number_of_residents sr
       \<and> heating_by_residents (built (build c env)) = series_heating_by_residents sr
       \<and> electricity_consumption (built (build c env)) = series_electricity_consumption sr
       \<and> water_consumption (built (build c env)) = series_water_consumption sr))"
proof (intro conjI impI)
  {
    assume hit: "files env (cache_filepath env) = Some cache_file"
    show ev: "build_events (build c env)
        = [CacheLookup (cache_filepath env), FileRead (cache_filepath env)]"
      using hit
      by (simp add: build_def get_cache_file_def assign_max_fields Let_def split: sum.splits)
    show "ProfileRequest \<notin> set (build_events (build c env))"
      by (simp add: ev)
    show "files_after (build c env) = files env"
      using hit
      by (simp add: build_def get_cache_file_def assign_max_fields Let_def split: sum.splits)
    assume cols: "column cache_file ''number_of_residents'' = Inr num
       \<and> column cache_file ''heating_by_residents'' = Inr heat
       \<and> column cache_file ''electricity_consumption'' = Inr electricity
       \<and> column cache_file ''water_consumption'' = Inr water"
    then have l: "load_series (read_csv cache_file) =
       Inr \<lparr>series_number_of_residents = num, series_heating_by_residents = heat,
            series_electricity_consumption = electricity, series_water_consumption = water\<rparr>"
      by (simp add: load_series_columns)
    show "number_of_residents (built (build c env)) = num"
      "heating_by_residents (built (build c env)) = heat"
      "electricity_consumption (built (build c env)) = electricity"
      "water_consumption (built (build c env)) = water"
      using hit l
      by (simp_all add: build_def get_cache_file_def assign_max_fields assign_series_def Let_def)
  }
  {
    assume miss: "files env (cache_filepath env) = None"
    from build_miss_events [OF miss, of c] obtain rest where
      ev: "build_events (build c env) =
             [CacheLookup (cache_filepath env), ProfileRequest] @ map FileWrite rest"
      by blast
    show "take 2 (build_events (build c env))
            = [CacheLookup (cache_filepath env), ProfileRequest]"
      by (simp add: ev)
    show "count_list (build_events (build c env)) ProfileRequest = 1"
      by (simp add: ev count_list_FileWrite)
    show "FileRead (cache_filepath env) \<notin> set (build_events (build c env))"
      by (auto simp: ev)
    assume ok: "utsp_reply env = Inr p
       \<and> compute_series (my_simulation_parameters c) p = Inr sr
       \<and> cache_table sr = Inr db"
    then have db: "cache_table sr = Inr db" by simp
    show "build_events (build c env)
           = [CacheLookup (cache_filepath env), ProfileRequest]
               @ map FileWrite (saved_result_files p) @ [FileWrite (cache_filepath env)]"
      "files_after (build c env) = (files env)(cache_filepath env \<mapsto> to_csv db)"
      "number_of_residents (built (build c env)) = series_number_of_residents sr"
      "heating_by_residents (built (build c env)) = series_heating_by_residents sr"
      "electricity_consumption (built (build c env)) = series_electricity_consumption sr"
      "water_consumption (built (build c env)) = series_water_consumption sr"
      using miss ok
      by (simp_all add: build_def get_cache_file_def assign_max_fields assign_series_def Let_def)
    show "db = [(''number_of_residents'', series_number_of_residents sr),
               (''heating_by_residents'', series_heating_by_residents sr),
               (''electricity_consumption'', series_electricity_consumption sr),
               (''water_consumption'', series_water_consumption sr)]"
      using db by (simp add: cache_table_def split: if_splits)
    show "load_series (read_csv (to_csv db)) = Inr sr"
      by (rule load_series_roundtrip [OF db])
  }
qed


lemma example_parameters_series:
  "compute_series example_parameters example_profiles =
     Inr \<lparr>series_number_of_residents = [0, 2],
          series_heating_by_residents = [125, 250],
          series_electricity_consumption = [120, 120],
          series_water_consumption = [3, 7]\<rparr>"
  unfolding example_parameters_def by (rule example_series)

theorem build_cache_paths_witness:
  "build_events (build (new_connector example_parameters) example_env)
     = [CacheLookup ''cache/UtspLpgConnector_1.csv'', ProfileRequest,
        FileWrite ''FlexibilityEvents.HH1.json'', FileWrite ''cache/UtspLpgConnector_1.csv'']
   \<and> electricity_consumption (built (build (new_connector example_parameters) example_env))
       = [120, 120]
   \<and> water_consumption (built (build (new_connector example_parameters) example_env)) = [3, 7]
   \<and> build_events (build (new_connector example_parameters) cached_env)
       = [CacheLookup ''cache/UtspLpgConnector_1.csv'', FileRead ''cache/UtspLpgConnector_1.csv'']
   \<and> number_of_residents (built (build (new_connector example_parameters) cached_env)) = [0, 2]
   \<and> heating_by_residents (built (build (new_connector example_parameters) cached_env))
       = [125, 250]
   \<and> electricity_consumption (built (build (new_connector example_parameters) cached_env))
       = [120, 120]
   \<and> water_consumption (built (build (new_connector example_parameters) cached_env)) = [3, 7]"
proof -
  let ?c = "new_connector example_parameters"
  let ?sr = "\<lparr>series_number_of_residents = [0, 2],
          series_heating_by_residents = [125, 250],
          series_electricity_consumption = [120, 120],
          series_water_consumption = [3, 7::real]\<rparr>"
  let ?db = "[(''number_of_residents'', [0, 2::real]),
               (''heating_by_residents'', [125, 250]),
               (''electricity_consumption'', [120, 120]),
               (''water_consumption'', [3, 7])]"
  have miss: "files example_env (cache_filepath example_env) = None"
    and reply: "utsp_reply example_env = Inr example_profiles"
    and path: "cache_filepath example_env = ''cache/UtspLpgConnector_1.csv''"
    and saved: "saved_result_files example_profiles = [''FlexibilityEvents.HH1.json'']"
    by (simp_all add: example_env_def example_profiles_def)
  have sr: "compute_series (my_simulation_parameters ?c) example_profiles = Inr ?sr"
    by (simp add: new_connector_def example_parameters_series)
  have db: "cache_table ?sr = Inr ?db"
    by (simp add: cache_table_def)
  from build_cache_paths [where env = example_env and c = ?c and p = example_profiles
                            and sr = ?sr and db = ?db, THEN conjunct2, THEN mp, OF miss]
  have m: "build_events (build ?c example_env)
           = [CacheLookup (cache_filepath example_env), ProfileRequest]
               @ map FileWrite (saved_result_files example_profiles)
               @ [FileWrite (cache_filepath example_env)]"
    "files_after (build ?c example_env)
           = (files example_env)(cache_filepath example_env \<mapsto> to_csv ?db)"
    "electricity_consumption (built (build ?c example_env)) = [120, 120]"
    "water_consumption (built (build ?c example_env)) = [3, 7]"
    using reply sr db by simp_all
  have hit: "files cached_env (cache_filepath cached_env) = Some (to_csv ?db)"
    and path': "cache_filepath cached_env = ''cache/UtspLpgConnector_1.csv''"
    by (simp_all add: cached_env_def m(2) path)
  have cols: "column (to_csv ?db) ''number_of_residents'' = Inr [0, 2]
       \<and> column (to_csv ?db) ''heating_by_residents'' = Inr [125, 250]
       \<and> column (to_csv ?db) ''electricity_consumption'' = Inr [120, 120]
       \<and> column (to_csv ?db) ''water_consumption'' = Inr [3, 7]"
    by (simp add: to_csv_def column_def)
  from build_cache_paths [where env = cached_env and cache_file = "to_csv ?db" and c = ?c
                            and num = "[0, 2]" and heat = "[125, 250]"
                            and electricity = "[120, 120]" and water = "[3, 7]",
                          THEN conjunct1, THEN mp, OF hit]
  have h: "build_events (build ?c cached_env)
        = [CacheLookup (cache_filepath cached_env), FileRead (cache_filepath cached_env)]"
    "number_of_residents (built (build ?c cached_env)) = [0, 2]"
    "heating_by_residents (built (build ?c cached_env)) = [125, 250]"
    "electricity_consumption (built (build ?c cached_env)) = [120, 120]"
    "water_consumption (built (build ?c cached_env)) = [3, 7]"
    using cols by simp_all
  from m(1,3,4) h show ?thesis
    by (simp add: path path' saved)
qed

section \<open>Properties of the system chart\<close>

lemma make_graphviz_chart_rendered:
  assumes "rendered write_png ppdt (with_labels, with_class_names, filename, caption)"
  shows "\<exists>graph. make_graphviz_chart write_png ppdt with_labels with_class_names filename caption st
           = (Some \<lparr>entry_filename = filename, entry_caption = caption\<rparr>,
              st\<lparr>png_files := png_files st
                     @ [(os_path_join (result_directory ppdt) filename, graph)]\<rparr>)"
  using assms
  by (auto simp: rendered_def make_graphviz_chart_def try_render_def Let_def
           split: sum.splits option.splits)

lemma make_graphviz_chart_failed:
  assumes "\<not> rendered write_png ppdt (with_labels, with_class_names, filename, caption)"
  shows "\<exists>exc. make_graphviz_chart write_png ppdt with_labels with_class_names filename caption st
           = (None, st\<lparr>error_log := error_log st @ [(failure_message, exc)]\<rparr>)"
  using assms
  by (auto simp: rendered_def make_graphviz_chart_def try_render_def Let_def log_error_def
           split: sum.splits option.splits)

lemma make_graphviz_chart_step:
  "\<exists>st'. make_graphviz_chart write_png ppdt with_labels with_class_names filename caption st
          = (if rendered write_png ppdt (with_labels, with_class_names, filename, caption)
             then Some \<lparr>entry_filename = filename, entry_caption = caption\<rparr> else None, st')
     \<and> length (error_log st') = length (error_log st)
          + (if rendered write_png ppdt (with_labels, with_class_names, filename, caption)
             then 0 else 1)
     \<and> map fst (png_files st') = map fst (png_files st)
          @ (if rendered write_png ppdt (with_labels, with_class_names, filename, caption)
             then [os_path_join (result_directory ppdt) filename] else [])"
proof (cases "rendered write_png ppdt (with_labels, with_class_names, filename, caption)")
  case True
  from make_graphviz_chart_rendered [OF True, of st] obtain graph where
    "make_graphviz_chart write_png ppdt with_labels with_class_names filename caption st
       = (Some \<lparr>entry_filename = filename, entry_caption = caption\<rparr>,
          st\<lparr>png_files := png_files st
                 @ [(os_path_join (result_directory ppdt) filename, graph)]\<rparr>)"
    by blast
  with True show ?thesis by simp
next
  case False
  from make_graphviz_chart_failed [OF False, of st] obtain exc where
    "make_graphviz_chart write_png ppdt with_labels with_class_names filename caption st
       = (None, st\<lparr>error_log := error_log st @ [(failure_message, exc)]\<rparr>)"
    by blast
  with False show ?thesis by simp
qed

lemma make_chart_result:
  "fst (make_chart write_png ppdt st) = map entry_of (filter (rendered write_png ppdt) chart_calls)
   \<and> length (error_log (snd (make_chart write_png ppdt st)))
       = length (error_log st)
         + length (filter (\<lambda>call. \<not> rendered write_png ppdt call) chart_calls)
   \<and> map fst (png_files (snd (make_chart write_png ppdt st)))
       = map fst (png_files st)
         @ map (\<lambda>call. os_path_join (result_directory ppdt) (fst (snd (snd call))))
             (filter (rendered write_png ppdt) chart_calls)"
proof -
  let ?c1 = "(False, True, ''System_no_Edge_with_class_labels.png'',
              ''System Chart of all components'')"
  let ?c2 = "(False, False, ''System_no_Edge_labels.png'',
              ''System Chart of all components and all outputs.'')"
  let ?c3 = "(True, False, ''System_with_Edge_labels.png'',
              ''System Chart with labels on all edges.'')"
  from make_graphviz_chart_step [of write_png ppdt False True
         "''System_no_Edge_with_class_labels.png''" "''System Chart of all components''" st]
  obtain st1 where
    s1: "make_graphviz_chart write_png ppdt False True
           ''System_no_Edge_with_class_labels.png'' ''System Chart of all components'' st
         = (if rendered write_png ppdt ?c1
            then Some \<lparr>entry_filename = ''System_no_Edge_with_class_labels.png'',
                       entry_caption = ''System Chart of all components''\<rparr> else None, st1)"
    and l1: "length (error_log st1) = length (error_log st)
               + (if rendered write_png ppdt ?c1 then 0 else 1)"
    and p1: "map fst (png_files st1) = map fst (png_files st)
               @ (if rendered write_png ppdt ?c1
                  then [os_path_join (result_directory ppdt)
                          ''System_no_Edge_with_class_labels.png''] else [])"
    by blast
  from make_graphviz_chart_step [of write_png ppdt False False
         "''System_no_Edge_labels.png''"
         "''System Chart of all components and all outputs.''" st1]
  obtain st2 where
    s2: "make_graphviz_chart write_png ppdt False False
           ''System_no_Edge_labels.png''
           ''System Chart of all components and all outputs.'' st1
         = (if rendered write_png ppdt ?c2
            then Some \<lparr>entry_filename = ''System_no_Edge_labels.png'',
                       entry_caption = ''System Chart of all components and all outputs.''\<rparr>
            else None, st2)"
    and l2: "length (error_log st2) = length (error_log st1)
               + (if rendered write_png ppdt ?c2 then 0 else 1)"
    and p2: "map fst (png_files st2) = map fst (png_files st1)
               @ (if rendered write_png ppdt ?c2
                  then [os_path_join (result_directory ppdt) ''System_no_Edge_labels.png'']
                  else [])"
    by blast
  from make_graphviz_chart_step [of write_png ppdt True False
         "''System_with_Edge_labels.png''" "''System Chart with labels on all edges.''" st2]
  obtain st3 where
    s3: "make_graphviz_chart write_png ppdt True False
           ''System_with_Edge_labels.png'' ''System Chart with labels on all edges.'' st2
         = (if rendered write_png ppdt ?c3
            then Some \<lparr>entry_filename = ''System_with_Edge_labels.png'',
                       entry_caption = ''System Chart with labels on all edges.''\<rparr>
            else None, st3)"
    and l3: "length (error_log st3) = length (error_log st2)
               + (if rendered write_png ppdt ?c3 then 0 else 1)"
    and p3: "map fst (png_files st3) = map fst (png_files st2)
               @ (if rendered write_png ppdt ?c3
                  then [os_path_join (result_directory ppdt) ''System_with_Edge_labels.png'']
                  else [])"
    by blast
  have m: "make_chart write_png ppdt st =
             ((if rendered write_png ppdt ?c1 then [entry_of ?c1] else [])
              @ (if rendered write_png ppdt ?c2 then [entry_of ?c2] else [])
              @ (if rendered write_png ppdt ?c3 then [entry_of ?c3] else []), st3)"
    unfolding make_chart_def Let_def s1 prod.case s2 s3
    by (simp add: entry_of_def)
  have a: "fst (make_chart write_png ppdt st)
             = map entry_of (filter (rendered write_png ppdt) chart_calls)"
    unfolding m by (simp add: chart_calls_def)
  have b: "length (error_log (snd (make_chart write_png ppdt st)))
       = length (error_log st)
         + length (filter (\<lambda>call. \<not> rendered write_png ppdt call) chart_calls)"
    unfolding m using l1 l2 l3 by (simp add: chart_calls_def)
  have c: "map fst (png_files (snd (make_chart write_png ppdt st)))
       = map fst (png_files st)
         @ map (\<lambda>call. os_path_join (result_directory ppdt) (fst (snd (snd call))))
             (filter (rendered write_png ppdt) chart_calls)"
    unfolding m using p1 p2 p3 by (simp add: chart_calls_def)
  from a b c show ?thesis by blast
qed

lemma node_dict_names:
  "dom (snd (fold (add_component_node with_class_names) (enumerate n components) (graph, node_dict)))
     = dom node_dict \<union> my_component_name ` set components"
proof (induction components arbitrary: n graph node_dict)
  case Nil
  show ?case by simp
next
  case (Cons c cs)
  obtain graph' my_node where
    s: "add_component_node with_class_names (n, c) (graph, node_dict)
          = (graph', node_dict(my_component_name c \<mapsto> my_node))"
    by (simp add: add_component_node_def Let_def)
  define extended where "extended = node_dict(my_component_name c \<mapsto> my_node)"
  have d: "dom extended = insert (my_component_name c) (dom node_dict)"
    unfolding extended_def by simp
  have "fold (add_component_node with_class_names) (enumerate n (c # cs)) (graph, node_dict)
          = fold (add_component_node with_class_names) (enumerate (Suc n) cs) (graph', extended)"
    by (simp add: s extended_def)
  then show ?case
    using Cons.IH [of "Suc n" graph' extended] d by auto
qed

lemma label_inputs_dangling:
  assumes "component_input \<in> set inputs" and "src_object_name component_input = Some src"
    and "node_dict src = None"
  shows "\<exists>exc. label_inputs node_dict component inputs labels = Inl exc"
  using assms(1)
proof (induction inputs arbitrary: labels)
  case Nil
  then show ?case by simp
next
  case (Cons i inputs)
  show ?case
  proof (cases "i = component_input")
    case True
    then show ?thesis using assms(2,3) by simp
  next
    case False
    with Cons.prems have "component_input \<in> set inputs" by simp
    from Cons.IH [OF this] show ?thesis
      by (simp add: Let_def split: option.splits)
  qed
qed

lemma label_components_dangling:
  assumes "component \<in> set components" and "component_input \<in> set (component_inputs component)"
    and "src_object_name component_input = Some src" and "node_dict src = None"
  shows "\<exists>exc. label_components node_dict components labels = Inl exc"
  using assms(1)
proof (induction components arbitrary: labels)
  case Nil
  then show ?case by simp
next
  case (Cons c cs)
  show ?case
  proof (cases "c = component")
    case True
    from label_inputs_dangling
           [of component_input "component_inputs component" src node_dict component labels,
            OF assms(2,3,4)]
    show ?thesis using True by auto
  next
    case False
    with Cons.prems have "component \<in> set cs" by simp
    from Cons.IH [OF this] show ?thesis
      by (simp split: sum.splits)
  qed
qed

lemma chart_graph_dangling:
  assumes "component \<in> set components" and "component_input \<in> set (component_inputs component)"
    and "src_object_name component_input = Some src"
    and "src \<notin> my_component_name ` set components"
  shows "\<exists>exc. chart_graph components with_labels with_class_names = Inl exc"
proof -
  obtain graph node_dict where
    f: "fold (add_component_node with_class_names) (enumerate 0 components) (new_digraph, Map.empty)
          = (graph, node_dict)"
    by (cases "fold (add_component_node with_class_names) (enumerate 0 components)
                 (new_digraph, Map.empty)")
  from node_dict_names [of with_class_names 0 components new_digraph Map.empty]
  have "dom node_dict = my_component_name ` set components" unfolding f by simp
  with assms(4) have "node_dict src = None" by blast
  from label_components_dangling
         [of component components component_input src node_dict "[]", OF assms(1,2,3) this]
  show ?thesis unfolding chart_graph_def f by auto
qed

text \<open>
  Claim C2. Whatever exception the body of \<open>make_graphviz_chart\<close> raises, the call logs one
  error naming it and returns \<open>None\<close>; when the body ends, the call returns the entry of
  the file and logs nothing; so the result is \<open>None\<close> exactly for a chart that was not
  rendered. \<open>make_chart\<close> returns the entries of the rendered charts among its three, in the
  order of the calls, logs one error for every other chart and leaves the image files of
  the entries it returns. Neither function has an exception among its results: with the
  renderer failing on every file \<open>make_chart\<close> returns the empty list, and so it does when an
  input names a source that is no wrapped component, where the look-up raises KeyError
  before the renderer is reached.
\<close>

theorem make_chart_degrades:
  "(\<forall>exc. try_render write_png ppdt with_labels with_class_names filename st = Inl exc \<longrightarrow>
      make_graphviz_chart write_png ppdt with_labels with_class_names filename caption st
        = (None, st\<lparr>error_log := error_log st @ [(failure_message, exc)]\<rparr>))
   \<and> (\<forall>st'. try_render write_png ppdt with_labels with_class_names filename st = Inr st' \<longrightarrow>
      make_graphviz_chart write_png ppdt with_labels with_class_names filename caption st
        = (Some \<lparr>entry_filename = filename, entry_caption = caption\<rparr>, st'))
   \<and> (fst (make_graphviz_chart write_png ppdt with_labels with_class_names filename caption st)
         = None
       \<longleftrightarrow> \<not> rendered write_png ppdt (with_labels, with_class_names, filename, caption))
   \<and> fst (make_chart write_png ppdt st)
       = map entry_of (filter (rendered write_png ppdt) chart_calls)
   \<and> length (error_log (snd (make_chart write_png ppdt st)))
       = length (error_log st)
         + length (filter (\<lambda>call. \<not> rendered write_png ppdt call) chart_calls)
   \<and> map fst (png_files (snd (make_chart write_png ppdt st)))
       = map fst (png_files st)
         @ map (\<lambda>call. os_path_join (result_directory ppdt) (fst (snd (snd call))))
             (filter (rendered write_png ppdt) chart_calls)
   \<and> ((\<forall>graph path. write_png graph path \<noteq> None) \<longrightarrow> fst (make_chart write_png ppdt st) = [])
   \<and> (\<forall>component component_input src.
         component \<in> set (wrapped_components ppdt)
         \<and> component_input \<in> set (component_inputs component)
         \<and> src_object_name component_input = Some src
         \<and> src \<notin> my_component_name ` set (wrapped_components ppdt)
         \<longrightarrow> fst (make_chart write_png ppdt st) = [])"
proof -
  have a: "\<forall>exc. try_render write_png ppdt with_labels with_class_names filename st = Inl exc \<longrightarrow>
      make_graphviz_chart write_png ppdt with_labels with_class_names filename caption st
        = (None, st\<lparr>error_log := error_log st @ [(failure_message, exc)]\<rparr>)"
    by (simp add: make_graphviz_chart_def log_error_def)
  have b: "\<forall>st'. try_render write_png ppdt with_labels with_class_names filename st = Inr st' \<longrightarrow>
      make_graphviz_chart write_png ppdt with_labels with_class_names filename caption st
        = (Some \<lparr>entry_filename = filename, entry_caption = caption\<rparr>, st')"
    by (simp add: make_graphviz_chart_def)
  have c: "fst (make_graphviz_chart write_png ppdt with_labels with_class_names filename caption st)
         = None
       \<longleftrightarrow> \<not> rendered write_png ppdt (with_labels, with_class_names, filename, caption)"
    using make_graphviz_chart_step
            [of write_png ppdt with_labels with_class_names filename caption st]
    by auto
  note d = make_chart_result [of write_png ppdt st]
  have e: "(\<forall>graph path. write_png graph path \<noteq> None) \<longrightarrow> fst (make_chart write_png ppdt st) = []"
  proof
    assume n: "\<forall>graph path. write_png graph path \<noteq> None"
    have "\<not> rendered write_png ppdt call" for call
      using n by (auto simp: rendered_def Let_def split: prod.splits sum.splits)
    then show "fst (make_chart write_png ppdt st) = []"
      using d by simp
  qed
  have f: "\<forall>component component_input src.
         component \<in> set (wrapped_components ppdt)
         \<and> component_input \<in> set (component_inputs component)
         \<and> src_object_name component_input = Some src
         \<and> src \<notin> my_component_name ` set (wrapped_components ppdt)
         \<longrightarrow> fst (make_chart write_png ppdt st) = []"
  proof (intro allI impI)
    fix component component_input src
    assume h: "component \<in> set (wrapped_components ppdt)
         \<and> component_input \<in> set (component_inputs component)
         \<and> src_object_name component_input = Some src
         \<and> src \<notin> my_component_name ` set (wrapped_components ppdt)"
    have "\<not> rendered write_png ppdt call" for call
    proof -
      obtain wl wc fn cp where call: "call = (wl, wc, fn, cp)" by (cases call) auto
      from h chart_graph_dangling [of component "wrapped_components ppdt" component_input src wl wc]
      obtain exc where "chart_graph (wrapped_components ppdt) wl wc = Inl exc" by blast
      then show ?thesis unfolding call by (simp add: rendered_def)
    qed
    then show "fst (make_chart write_png ppdt st) = []"
      using d by simp
  qed
  from a b c d e f show ?thesis by blast
qed

lemmas chart_defs =
  chart_graph_def example_ppdt_def dangling_ppdt_def chart_connector_def chart_storage_def
  add_component_node_def new_digraph_def Let_def src_object_name_def src_field_name_def
  py_str_def add_label_edge_def enumerate_eq_zip upt_rec

lemma example_chart_graph:
  "\<exists>graph. chart_graph (wrapped_components example_ppdt) False True = Inr graph"
  "\<exists>graph. chart_graph (wrapped_components example_ppdt) False False = Inr graph"
  "\<exists>graph. chart_graph (wrapped_components example_ppdt) True False = Inr graph
      \<and> map (\<lambda>edge. snd (snd edge)) (graph_edges graph) =
          [Some (''WW_Mass_Output -> WW_Mass_Input in kg/s'' @ [CHR 0x5C, CHR ''n'']
                 @ ''WW_Temperature_Output -> WW_Temperature_Input in &#8451;'')]"
  by (simp_all add: chart_defs)

lemma dangling_chart_graph:
  "chart_graph (wrapped_components dangling_ppdt) with_labels with_class_names
     = Inl (KeyError ''Storage'')"
  by (simp add: chart_defs)

lemma example_paths:
  "os_path_join (result_directory example_ppdt) ''System_no_Edge_with_class_labels.png''
     = ''results/System_no_Edge_with_class_labels.png''"
  "os_path_join (result_directory example_ppdt) ''System_no_Edge_labels.png''
     = ''results/System_no_Edge_labels.png''"
  "os_path_join (result_directory example_ppdt) ''System_with_Edge_labels.png''
     = ''results/System_with_Edge_labels.png''"
  by (simp_all add: os_path_join_def example_ppdt_def)

lemma example_rendered:
  "rendered labels_fail example_ppdt
     (False, True, ''System_no_Edge_with_class_labels.png'', ''System Chart of all components'')"
  "rendered labels_fail example_ppdt
     (False, False, ''System_no_Edge_labels.png'',
      ''System Chart of all components and all outputs.'')"
  "\<not> rendered labels_fail example_ppdt
     (True, False, ''System_with_Edge_labels.png'', ''System Chart with labels on all edges.'')"
  using example_chart_graph
  by (auto simp: rendered_def example_paths labels_fail_def)

theorem make_chart_degrades_witness:
  "fst (make_chart graphviz_missing example_ppdt empty_chart_state) = []
   \<and> length (error_log (snd (make_chart graphviz_missing example_ppdt empty_chart_state))) = 3
   \<and> fst (make_chart labels_fail example_ppdt empty_chart_state)
       = [\<lparr>entry_filename = ''System_no_Edge_with_class_labels.png'',
           entry_caption = ''System Chart of all components''\<rparr>,
          \<lparr>entry_filename = ''System_no_Edge_labels.png'',
           entry_caption = ''System Chart of all components and all outputs.''\<rparr>]
   \<and> length (error_log (snd (make_chart labels_fail example_ppdt empty_chart_state))) = 1
   \<and> map fst (png_files (snd (make_chart labels_fail example_ppdt empty_chart_state)))
       = [''results/System_no_Edge_with_class_labels.png'',
          ''results/System_no_Edge_labels.png'']
   \<and> fst (make_chart graphviz_installed dangling_ppdt empty_chart_state) = []
   \<and> make_graphviz_chart graphviz_installed dangling_ppdt False True
        ''System_no_Edge_with_class_labels.png'' ''System Chart of all components''
        empty_chart_state
       = (None, \<lparr>error_log = [(failure_message, KeyError ''Storage'')], png_files = []\<rparr>)
   \<and> (\<exists>graph. make_graphviz_chart graphviz_installed example_ppdt True False
        ''System_with_Edge_labels.png'' ''System Chart with labels on all edges.''
        empty_chart_state
       = (Some \<lparr>entry_filename = ''System_with_Edge_labels.png'',
                entry_caption = ''System Chart with labels on all edges.''\<rparr>,
          \<lparr>error_log = [], png_files = [(''results/System_with_Edge_labels.png'', graph)]\<rparr>))"
proof -
  note missing = make_chart_degrades
    [of graphviz_missing example_ppdt False True "''System_no_Edge_with_class_labels.png''"
        empty_chart_state "''System Chart of all components''"]
  note partial = make_chart_degrades
    [of labels_fail example_ppdt False True "''System_no_Edge_with_class_labels.png''"
        empty_chart_state "''System Chart of all components''"]
  note dangling = make_chart_degrades
    [of graphviz_installed dangling_ppdt False True "''System_no_Edge_with_class_labels.png''"
        empty_chart_state "''System Chart of all components''"]
  note installed = make_chart_degrades
    [of graphviz_installed example_ppdt True False "''System_with_Edge_labels.png''"
        empty_chart_state "''System Chart with labels on all edges.''"]
  have never: "\<forall>graph path. graphviz_missing graph path \<noteq> None"
    by (simp add: graphviz_missing_def)
  have none: "\<not> rendered graphviz_missing example_ppdt call" for call
    by (auto simp: rendered_def graphviz_missing_def Let_def split: prod.splits sum.splits)
  from missing never have m1: "fst (make_chart graphviz_missing example_ppdt empty_chart_state) = []"
    by blast
  from missing have "length (error_log (snd (make_chart graphviz_missing example_ppdt empty_chart_state)))
       = length (error_log empty_chart_state)
         + length (filter (\<lambda>call. \<not> rendered graphviz_missing example_ppdt call) chart_calls)"
    by blast
  then have m2: "length (error_log (snd (make_chart graphviz_missing example_ppdt empty_chart_state))) = 3"
    by (simp add: none chart_calls_def empty_chart_state_def)
  from partial have "fst (make_chart labels_fail example_ppdt empty_chart_state)
       = map entry_of (filter (rendered labels_fail example_ppdt) chart_calls)"
    by blast
  then have p1: "fst (make_chart labels_fail example_ppdt empty_chart_state)
       = [\<lparr>entry_filename = ''System_no_Edge_with_class_labels.png'',
           entry_caption = ''System Chart of all components''\<rparr>,
          \<lparr>entry_filename = ''System_no_Edge_labels.png'',
           entry_caption = ''System Chart of all components and all outputs.''\<rparr>]"
    by (simp add: chart_calls_def example_rendered entry_of_def)
  from partial have "length (error_log (snd (make_chart labels_fail example_ppdt empty_chart_state)))
       = length (error_log empty_chart_state)
         + length (filter (\<lambda>call. \<not> rendered labels_fail example_ppdt call) chart_calls)"
    by blast
  then have p2: "length (error_log (snd (make_chart labels_fail example_ppdt empty_chart_state))) = 1"
    by (simp add: chart_calls_def example_rendered empty_chart_state_def)
  from partial have "map fst (png_files (snd (make_chart labels_fail example_ppdt empty_chart_state)))
       = map fst (png_files empty_chart_state)
         @ map (\<lambda>call. os_path_join (result_directory example_ppdt) (fst (snd (snd call))))
             (filter (rendered labels_fail example_ppdt) chart_calls)"
    by blast
  then have p3: "map fst (png_files (snd (make_chart labels_fail example_ppdt empty_chart_state)))
       = [''results/System_no_Edge_with_class_labels.png'',
          ''results/System_no_Edge_labels.png'']"
    by (simp add: chart_calls_def example_rendered empty_chart_state_def example_paths)
  have dang: "chart_connector \<in> set (wrapped_components dangling_ppdt)
         \<and> hd (component_inputs chart_connector) \<in> set (component_inputs chart_connector)
         \<and> src_object_name (hd (component_inputs chart_connector)) = Some ''Storage''
         \<and> ''Storage'' \<notin> my_component_name ` set (wrapped_components dangling_ppdt)"
    by (simp add: dangling_ppdt_def chart_connector_def src_object_name_def)
  from dangling dang have d1: "fst (make_chart graphviz_installed dangling_ppdt empty_chart_state) = []"
    by blast
  have "try_render graphviz_installed dangling_ppdt False True
          ''System_no_Edge_with_class_labels.png'' empty_chart_state = Inl (KeyError ''Storage'')"
    by (simp add: try_render_def dangling_chart_graph)
  with dangling have "make_graphviz_chart graphviz_installed dangling_ppdt False True
        ''System_no_Edge_with_class_labels.png'' ''System Chart of all components''
        empty_chart_state
       = (None, empty_chart_state\<lparr>error_log := error_log empty_chart_state
                                     @ [(failure_message, KeyError ''Storage'')]\<rparr>)"
    by blast
  then have d2: "make_graphviz_chart graphviz_installed dangling_ppdt False True
        ''System_no_Edge_with_class_labels.png'' ''System Chart of all components''
        empty_chart_state
       = (None, \<lparr>error_log = [(failure_message, KeyError ''Storage'')], png_files = []\<rparr>)"
    by (simp add: empty_chart_state_def)
  from example_chart_graph(3) obtain graph where
    g: "chart_graph (wrapped_components example_ppdt) True False = Inr graph" by blast
  have "try_render graphviz_installed example_ppdt True False
          ''System_with_Edge_labels.png'' empty_chart_state
        = Inr \<lparr>error_log = [], png_files = [(''results/System_with_Edge_labels.png'', graph)]\<rparr>"
    by (simp add: try_render_def g example_paths graphviz_installed_def empty_chart_state_def)
  with installed have i1: "make_graphviz_chart graphviz_installed example_ppdt True False
        ''System_with_Edge_labels.png'' ''System Chart with labels on all edges.''
        empty_chart_state
       = (Some \<lparr>entry_filename = ''System_with_Edge_labels.png'',
                entry_caption = ''System Chart with labels on all edges.''\<rparr>,
          \<lparr>error_log = [], png_files = [(''results/System_with_Edge_labels.png'', graph)]\<rparr>)"
    by blast
  from m1 m2 p1 p2 p3 d1 d2 i1 show ?thesis by blast
qed

end
